theory Spec2Isabelle
  imports Complex_Main
begin

section \<open>Numbers, errors and tensors\<close>

text \<open>
  The program is Python over torch tensors of 32-bit floats. The entries of a tensor are
  idealised as reals: their rounding and overflow are not modelled. What a float operation
  returns on finite operands when no finite answer exists is written out: a division by
  zero and the mean of an empty tensor give a value of \<open>fval\<close> that is not
  \<open>Fin\<close>. Where the program turns a product of Python floats into an integer
  that decides a length, the frame count of \<open>compute_loudness\<close>, the floats are
  IEEE doubles and every operation rounds (\<open>to_double\<close> below). A Python exception
  is a value \<open>Inl err\<close> of the result type \<open>error + 'a\<close>.
\<close>

datatype error = TypeError | IndexError | ZeroDivisionError | RuntimeError

datatype fval = Fin real | PInf | NInf | NaN

fun fadd :: "fval \<Rightarrow> fval \<Rightarrow> fval" where
  "fadd (Fin a) (Fin b) = Fin (a + b)"
| "fadd NaN _ = NaN"
| "fadd _ NaN = NaN"
| "fadd PInf NInf = NaN"
| "fadd NInf PInf = NaN"
| "fadd PInf _ = PInf"
| "fadd _ PInf = PInf"
| "fadd NInf _ = NInf"
| "fadd _ NInf = NInf"

fun fneg :: "fval \<Rightarrow> fval" where
  "fneg (Fin a) = Fin (- a)"
| "fneg PInf = NInf"
| "fneg NInf = PInf"
| "fneg NaN = NaN"

fun fmul :: "fval \<Rightarrow> fval \<Rightarrow> fval" where
  "fmul (Fin a) (Fin b) = Fin (a * b)"
| "fmul NaN _ = NaN"
| "fmul _ NaN = NaN"
| "fmul (Fin a) x = (if a = 0 then NaN else if 0 < a then x else fneg x)"
| "fmul x (Fin b) = (if b = 0 then NaN else if 0 < b then x else fneg x)"
| "fmul PInf x = x"
| "fmul NInf x = fneg x"

text \<open>
  Division of two finite floats, as IEEE 754 and torch's \<open>/\<close> give it: a zero divisor
  yields NaN for a zero dividend and an infinity of the dividend's sign otherwise. (The
  only divisor of the program is a sum of floats, which is +0 when it is zero and some
  entry is not.)
\<close>

definition fdiv :: "real \<Rightarrow> real \<Rightarrow> fval" where
  "fdiv a b =
     (if b = 0 then (if a = 0 then NaN else if 0 < a then PInf else NInf)
      else Fin (a / b))"

text \<open>
  A tensor of rank one or two (a signal or a batch of signals, a loudness curve or a
  batch of them). A tensor of rank three is a nested list, first axis outermost.
\<close>

datatype tensor = Vec "real list" | Mat "real list list"

fun flat :: "tensor \<Rightarrow> real list" where
  "flat (Vec xs) = xs"
| "flat (Mat m) = concat m"

definition map3 :: "('a \<Rightarrow> 'b) \<Rightarrow> 'a list list list \<Rightarrow> 'b list list list" where
  "map3 f t = map (map (map f)) t"

definition flat3 :: "'a list list list \<Rightarrow> 'a list" where
  "flat3 t = concat (concat t)"

text \<open>Python's \<open>int(x)\<close> on a float: truncation toward zero.\<close>

definition py_int :: "real \<Rightarrow> int" where
  "py_int r = (if 0 \<le> r then \<lfloor>r\<rfloor> else \<lceil>r\<rceil>)"

text \<open>
  A Python float is an IEEE 754 double. An arithmetic operation on doubles returns the
  exact result rounded to the nearest double, a tie going to the even significand:
  \<open>to_double x\<close> is that double, a multiple of the unit in the last place of the
  binade of \<open>x\<close> (53 significant bits). Overflow and subnormal numbers are out of
  the range of the lengths and rates it is applied to and are not modelled.
\<close>

definition round_half_even :: "real \<Rightarrow> int" where
  "round_half_even y =
     (let f = \<lfloor>y\<rfloor>
      in if y - of_int f < 1 / 2 then f
         else if 1 / 2 < y - of_int f then f + 1
         else if even f then f else f + 1)"

definition to_double :: "real \<Rightarrow> real" where
  "to_double x =
     (if x = 0 then 0
      else let ulp = 2 powr (of_int \<lfloor>log 2 \<bar>x\<bar>\<rfloor> - 52)
           in ulp * of_int (round_half_even (x / ulp)))"

section \<open>What lies outside the two source files\<close>

text \<open>
  \<open>torch.stft\<close>, librosa's frequency grid and A-weighting curve are library functions, and
  the constant of \<open>util.log_eps\<close> is in \<open>ddspsynth/util.py\<close>, which is not among the
  sources: they are the fields of a parameter \<open>env\<close>, and every theorem holds for any
  value of it.

  \<open>stft e audio n_fft window hop_length center\<close> stands for
  \<open>torch.stft(audio, n_fft, window=window, hop_length=hop_length, center=center)\<close>. It may
  raise. Its result has axes (batch, frequency bin, frame), each entry the pair of the real
  and the imaginary part; for a signal of rank one the result (frequency bin, frame) is held
  as a batch of one.
\<close>

record env =
  stft :: "tensor \<Rightarrow> nat \<Rightarrow> real list option \<Rightarrow> int \<Rightarrow> bool
             \<Rightarrow> error + (real \<times> real) list list list"
  fft_frequencies :: "nat \<Rightarrow> nat \<Rightarrow> real list"
  A_weighting :: "real list \<Rightarrow> real list"
  eps :: real

text \<open>
  Modelled from the spec: \<open>util.log_eps\<close> is missing from the sources; the spec gives
  it as \<open>log(spec + eps)\<close>, elementwise.
\<close>

definition log_eps :: "env \<Rightarrow> real \<Rightarrow> real" where
  "log_eps e x = ln (x + eps e)"

text \<open>
  Modelled from the spec: \<open>util.pad_or_trim_to_expected_length\<close> is missing from the
  sources; the spec gives it as: the output length is exactly \<open>expected_len\<close>; a longer
  input is cut to its first \<open>expected_len\<close> entries, a shorter one is followed by copies
  of \<open>pad_value\<close>. It works along the last axis.
\<close>

definition pad_or_trim_row :: "real list \<Rightarrow> nat \<Rightarrow> real \<Rightarrow> real list" where
  "pad_or_trim_row xs expected_len pad_value =
     take expected_len xs @ replicate (expected_len - length xs) pad_value"

fun pad_or_trim_to_expected_length :: "tensor \<Rightarrow> nat \<Rightarrow> real \<Rightarrow> tensor" where
  "pad_or_trim_to_expected_length (Vec xs) expected_len pad_value =
     Vec (pad_or_trim_row xs expected_len pad_value)"
| "pad_or_trim_to_expected_length (Mat m) expected_len pad_value =
     Mat (map (\<lambda>xs. pad_or_trim_row xs expected_len pad_value) m)"

section \<open>spectral.py\<close>

text \<open>\<open>amp = lambda x: x[...,0]**2 + x[...,1]**2\<close>, on one entry.\<close>

definition amp :: "real \<times> real \<Rightarrow> real" where
  "amp x = (fst x)\<^sup>2 + (snd x)\<^sup>2"

text \<open>\<open>torch.hann_window(size)\<close>: the periodic Hann window.\<close>

definition hann_window :: "nat \<Rightarrow> real list" where
  "hann_window sz =
     (if sz = 1 then [1]
      else map (\<lambda>j. 1 / 2 - cos (2 * pi * real j / real sz) / 2) [0..<sz])"

text \<open>
  \<open>MultiscaleFFT\<close>: one power spectrogram per size, in the order of \<open>sizes\<close>; the first
  STFT that raises ends the loop.
\<close>

fun MultiscaleFFT :: "env \<Rightarrow> tensor \<Rightarrow> nat list \<Rightarrow> real \<Rightarrow> error + real list list list list" where
  "MultiscaleFFT e audio [] overlap = Inr []"
| "MultiscaleFFT e audio (sz # sizes) overlap =
     (case stft e audio sz (Some (hann_window sz))
             (py_int ((1 - overlap) * real sz)) False of
        Inl err \<Rightarrow> Inl err
      | Inr s \<Rightarrow>
          (case MultiscaleFFT e audio sizes overlap of
             Inl err \<Rightarrow> Inl err
           | Inr specs \<Rightarrow> Inr (map3 amp s # specs)))"

subsection \<open>compute_loudness\<close>

text \<open>
  \<open>torch.mean(loudness, dim=1)\<close> for one batch element \<open>m\<close> (frequency bin, frame): the
  mean over the bins, for every frame.
\<close>

definition mean_over_bins :: "real list list \<Rightarrow> real list" where
  "mean_over_bins m =
     (case m of
        [] \<Rightarrow> []
      | r # _ \<Rightarrow> map (\<lambda>t. (\<Sum>row\<leftarrow>m. row ! t) / real (length m)) [0..<length r])"

text \<open>
  The STFT result the model goes on with has the documented shape: every batch element has
  one row per entry of the weighting curve, and the rows of one batch element have the same
  number of frames. On any other shape the broadcast sum of the source raises in torch.
\<close>

definition well_shaped :: "'a list list list \<Rightarrow> nat \<Rightarrow> bool" where
  "well_shaped s n_bins =
     (0 < n_bins \<and> list_all (\<lambda>m. length m = n_bins \<and> list_all (\<lambda>r. length r = length (hd m)) m) s)"

text \<open>\<open>audio.shape[-1]\<close> of a batch; a batch of no signals has no curve to pad.\<close>

definition last_dim :: "real list list \<Rightarrow> nat" where
  "last_dim b = (case b of [] \<Rightarrow> 0 | r # _ \<Rightarrow> length r)"

text \<open>
  \<open>n_secs = audio.shape[-1] / float(sample_rate)\<close> and
  \<open>int(n_secs * frame_rate)\<close> are operations on Python floats: the quotient and the
  product are each rounded to a double before \<open>int\<close> truncates.
\<close>

definition compute_loudness ::
  "env \<Rightarrow> tensor \<Rightarrow> nat \<Rightarrow> nat \<Rightarrow> nat \<Rightarrow> real \<Rightarrow> real \<Rightarrow> error + tensor" where
  "compute_loudness e audio sample_rate frame_rate n_fft range_db ref_db =
     (let is_1d = (case audio of Vec _ \<Rightarrow> True | Mat _ \<Rightarrow> False);
          batch = (case audio of Vec xs \<Rightarrow> [xs] | Mat b \<Rightarrow> b)
      in if frame_rate = 0 then Inl ZeroDivisionError
         else
           let hop_length = sample_rate div frame_rate
           in case stft e (Mat batch) n_fft None (int hop_length) True of
                Inl err \<Rightarrow> Inl err
              | Inr s \<Rightarrow>
                  let amplitude = map3 (\<lambda>x. sqrt (amp x + 1 / 100000)) s;
                      power_db = map3 (\<lambda>x. 20 * log 10 (x + 1 / 100000)) amplitude;
                      frequencies = fft_frequencies e sample_rate n_fft;
                      a_weighting = A_weighting e frequencies
                  in if \<not> well_shaped power_db (length a_weighting) then Inl RuntimeError
                     else
                       let loudness = map (\<lambda>m. map2 (\<lambda>row a. map (\<lambda>v. v + a) row) m a_weighting) power_db;
                           loudness = map3 (\<lambda>v. v - ref_db) loudness;
                           loudness = map3 (\<lambda>v. max v (- range_db)) loudness;
                           loudness = map mean_over_bins loudness
                       in case (if is_1d
                                then (case loudness of
                                        [] \<Rightarrow> Inl IndexError
                                      | l # _ \<Rightarrow> Inr (Vec l))
                                else Inr (Mat loudness)) of
                            Inl err \<Rightarrow> Inl err
                          | Inr loudness \<Rightarrow>
                              if sample_rate = 0 then Inl ZeroDivisionError
                              else
                                let n_secs = to_double (real (last_dim batch) / real sample_rate);
                                    expected_len = nat (py_int (to_double (n_secs * real frame_rate)))
                                in Inr (pad_or_trim_to_expected_length loudness expected_len
                                          (- range_db)))"

subsection \<open>SpectralLoss\<close>

record SpectralLoss =
  fft_sizes :: "nat list"
  overlap :: real
  sl_sample_rate :: nat
  mag_w :: real
  log_mag_w :: real
  loud_w :: real

text \<open>
  The three torch losses with \<open>reduction='mean'\<close>: the mean over all entries, here in
  row-major order. Tensors of different sizes are not broadcast in the model: they raise.
\<close>

definition mean_reduce :: "real list \<Rightarrow> fval" where
  "mean_reduce xs = (if xs = [] then NaN else Fin (sum_list xs / real (length xs)))"

definition l1_loss :: "real list \<Rightarrow> real list \<Rightarrow> error + fval" where
  "l1_loss input target =
     (if length input \<noteq> length target then Inl RuntimeError
      else Inr (mean_reduce (map2 (\<lambda>a b. \<bar>a - b\<bar>) input target)))"

definition mse_loss :: "real list \<Rightarrow> real list \<Rightarrow> error + fval" where
  "mse_loss input target =
     (if length input \<noteq> length target then Inl RuntimeError
      else Inr (mean_reduce (map2 (\<lambda>a b. (a - b)\<^sup>2) input target)))"

definition smooth_l1_loss :: "real list \<Rightarrow> real list \<Rightarrow> error + fval" where
  "smooth_l1_loss input target =
     (if length input \<noteq> length target then Inl RuntimeError
      else Inr (mean_reduce
             (map2 (\<lambda>a b. if \<bar>a - b\<bar> < 1 then (a - b)\<^sup>2 / 2 else \<bar>a - b\<bar> - 1 / 2) input target)))"

text \<open>
  \<open>loss_func\<close> ignores its \<open>reduction\<close> argument, and falls off its end for any other
  \<open>loss_type\<close>: it then returns Python's \<open>None\<close>, here \<open>Inr None\<close>.
\<close>

definition loss_func :: "real list \<Rightarrow> real list \<Rightarrow> string \<Rightarrow> string \<Rightarrow> error + fval option" where
  "loss_func input target loss_type reduction =
     (if loss_type = ''L1'' then map_sum id Some (l1_loss input target)
      else if loss_type = ''MSE'' then map_sum id Some (mse_loss input target)
      else if loss_type = ''smooth_L1'' then map_sum id Some (smooth_l1_loss input target)
      else Inr None)"

text \<open>
  \<open>loss += w * self.loss_func(...)\<close>: the call may raise, and the product of a float and
  \<open>None\<close> raises \<open>TypeError\<close>.
\<close>

definition add_term :: "fval \<Rightarrow> real \<Rightarrow> error + fval option \<Rightarrow> error + fval" where
  "add_term loss w r =
     (case r of
        Inl err \<Rightarrow> Inl err
      | Inr None \<Rightarrow> Inl TypeError
      | Inr (Some v) \<Rightarrow> Inr (fadd loss (fmul (Fin w) v)))"

text \<open>The loop \<open>for i, spec in enumerate(specs)\<close>, from index \<open>i\<close> on.\<close>

fun forward_loop ::
  "env \<Rightarrow> SpectralLoss \<Rightarrow> string \<Rightarrow> string \<Rightarrow> real list list list list \<Rightarrow> nat
     \<Rightarrow> real list list list list \<Rightarrow> fval \<Rightarrow> error + fval" where
  "forward_loop e self loss_type reduction target_specs i [] loss = Inr loss"
| "forward_loop e self loss_type reduction target_specs i (spec # specs) loss =
     (if length target_specs \<le> i then Inl IndexError
      else
        (case (if 0 < mag_w self
               then add_term loss (mag_w self)
                      (loss_func (flat3 spec) (flat3 (target_specs ! i)) loss_type reduction)
               else Inr loss) of
           Inl err \<Rightarrow> Inl err
         | Inr loss1 \<Rightarrow>
             (case (if 0 < log_mag_w self
                    then add_term loss1 (log_mag_w self)
                           (loss_func (flat3 (map3 (log_eps e) spec))
                              (flat3 (map3 (log_eps e) (target_specs ! i))) loss_type reduction)
                    else Inr loss1) of
                Inl err \<Rightarrow> Inl err
              | Inr loss2 \<Rightarrow>
                  forward_loop e self loss_type reduction target_specs (Suc i) specs loss2)))"

definition forward ::
  "env \<Rightarrow> SpectralLoss \<Rightarrow> tensor \<Rightarrow> tensor \<Rightarrow> string \<Rightarrow> string \<Rightarrow> error + fval" where
  "forward e self input_audio target_audio loss_type reduction =
     (case MultiscaleFFT e input_audio (fft_sizes self) (overlap self) of
        Inl err \<Rightarrow> Inl err
      | Inr specs \<Rightarrow>
          (case MultiscaleFFT e target_audio (fft_sizes self) (overlap self) of
             Inl err \<Rightarrow> Inl err
           | Inr target_specs \<Rightarrow>
               (case forward_loop e self loss_type reduction target_specs 0 specs (Fin 0) of
                  Inl err \<Rightarrow> Inl err
                | Inr loss \<Rightarrow>
                    if 0 < loud_w self
                    then (case compute_loudness e input_audio (sl_sample_rate self) 50 2048 120 (207 / 10) of
                            Inl err \<Rightarrow> Inl err
                          | Inr input_l \<Rightarrow>
                              (case compute_loudness e target_audio (sl_sample_rate self) 50 2048 120 (207 / 10) of
                                 Inl err \<Rightarrow> Inl err
                               | Inr target_l \<Rightarrow>
                                   add_term loss (loud_w self)
                                     (loss_func (flat input_l) (flat target_l) loss_type reduction)))
                    else Inr loss)))"

subsection \<open>The terms of the claims about SpectralLoss\<close>

text \<open>The STFT call of \<open>MultiscaleFFT\<close> for the window size \<open>sz\<close>.\<close>

definition stft_at :: "env \<Rightarrow> tensor \<Rightarrow> real \<Rightarrow> nat \<Rightarrow> error + (real \<times> real) list list list" where
  "stft_at e audio ov sz =
     stft e audio sz (Some (hann_window sz)) (py_int ((1 - ov) * real sz)) False"

text \<open>
  The pointwise distances a \<open>loss_type\<close> selects (absolute, squared, smooth absolute), and
  their mean over the entries of two tensors of the same size.
\<close>

definition pointwise_distance :: "string \<Rightarrow> real \<Rightarrow> real \<Rightarrow> real" where
  "pointwise_distance loss_type a b =
     (if loss_type = ''L1'' then \<bar>a - b\<bar>
      else if loss_type = ''MSE'' then (a - b)\<^sup>2
      else if \<bar>a - b\<bar> < 1 then (a - b)\<^sup>2 / 2 else \<bar>a - b\<bar> - 1 / 2)"

definition mean_distance :: "string \<Rightarrow> real list \<Rightarrow> real list \<Rightarrow> real" where
  "mean_distance loss_type xs ys =
     (\<Sum>(a, b)\<leftarrow>zip xs ys. pointwise_distance loss_type a b) / real (length xs)"

definition supported :: "string \<Rightarrow> bool" where
  "supported loss_type = (loss_type = ''L1'' \<or> loss_type = ''MSE'' \<or> loss_type = ''smooth_L1'')"

text \<open>What one resolution adds to the loss: the two gated, weighted distances.\<close>

definition resolution_term ::
  "env \<Rightarrow> SpectralLoss \<Rightarrow> string \<Rightarrow> real list list list \<Rightarrow> real list list list \<Rightarrow> real" where
  "resolution_term e self loss_type spec target_spec =
     (if 0 < mag_w self
      then mag_w self * mean_distance loss_type (flat3 spec) (flat3 target_spec) else 0)
     + (if 0 < log_mag_w self
        then log_mag_w self * mean_distance loss_type
               (flat3 (map3 (\<lambda>x. ln (x + eps e)) spec))
               (flat3 (map3 (\<lambda>x. ln (x + eps e)) target_spec))
        else 0)"

text \<open>
  Two spectrograms can be compared entry by entry: they have the same number of entries,
  and at least one. Equal-shaped signals give such spectrograms for every window size the
  STFT accepts.
\<close>

definition comparable :: "'a list list list \<Rightarrow> 'b list list list \<Rightarrow> bool" where
  "comparable s t = (flat3 s \<noteq> [] \<and> length (flat3 s) = length (flat3 t))"

text \<open>
  The sum claim C1 gives for the loss: over the configured sizes, the two gated, weighted
  distances between the spectrograms of the two signals.
\<close>

definition spectral_sum :: "env \<Rightarrow> SpectralLoss \<Rightarrow> string \<Rightarrow> tensor \<Rightarrow> tensor \<Rightarrow> real" where
  "spectral_sum e self loss_type input_audio target_audio =
     (\<Sum>n\<leftarrow>fft_sizes self.
        case (stft_at e input_audio (overlap self) n, stft_at e target_audio (overlap self) n) of
          (Inr s, Inr t) \<Rightarrow> resolution_term e self loss_type (map3 amp s) (map3 amp t)
        | _ \<Rightarrow> 0)"

text \<open>
  What the loudness branch of \<open>forward\<close> adds when \<open>loud_w\<close> is positive:
  \<open>loud_w\<close> times the distance between the two loudness curves.
\<close>

definition loudness_term :: "env \<Rightarrow> SpectralLoss \<Rightarrow> string \<Rightarrow> tensor \<Rightarrow> tensor \<Rightarrow> real" where
  "loudness_term e self loss_type input_audio target_audio =
     (case (compute_loudness e input_audio (sl_sample_rate self) 50 2048 120 (207 / 10),
            compute_loudness e target_audio (sl_sample_rate self) 50 2048 120 (207 / 10)) of
        (Inr input_l, Inr target_l) \<Rightarrow>
          loud_w self * mean_distance loss_type (flat input_l) (flat target_l)
      | _ \<Rightarrow> 0)"

text \<open>The signals of a batch; a tensor of rank one is one signal.\<close>

fun rows :: "tensor \<Rightarrow> real list list" where
  "rows (Vec xs) = [xs]"
| "rows (Mat m) = m"

section \<open>generators.py\<close>

text \<open>
  A control tensor whose rank the code looks at, or that is passed on as it is, keeps its
  rank: \<open>Rank2\<close> is (batch, n_frames), \<open>Rank3\<close> is (batch, n_frames, channels).
  Amplitudes and harmonic distributions of \<open>Additive\<close>, and the inputs of
  \<open>Sinusoids\<close> and \<open>FilteredNoise\<close>, have rank three, as their docstrings say.
\<close>

datatype ctrl = Rank1 "real list" | Rank2 "real list list" | Rank3 "real list list list"

text \<open>A tensor of rank three has the shape (B, T, C); the sizes of its last two axes.\<close>

definition has_shape :: "'a list list list \<Rightarrow> nat \<Rightarrow> nat \<Rightarrow> nat \<Rightarrow> bool" where
  "has_shape t B T C =
     (length t = B \<and> list_all (\<lambda>fs. length fs = T \<and> list_all (\<lambda>c. length c = C) fs) t)"

definition mid_dim3 :: "'a list list list \<Rightarrow> nat" where
  "mid_dim3 t = (case t of [] \<Rightarrow> 0 | fs # _ \<Rightarrow> length fs)"

text \<open>\<open>harmonic_distribution.shape[-1]\<close>; a tensor with no frame has no channel to bandlimit.\<close>

definition last_dim3 :: "'a list list list \<Rightarrow> nat" where
  "last_dim3 t = (case concat t of [] \<Rightarrow> 0 | c # _ \<Rightarrow> length c)"

subsection \<open>The helpers of util that scale and bandlimit\<close>

text \<open>
  The module \<open>ddspsynth/util.py\<close> is missing from the sources. Its helpers are modelled
  from section 4.1 of the spec, which gives each of them in words.
\<close>

text \<open>
  Modelled from the spec: \<open>util.get_harmonic_frequencies\<close> is missing from the sources;
  the spec gives it as: returns f0 times 1, 2, ..., n_harmonics per frame. A frame of
  \<open>f0_hz\<close> holds one number; any other shape raises.
\<close>

definition get_harmonic_frequencies :: "real list list list \<Rightarrow> nat \<Rightarrow> error + real list list list" where
  "get_harmonic_frequencies f0_hz n_harmonics =
     (if list_all (list_all (\<lambda>c. length c = 1)) f0_hz
      then Inr (map (map (\<lambda>c. map (\<lambda>k. hd c * real k) [1..<Suc n_harmonics])) f0_hz)
      else Inl RuntimeError)"

text \<open>
  Modelled from the spec: \<open>util.remove_above_nyquist\<close> is missing from the sources; the
  spec gives it as: zeroes any channel whose computed frequency is at or above
  sample_rate/2. The two tensors have the same shape; any other pair raises.
\<close>

definition same_shape :: "'a list list list \<Rightarrow> 'b list list list \<Rightarrow> bool" where
  "same_shape a b = (map (map length) a = map (map length) b)"

definition remove_above_nyquist ::
  "real list list list \<Rightarrow> real list list list \<Rightarrow> nat \<Rightarrow> error + real list list list" where
  "remove_above_nyquist harmonic_frequencies harmonic_distribution sample_rate =
     (if same_shape harmonic_frequencies harmonic_distribution
      then Inr (map2 (map2 (map2 (\<lambda>f a. if f < real sample_rate / 2 then a else 0)))
                  harmonic_frequencies harmonic_distribution)
      else Inl RuntimeError)"

text \<open>
  Modelled from the spec: \<open>util.exp_sigmoid\<close> is missing from the sources; the spec gives
  it as \<open>max_value * sigmoid(x)^log(exponent) + threshold\<close> with exponent 10, max_value
  2.0 and threshold 1e-7.
\<close>

definition exp_sigmoid :: "real \<Rightarrow> real" where
  "exp_sigmoid x = 2 * (1 / (1 + exp (- x))) powr (ln 10) + 1 / 10000000"

subsection \<open>The synthesis routines of util\<close>

text \<open>
  Modelled from the spec: \<open>util.resample_frames\<close> is missing from the sources; the spec
  gives it as linear interpolation across the frame axis, endpoints replicated, reaching
  exactly \<open>n_samples\<close> values, a single frame giving a constant. The spec leaves the
  alignment open; here sample \<open>i\<close> of \<open>n_samples\<close> sits at the frame position
  \<open>(i + 1/2) * n_frames / n_samples - 1/2\<close>, kept between the first and the last
  frame (the alignment of torch's linear interpolation).
\<close>

definition frame_position :: "nat \<Rightarrow> nat \<Rightarrow> nat \<Rightarrow> real" where
  "frame_position n_frames n_samples i =
     max 0 (min (real n_frames - 1)
              ((real i + 1 / 2) * real n_frames / real n_samples - 1 / 2))"

text \<open>
  Modelled from the spec: the interpolated value of a per-frame sequence \<open>xs\<close> at sample
  \<open>i\<close>: the two frames around the position of the sample, mixed by their distance.
\<close>

definition interpolate :: "(real \<Rightarrow> 'a \<Rightarrow> 'a \<Rightarrow> 'a) \<Rightarrow> 'a list \<Rightarrow> nat \<Rightarrow> nat \<Rightarrow> 'a" where
  "interpolate mix xs n_samples i =
     (let p = frame_position (length xs) n_samples i;
          lo = nat \<lfloor>p\<rfloor>;
          hi = min (lo + 1) (length xs - 1)
      in mix (p - real lo) (xs ! lo) (xs ! hi))"

text \<open>
  Modelled from the spec: the linear mix \<open>(1 - w) * a + w * b\<close>, on reals and, with the
  same operations, on the float values the unguarded division of \<open>Additive.forward\<close>
  leaves in the harmonic distribution.
\<close>

definition mix_real :: "real \<Rightarrow> real \<Rightarrow> real \<Rightarrow> real" where
  "mix_real w a b = (1 - w) * a + w * b"

definition mix_fval :: "real \<Rightarrow> fval \<Rightarrow> fval \<Rightarrow> fval" where
  "mix_fval w a b = fadd (fmul (Fin (1 - w)) a) (fmul (Fin w) b)"

text \<open>
  Modelled from the spec: the frames of one batch element (frame, channel), upsampled to
  \<open>n_samples\<close> rows (sample, channel), every channel interpolated on its own.
\<close>

definition upsample :: "(real \<Rightarrow> 'a \<Rightarrow> 'a \<Rightarrow> 'a) \<Rightarrow> 'a list list \<Rightarrow> nat \<Rightarrow> 'a list list" where
  "upsample mix frames n_samples =
     map (\<lambda>i. map (\<lambda>c. interpolate mix (map (\<lambda>fr. fr ! c) frames) n_samples i)
                [0..<length (hd frames)])
       [0..<n_samples]"

text \<open>
  Modelled from the spec: \<open>util.resample_frames(envelope, n_samples)\<close> on an envelope of
  shape (batch, n_frames, channels). An envelope that is no such tensor, or has no frame
  to interpolate, raises.
\<close>

definition resample_frames :: "real list list list \<Rightarrow> nat \<Rightarrow> error + real list list list" where
  "resample_frames envelope n_samples =
     (if has_shape envelope (length envelope) (mid_dim3 envelope) (last_dim3 envelope)
           \<and> (envelope = [] \<or> 0 < mid_dim3 envelope)
      then Inr (map (\<lambda>frames. upsample mix_real frames n_samples) envelope)
      else Inl RuntimeError)"

text \<open>
  Modelled from the spec: phase accumulation. The phase at sample \<open>i\<close> is the cumulative
  sum of the per-sample phase increments up to that sample; it is wrapped into one turn.
\<close>

definition cumulative :: "real list \<Rightarrow> nat \<Rightarrow> real" where
  "cumulative xs i = sum_list (take (Suc i) xs)"

definition wrap_phase :: "real \<Rightarrow> real" where
  "wrap_phase p = p - 2 * pi * of_int \<lfloor>p / (2 * pi)\<rfloor>"

text \<open>Modelled from the spec: the sum over the harmonics, in float values.\<close>

definition fsum :: "fval list \<Rightarrow> fval" where
  "fsum xs = foldr fadd xs (Fin 0)"

text \<open>
  Modelled from the spec: \<open>util.harmonic_synthesis\<close> for one batch element, given f0 and
  the amplitude per frame and the harmonic distribution (frame, harmonic). For each
  harmonic \<open>k + 1\<close> the phase integrates the angular frequency
  \<open>2 * pi * f / sample_rate\<close> of the upsampled \<open>f = f0 * (k + 1)\<close>; the sine of the
  phase is multiplied by the upsampled distribution value times the upsampled amplitude,
  and the harmonics are summed.
\<close>

definition harmonic_signal :: "real list \<Rightarrow> real list \<Rightarrow> fval list list \<Rightarrow> nat \<Rightarrow> nat \<Rightarrow> fval list" where
  "harmonic_signal f0 amplitudes distribution n_samples sample_rate =
     (let f0_envelope = map (interpolate mix_real f0 n_samples) [0..<n_samples];
          amplitude_envelope = map (interpolate mix_real amplitudes n_samples) [0..<n_samples];
          distribution_envelope = upsample mix_fval distribution n_samples
      in map (\<lambda>i. fsum (map (\<lambda>k.
                 fmul (Fin (sin (wrap_phase (cumulative
                         (map (\<lambda>f. 2 * pi * (f * real (Suc k)) / real sample_rate) f0_envelope) i))))
                   (fmul (distribution_envelope ! i ! k) (Fin (amplitude_envelope ! i))))
               [0..<length (hd distribution)]))
           [0..<n_samples])"

text \<open>
  Modelled from the spec: \<open>util.harmonic_synthesis(frequencies, amplitudes,
  harmonic_distribution, n_samples, sample_rate)\<close> on tensors of shapes
  (batch, n_frames, 1), (batch, n_frames, 1) and (batch, n_frames, n_harmonics): one
  signal per batch element. Other shapes, or no frame to interpolate, raise; at a sample
  rate of 0 the angular frequency has no value and the model raises too.
\<close>

definition harmonic_synthesis ::
  "real list list list \<Rightarrow> real list list list \<Rightarrow> fval list list list \<Rightarrow> nat \<Rightarrow> nat
     \<Rightarrow> error + fval list list" where
  "harmonic_synthesis frequencies amplitudes harmonic_distribution n_samples sample_rate =
     (let B = length harmonic_distribution;
          T = mid_dim3 harmonic_distribution;
          K = last_dim3 harmonic_distribution
      in if sample_rate = 0 then Inl ZeroDivisionError
         else if \<not> (has_shape harmonic_distribution B T K \<and> has_shape frequencies B T 1
                     \<and> has_shape amplitudes B T 1 \<and> (B = 0 \<or> 0 < T))
         then Inl RuntimeError
         else Inr (map (\<lambda>b. harmonic_signal (map hd (frequencies ! b)) (map hd (amplitudes ! b))
                               (harmonic_distribution ! b) n_samples sample_rate)
                     [0..<B]))"

text \<open>
  Modelled from the spec: \<open>util.oscillator_bank\<close> for one batch element, given the
  frequency and the amplitude of every sinusoid at every sample: the same phase
  accumulation on each frequency track, and the sum of the weighted sines.
\<close>

definition oscillator_signal :: "real list list \<Rightarrow> real list list \<Rightarrow> nat \<Rightarrow> real list" where
  "oscillator_signal frequency_envelope amplitude_envelope sample_rate =
     map (\<lambda>i. \<Sum>k\<leftarrow>[0..<length (amplitude_envelope ! i)].
                 amplitude_envelope ! i ! k
                 * sin (wrap_phase (cumulative
                     (map (\<lambda>fr. 2 * pi * (fr ! k) / real sample_rate) frequency_envelope) i)))
       [0..<length amplitude_envelope]"

text \<open>
  Modelled from the spec: \<open>util.oscillator_bank(frequency_envelope, amplitude_envelope,
  sample_rate)\<close> on two envelopes of the same shape (batch, n_samples, n_sinusoids).
\<close>

definition oscillator_bank ::
  "real list list list \<Rightarrow> real list list list \<Rightarrow> nat \<Rightarrow> error + real list list" where
  "oscillator_bank frequency_envelope amplitude_envelope sample_rate =
     (if sample_rate = 0 then Inl ZeroDivisionError
      else if \<not> same_shape frequency_envelope amplitude_envelope then Inl RuntimeError
      else Inr (map (\<lambda>b. oscillator_signal (frequency_envelope ! b) (amplitude_envelope ! b)
                            sample_rate)
                  [0..<length amplitude_envelope]))"

text \<open>
  Modelled from the spec: the impulse response of one frame of \<open>util.fir_filter\<close>. The
  magnitudes are the half spectrum of a real filter of zero phase; its inverse Fourier
  transform has \<open>2 * (bins - 1)\<close> taps, which are centred and windowed (Hann) to
  \<open>filter_size\<close> taps.
\<close>

definition impulse_response :: "real list \<Rightarrow> nat \<Rightarrow> real list" where
  "impulse_response magnitudes filter_size =
     (let m = 2 * (length magnitudes - 1);
          tap = (\<lambda>j. (\<Sum>k\<leftarrow>[0..<length magnitudes].
                        (if k = 0 \<or> k = length magnitudes - 1 then 1 else 2) * magnitudes ! k
                        * cos (2 * pi * real k * real j / real m)) / real m)
      in map (\<lambda>j. hann_window filter_size ! j
                   * tap (nat ((int j - int (filter_size div 2)) mod int m)))
           [0..<filter_size])"

text \<open>
  Modelled from the spec: \<open>util.fir_filter\<close> for one batch element. The signal is cut
  into as many frames as there are responses; every frame is convolved with the impulse
  response of its own frame and the convolutions are added where they overlap. The
  output has the length of the input: sample \<open>i\<close> sums, over the taps \<open>j\<close>, the tap of
  the frame that holds input sample \<open>i - j\<close> times that sample. (The spec leaves open
  which end of the longer sum is cut; here it is the tail.)
\<close>

definition filtered_signal :: "real list \<Rightarrow> real list list \<Rightarrow> nat \<Rightarrow> real list" where
  "filtered_signal audio responses filter_size =
     (let frame_size = (length audio + length responses - 1) div length responses;
          taps = map (\<lambda>m. impulse_response m filter_size) responses
      in map (\<lambda>i. \<Sum>j\<leftarrow>[0..<min filter_size (Suc i)].
                     taps ! min ((i - j) div frame_size) (length responses - 1) ! j
                     * audio ! (i - j))
           [0..<length audio])"

text \<open>
  Modelled from the spec: \<open>util.fir_filter(audio, freq_response, filter_size)\<close> on a
  batch of signals and a frequency response of shape (batch, n_frames, bins). A response
  that is no such tensor, has no frame, or fewer than two bins raises.
\<close>

definition fir_filter :: "real list list \<Rightarrow> real list list list \<Rightarrow> nat \<Rightarrow> error + real list list" where
  "fir_filter audio freq_response filter_size =
     (let B = length freq_response;
          T = mid_dim3 freq_response;
          F = last_dim3 freq_response
      in if \<not> (length audio = B \<and> has_shape freq_response B T F
                  \<and> (B = 0 \<or> (0 < T \<and> 2 \<le> F)))
         then Inl RuntimeError
         else Inr (map (\<lambda>b. filtered_signal (audio ! b) (freq_response ! b) filter_size) [0..<B]))"

text \<open>
  Modelled from the spec: a control with one number per frame, of shape (batch, n_frames)
  or (batch, n_frames, 1), as the generators pass f0 and amplitudes to
  \<open>util.wavetable_synthesis\<close>.
\<close>

fun per_frame :: "ctrl \<Rightarrow> error + real list list" where
  "per_frame (Rank1 f) = Inl RuntimeError"
| "per_frame (Rank2 f) = Inr f"
| "per_frame (Rank3 f) =
     (if list_all (list_all (\<lambda>c. length c = 1)) f then Inr (map (map hd) f)
      else Inl RuntimeError)"

text \<open>
  Modelled from the spec: the wavetable read at a phase within [0, 1): the phase is mapped
  to a table index, and the two adjacent entries (the last one adjacent to the first) are
  mixed linearly.
\<close>

definition read_table :: "real list \<Rightarrow> real \<Rightarrow> real" where
  "read_table table phase =
     (let pos = phase * real (length table);
          lo = nat \<lfloor>pos\<rfloor> mod length table;
          hi = Suc lo mod length table
      in mix_real (pos - of_int \<lfloor>pos\<rfloor>) (table ! lo) (table ! hi))"

text \<open>
  Modelled from the spec: \<open>util.wavetable_synthesis\<close> for one batch element, given f0 and
  the amplitude per frame and the table to read at each sample: the phase accumulates
  \<open>f0 / sample_rate\<close> turns per sample, and the table value at the fractional phase is
  scaled by the upsampled amplitude.
\<close>

definition wavetable_signal ::
  "real list \<Rightarrow> real list \<Rightarrow> (nat \<Rightarrow> real list) \<Rightarrow> nat \<Rightarrow> nat \<Rightarrow> real list" where
  "wavetable_signal f0 amplitudes table_at n_samples sample_rate =
     (let f0_envelope = map (interpolate mix_real f0 n_samples) [0..<n_samples];
          amplitude_envelope = map (interpolate mix_real amplitudes n_samples) [0..<n_samples]
      in map (\<lambda>i. amplitude_envelope ! i
                   * read_table (table_at i)
                       (frac (cumulative (map (\<lambda>f. f / real sample_rate) f0_envelope) i)))
           [0..<n_samples])"

text \<open>
  Modelled from the spec: \<open>util.wavetable_synthesis(f0, amplitude, wavetable, n_samples,
  sample_rate)\<close>. The wavetable is one table (rank one) or one table per frame
  (batch, n_frames, len_waveform), upsampled like an envelope. Controls that do not agree
  on batch and frames, a control without frames, an empty table and a sample rate of 0
  raise.
\<close>

definition wavetable_synthesis :: "ctrl \<Rightarrow> ctrl \<Rightarrow> ctrl \<Rightarrow> nat \<Rightarrow> nat \<Rightarrow> error + real list list" where
  "wavetable_synthesis f0 amplitude wavetable n_samples sample_rate =
     (if sample_rate = 0 then Inl ZeroDivisionError
      else case per_frame f0 of
             Inl err \<Rightarrow> Inl err
           | Inr f \<Rightarrow>
               (case per_frame amplitude of
                  Inl err \<Rightarrow> Inl err
                | Inr a \<Rightarrow>
                    if map length a \<noteq> map length f \<or> \<not> list_all (\<lambda>r. r \<noteq> []) f
                    then Inl RuntimeError
                    else (case wavetable of
                            Rank1 w \<Rightarrow>
                              if w = [] then Inl RuntimeError
                              else Inr (map (\<lambda>b. wavetable_signal (f ! b) (a ! b) (\<lambda>i. w)
                                                    n_samples sample_rate)
                                          [0..<length f])
                          | Rank2 w \<Rightarrow> Inl RuntimeError
                          | Rank3 w \<Rightarrow>
                              if \<not> (has_shape w (length f) (mid_dim3 w) (last_dim3 w)
                                     \<and> map length w = map length f
                                     \<and> (w = [] \<or> 0 < last_dim3 w))
                              then Inl RuntimeError
                              else Inr (map (\<lambda>b. wavetable_signal (f ! b) (a ! b)
                                                    (\<lambda>i. upsample mix_real (w ! b) n_samples ! i)
                                                    n_samples sample_rate)
                                          [0..<length f]))))"

subsection \<open>Additive\<close>

record Additive =
  add_n_samples :: nat
  add_sample_rate :: nat
  add_scale_fn :: "(real list list list \<Rightarrow> real list list list) option"
  normalize_below_nyquist :: bool
  n_harmonics :: nat

text \<open>
  \<open>if len(f0_hz.shape) < 3: f0_hz = f0_hz[:, :, None]\<close>. The index has three places: on a
  tensor of rank one it raises.
\<close>

fun add_channel_dim :: "ctrl \<Rightarrow> error + real list list list" where
  "add_channel_dim (Rank1 f) = Inl IndexError"
| "add_channel_dim (Rank2 f) = Inr (map (map (\<lambda>x. [x])) f)"
| "add_channel_dim (Rank3 f) = Inr f"

text \<open>
  The value of \<open>harmonic_distribution\<close> after the bandlimiting step of
  \<open>Additive.forward\<close>: scaled, then bandlimited when \<open>normalize_below_nyquist\<close> is set.
\<close>

definition Additive_bandlimited ::
  "Additive \<Rightarrow> real list list list \<Rightarrow> ctrl \<Rightarrow> error + real list list list" where
  "Additive_bandlimited self harmonic_distribution f0_hz =
     (let harmonic_distribution =
            (case add_scale_fn self of
               None \<Rightarrow> harmonic_distribution
             | Some scale_fn \<Rightarrow> scale_fn harmonic_distribution)
      in case add_channel_dim f0_hz of
           Inl err \<Rightarrow> Inl err
         | Inr f0_hz \<Rightarrow>
             if normalize_below_nyquist self
             then (let n_harmonics = last_dim3 harmonic_distribution
                   in case get_harmonic_frequencies f0_hz n_harmonics of
                        Inl err \<Rightarrow> Inl err
                      | Inr harmonic_frequencies \<Rightarrow>
                          remove_above_nyquist harmonic_frequencies harmonic_distribution
                            (add_sample_rate self))
             else Inr harmonic_distribution)"

text \<open>
  \<open>harmonic_distribution /= torch.sum(harmonic_distribution, axis=-1, keepdim=True)\<close>:
  every channel of a frame is divided by the sum of the frame. Nothing guards the divisor.
\<close>

definition normalize_frames :: "real list list list \<Rightarrow> fval list list list" where
  "normalize_frames harmonic_distribution =
     map (map (\<lambda>c. map (\<lambda>x. fdiv x (sum_list c)) c)) harmonic_distribution"

definition Additive_normalized ::
  "Additive \<Rightarrow> real list list list \<Rightarrow> ctrl \<Rightarrow> error + fval list list list" where
  "Additive_normalized self harmonic_distribution f0_hz =
     (case Additive_bandlimited self harmonic_distribution f0_hz of
        Inl err \<Rightarrow> Inl err
      | Inr bandlimited \<Rightarrow> Inr (normalize_frames bandlimited))"

definition Additive_forward ::
  "Additive \<Rightarrow> real list list list \<Rightarrow> real list list list \<Rightarrow> ctrl \<Rightarrow> nat option
     \<Rightarrow> error + fval list list" where
  "Additive_forward self amplitudes harmonic_distribution f0_hz n_samples =
     (let n_samples = (case n_samples of None \<Rightarrow> add_n_samples self | Some n \<Rightarrow> n);
          amplitudes = (case add_scale_fn self of
                          None \<Rightarrow> amplitudes
                        | Some scale_fn \<Rightarrow> scale_fn amplitudes)
      in case add_channel_dim f0_hz of
           Inl err \<Rightarrow> Inl err
         | Inr f0 \<Rightarrow>
             (case Additive_normalized self harmonic_distribution f0_hz of
                Inl err \<Rightarrow> Inl err
              | Inr normalized \<Rightarrow>
                  harmonic_synthesis f0 amplitudes normalized n_samples (add_sample_rate self)))"

subsection \<open>Sinusoids\<close>

record Sinusoids =
  sin_n_samples :: nat
  sin_sample_rate :: nat
  amp_scale_fn :: "(real list list list \<Rightarrow> real list list list) option"
  freq_scale_fn :: "(real list list list \<Rightarrow> real list list list) option"
  n_sinusoids :: nat

definition Sinusoids_forward ::
  "Sinusoids \<Rightarrow> real list list list \<Rightarrow> real list list list \<Rightarrow> nat option
     \<Rightarrow> error + real list list" where
  "Sinusoids_forward self amplitudes frequencies n_samples =
     (let n_samples = (case n_samples of None \<Rightarrow> sin_n_samples self | Some n \<Rightarrow> n);
          amplitudes = (case amp_scale_fn self of None \<Rightarrow> amplitudes | Some f \<Rightarrow> f amplitudes);
          frequencies = (case freq_scale_fn self of None \<Rightarrow> frequencies | Some f \<Rightarrow> f frequencies)
      in case resample_frames amplitudes n_samples of
           Inl err \<Rightarrow> Inl err
         | Inr amplitudes_envelope \<Rightarrow>
             (case resample_frames frequencies n_samples of
                Inl err \<Rightarrow> Inl err
              | Inr frequency_envelope \<Rightarrow>
                  oscillator_bank frequency_envelope amplitudes_envelope (sin_sample_rate self)))"

subsection \<open>FilteredNoise\<close>

record FilteredNoise =
  filter_size :: nat
  fn_n_samples :: nat
  fn_scale_fn :: "(real list list list \<Rightarrow> real list list list) option"
  initial_bias :: real
  amplitude :: real

text \<open>
  \<open>torch.rand\<close> is a library function: \<open>rand b i\<close> stands for the number it draws
  for sample \<open>i\<close> of batch element \<open>b\<close>, and is a parameter.
\<close>

definition FilteredNoise_forward ::
  "(nat \<Rightarrow> nat \<Rightarrow> real) \<Rightarrow> FilteredNoise \<Rightarrow> real list list list \<Rightarrow> nat option
     \<Rightarrow> error + real list list" where
  "FilteredNoise_forward rand self freq_response n_samples =
     (let n_samples = (case n_samples of None \<Rightarrow> fn_n_samples self | Some n \<Rightarrow> n);
          batch_size = length freq_response;
          freq_response =
            (case fn_scale_fn self of
               None \<Rightarrow> freq_response
             | Some scale_fn \<Rightarrow> scale_fn (map3 (\<lambda>x. x + initial_bias self) freq_response));
          audio = map (\<lambda>b. map (\<lambda>i. (rand b i * 2 - 1) * amplitude self) [0..<n_samples])
                    [0..<batch_size]
      in fir_filter audio freq_response (filter_size self))"

subsection \<open>Wavetable and SawOscillator\<close>

record Wavetable =
  len_waveform :: nat
  wt_n_samples :: nat
  wt_sample_rate :: nat
  wt_scale_fn :: "(ctrl \<Rightarrow> ctrl) option"

definition Wavetable_forward ::
  "Wavetable \<Rightarrow> ctrl \<Rightarrow> ctrl \<Rightarrow> ctrl \<Rightarrow> nat option \<Rightarrow> error + real list list" where
  "Wavetable_forward self amplitudes wavetable f0_hz n_samples =
     (let n_samples = (case n_samples of None \<Rightarrow> wt_n_samples self | Some n \<Rightarrow> n);
          amplitudes = (case wt_scale_fn self of None \<Rightarrow> amplitudes | Some f \<Rightarrow> f amplitudes)
      in wavetable_synthesis f0_hz amplitudes wavetable n_samples (wt_sample_rate self))"

record SawOscillator =
  saw_n_samples :: nat
  saw_sample_rate :: nat
  saw_scale_fn :: "(ctrl \<Rightarrow> ctrl) option"
  waveform :: "real list"

text \<open>\<open>torch.linspace(1.0, -1.0, 2048)\<close>, the value \<open>__init__\<close> gives to \<open>waveform\<close>.\<close>

definition saw_waveform :: "real list" where
  "saw_waveform = map (\<lambda>i. 1 - 2 * real i / 2047) [0..<2048]"

definition SawOscillator_forward ::
  "SawOscillator \<Rightarrow> ctrl \<Rightarrow> ctrl \<Rightarrow> nat option \<Rightarrow> error + real list list" where
  "SawOscillator_forward self amplitudes f0_hz n_samples =
     (let n_samples = (case n_samples of None \<Rightarrow> saw_n_samples self | Some n \<Rightarrow> n);
          amplitudes = (case saw_scale_fn self of None \<Rightarrow> amplitudes | Some f \<Rightarrow> f amplitudes)
      in wavetable_synthesis f0_hz amplitudes (Rank1 (waveform self)) n_samples
           (saw_sample_rate self))"

subsection \<open>The terms of the claims about the generators\<close>

text \<open>The length a call asks for: an explicit \<open>n_samples\<close>, or else the configured one.\<close>

definition requested :: "nat option \<Rightarrow> nat \<Rightarrow> nat" where
  "requested n_samples configured = (case n_samples of None \<Rightarrow> configured | Some n \<Rightarrow> n)"

text \<open>A control after the scale function of the generator, when one is configured.\<close>

definition scaled :: "('a \<Rightarrow> 'a) option \<Rightarrow> 'a \<Rightarrow> 'a" where
  "scaled scale_fn x = (case scale_fn of None \<Rightarrow> x | Some f \<Rightarrow> f x)"

text \<open>
  A control with one number per frame for \<open>B\<close> batch elements of \<open>T\<close> frames: of shape
  (B, T) or (B, T, 1).
\<close>

fun per_frame_shape :: "ctrl \<Rightarrow> nat \<Rightarrow> nat \<Rightarrow> bool" where
  "per_frame_shape (Rank1 f) B T = False"
| "per_frame_shape (Rank2 f) B T = (length f = B \<and> list_all (\<lambda>r. length r = T) f)"
| "per_frame_shape (Rank3 f) B T = has_shape f B T 1"

text \<open>A batch of \<open>B\<close> signals of \<open>n\<close> samples each.\<close>

definition is_audio :: "'a list list \<Rightarrow> nat \<Rightarrow> nat \<Rightarrow> bool" where
  "is_audio out B n = (length out = B \<and> list_all (\<lambda>row. length row = n) out)"

subsection \<open>The terms of the claim about compute_loudness\<close>

text \<open>
  The loudness of one STFT entry \<open>x\<close> in a bin whose weight is \<open>a\<close>: the magnitude in
  dB (with the two small constants of the source), plus the weight, minus the reference,
  clamped at the floor \<open>- range_db\<close>.
\<close>

definition bin_loudness :: "real \<times> real \<Rightarrow> real \<Rightarrow> real \<Rightarrow> real \<Rightarrow> real" where
  "bin_loudness x a ref_db range_db =
     max (20 * log 10 (sqrt (amp x + 1 / 100000) + 1 / 100000) + a - ref_db) (- range_db)"

text \<open>
  The clamped, weighted loudness of every STFT entry of one batch element, as the
  statements of \<open>compute_loudness\<close> build it on the whole tensor: magnitude,
  decibels, weighting per bin, reference, floor.
\<close>

definition clamped_bins :: "real list \<Rightarrow> real \<Rightarrow> real \<Rightarrow> (real \<times> real) list list \<Rightarrow> real list list" where
  "clamped_bins aw ref_db range_db m =
     map (map (\<lambda>v. max v (- range_db)))
       (map (map (\<lambda>v. v - ref_db))
          (map2 (\<lambda>row a. map (\<lambda>v. v + a) row)
             (map (map (\<lambda>x. 20 * log 10 (x + 1 / 100000)))
                (map (map (\<lambda>x. sqrt (amp x + 1 / 100000))) m)) aw))"

text \<open>
  The frame count \<open>compute_loudness\<close> pads or trims to: the duration in seconds
  (samples over sample rate, a double) times the frame rate (a double again), truncated
  toward zero by \<open>int\<close>.
\<close>

definition expected_frames :: "nat \<Rightarrow> nat \<Rightarrow> nat \<Rightarrow> nat" where
  "expected_frames n_samples sample_rate frame_rate =
     nat (py_int (to_double (to_double (real n_samples / real sample_rate) * real frame_rate)))"

text \<open>The number of frames of every curve of a result.\<close>

definition frame_counts :: "tensor \<Rightarrow> nat list" where
  "frame_counts l = map length (rows l)"

section \<open>One instance of the parameter\<close>

text \<open>
  The theorems hold for every \<open>env\<close>. To apply them to concrete signals, here is
  one instance: an STFT by the textbook formulas (frames of \<open>n_fft\<close> samples every
  \<open>hop_length\<close> samples, after reflection padding by \<open>n_fft div 2\<close> when centred;
  the bins 0 to \<open>n_fft div 2\<close> of the windowed frame's discrete Fourier transform) and
  a flat weighting curve. Nothing is claimed about torch or librosa through it.
\<close>

definition reflect_pad :: "real list \<Rightarrow> nat \<Rightarrow> real list" where
  "reflect_pad xs p = rev (take p (tl xs)) @ xs @ take p (tl (rev xs))"

definition frames_of :: "real list \<Rightarrow> nat \<Rightarrow> nat \<Rightarrow> real list list" where
  "frames_of xs n hop = map (\<lambda>m. take n (drop (m * hop) xs)) [0..<(length xs - n) div hop + 1]"

definition dft_bin :: "real list \<Rightarrow> real list \<Rightarrow> nat \<Rightarrow> real \<times> real" where
  "dft_bin w fr k =
     ((\<Sum>j\<leftarrow>[0..<length fr]. w ! j * fr ! j * cos (2 * pi * real k * real j / real (length fr))),
      - (\<Sum>j\<leftarrow>[0..<length fr]. w ! j * fr ! j * sin (2 * pi * real k * real j / real (length fr))))"

definition stft_values :: "real list \<Rightarrow> nat \<Rightarrow> nat \<Rightarrow> real list list \<Rightarrow> (real \<times> real) list list list" where
  "stft_values w n_fft hop batch =
     map (\<lambda>xs. map (\<lambda>k. map (\<lambda>fr. dft_bin w fr k) (frames_of xs n_fft hop)) [0..<n_fft div 2 + 1])
       batch"

definition textbook_stft ::
  "tensor \<Rightarrow> nat \<Rightarrow> real list option \<Rightarrow> int \<Rightarrow> bool \<Rightarrow> error + (real \<times> real) list list list" where
  "textbook_stft audio n_fft window hop_length center =
     (let batch = rows audio;
          w = (case window of None \<Rightarrow> replicate n_fft 1 | Some w \<Rightarrow> w);
          p = n_fft div 2
      in if hop_length \<le> 0 \<or> n_fft = 0 \<or> length w \<noteq> n_fft
            \<or> (center \<and> \<not> list_all (\<lambda>xs. p < length xs) batch)
         then Inl RuntimeError
         else
           let padded = (if center then map (\<lambda>xs. reflect_pad xs p) batch else batch)
           in if \<not> list_all (\<lambda>xs. n_fft \<le> length xs) padded then Inl RuntimeError
              else Inr (stft_values w n_fft (nat hop_length) padded))"

definition demo_env :: env where
  "demo_env =
     \<lparr>stft = textbook_stft,
      fft_frequencies = (\<lambda>sr n_fft. map (\<lambda>k. real k * real sr / real n_fft) [0..<n_fft div 2 + 1]),
      A_weighting = map (\<lambda>f. 0),
      eps = 1 / 10000\<rparr>"

text \<open>
  The loudness this instance gives every frame of a constant signal of value \<open>c\<close>:
  all frames of the signal are the same \<open>n\<close> samples.
\<close>

definition constant_level :: "nat \<Rightarrow> real \<Rightarrow> real \<Rightarrow> real \<Rightarrow> real" where
  "constant_level n c ref_db range_db =
     (\<Sum>k\<leftarrow>[0..<n div 2 + 1].
        bin_loudness (dft_bin (replicate n 1) (replicate n c) k) 0 ref_db range_db)
     / real (n div 2 + 1)"

section \<open>The spectral loss: proofs\<close>

lemma length_flat3_map3 [simp]: "length (flat3 (map3 f t)) = length (flat3 t)"
  by (simp add: flat3_def map3_def length_concat comp_def map_concat)

lemma flat3_map3: "flat3 (map3 f t) = map f (flat3 t)"
  by (simp add: flat3_def map3_def map_concat comp_def)

lemma MultiscaleFFT_Inr:
  assumes "\<And>n. n \<in> set sizes \<Longrightarrow> stft_at e audio ov n = Inr (S n)"
  shows "MultiscaleFFT e audio sizes ov = Inr (map (\<lambda>n. map3 amp (S n)) sizes)"
  using assms by (induction sizes) (simp_all add: stft_at_def)

lemma loss_func_supported:
  assumes "supported lt" "xs \<noteq> []" "length xs = length ys"
  shows "loss_func xs ys lt red = Inr (Some (Fin (mean_distance lt xs ys)))"
  using assms
  by (auto simp: supported_def loss_func_def l1_loss_def mse_loss_def smooth_l1_loss_def
      mean_reduce_def mean_distance_def pointwise_distance_def)

lemma loss_func_unsupported:
  "\<not> supported lt \<Longrightarrow> loss_func xs ys lt red = Inr None"
  by (simp add: supported_def loss_func_def)


lemma step_supported:
  assumes "supported lt" "comparable s t"
  shows "(case (if 0 < mag_w self
               then add_term (Fin a) (mag_w self)
                      (loss_func (flat3 s) (flat3 t) lt red)
               else Inr (Fin a)) of
           Inl err \<Rightarrow> Inl err
         | Inr loss1 \<Rightarrow>
             (case (if 0 < log_mag_w self
                    then add_term loss1 (log_mag_w self)
                           (loss_func (flat3 (map3 (log_eps e) s))
                              (flat3 (map3 (log_eps e) t)) lt red)
                    else Inr loss1) of
                Inl err \<Rightarrow> Inl err
              | Inr loss2 \<Rightarrow> K loss2)) = K (Fin (a + resolution_term e self lt s t))"
proof -
  have c: "flat3 (map3 (log_eps e) s) \<noteq> []" "length (flat3 (map3 (log_eps e) s)) = length (flat3 (map3 (log_eps e) t))"
    using assms(2) by (simp_all add: comparable_def flat3_map3)
  have l: "log_eps e = (\<lambda>x. ln (x + eps e))" by (simp add: fun_eq_iff log_eps_def)
  show ?thesis
    using assms(2) c
    by (simp add: loss_func_supported[OF assms(1)] comparable_def add_term_def resolution_term_def l add.assoc)
qed

lemma forward_loop_supported:
  assumes "supported lt"
  shows "i + length specs \<le> length tspecs \<Longrightarrow> list_all2 comparable specs (take (length specs) (drop i tspecs)) \<Longrightarrow>
     forward_loop e self lt red tspecs i specs (Fin a) =
       Inr (Fin (a + (\<Sum>(s, t)\<leftarrow>zip specs (drop i tspecs). resolution_term e self lt s t)))"
proof (induction specs arbitrary: i a)
  case Nil
  then show ?case by simp
next
  case (Cons s specs)
  from Cons.prems(1) have i: "i < length tspecs" by simp
  then have d: "drop i tspecs = tspecs ! i # drop (Suc i) tspecs"
    by (simp add: Cons_nth_drop_Suc)
  from Cons.prems(2) d have c: "comparable s (tspecs ! i)"
    and r: "list_all2 comparable specs (take (length specs) (drop (Suc i) tspecs))"
    by simp_all
  have ih: "\<And>a. forward_loop e self lt red tspecs (Suc i) specs (Fin a) =
       Inr (Fin (a + (\<Sum>(s, t)\<leftarrow>zip specs (drop (Suc i) tspecs). resolution_term e self lt s t)))"
    using Cons.IH[OF _ r] Cons.prems(1) by simp
  show ?case
    using i step_supported[OF assms c, where K = "forward_loop e self lt red tspecs (Suc i) specs"]
    by (simp add: ih d add.assoc)
qed

lemma forward_loop_off:
  "mag_w self \<le> 0 \<Longrightarrow> log_mag_w self \<le> 0 \<Longrightarrow> i + length specs \<le> length tspecs \<Longrightarrow>
     forward_loop e self lt red tspecs i specs loss = Inr loss"
  by (induction specs arbitrary: i) simp_all


lemma MultiscaleFFT_ex:
  assumes "\<And>n. n \<in> set sizes \<Longrightarrow> \<exists>s. stft_at e audio ov n = Inr s"
  shows "\<exists>specs. MultiscaleFFT e audio sizes ov = Inr specs \<and> length specs = length sizes"
proof -
  from assms have "\<forall>n\<in>set sizes. \<exists>s. stft_at e audio ov n = Inr s" by blast
  then obtain S where "\<forall>n\<in>set sizes. stft_at e audio ov n = Inr (S n)" by metis
  then show ?thesis using MultiscaleFFT_Inr[of sizes e audio ov S] by simp
qed

lemma forward_sum:
  assumes S: "\<And>n. n \<in> set (fft_sizes self) \<Longrightarrow> stft_at e input_audio (overlap self) n = Inr (S n)"
    and T: "\<And>n. n \<in> set (fft_sizes self) \<Longrightarrow> stft_at e target_audio (overlap self) n = Inr (T n)"
    and cmp: "\<And>n. n \<in> set (fft_sizes self) \<Longrightarrow> comparable (S n) (T n)"
    and sup: "supported loss_type"
    and loud: "loud_w self \<le> 0"
  shows "forward e self input_audio target_audio loss_type reduction =
     Inr (Fin (\<Sum>n\<leftarrow>fft_sizes self.
        resolution_term e self loss_type (map3 amp (S n)) (map3 amp (T n))))"
proof -
  let ?sizes = "fft_sizes self"
  let ?specs = "map (\<lambda>n. map3 amp (S n)) ?sizes"
  let ?tspecs = "map (\<lambda>n. map3 amp (T n)) ?sizes"
  have m1: "MultiscaleFFT e input_audio ?sizes (overlap self) = Inr ?specs"
    using S by (rule MultiscaleFFT_Inr)
  have m2: "MultiscaleFFT e target_audio ?sizes (overlap self) = Inr ?tspecs"
    using T by (rule MultiscaleFFT_Inr)
  have c: "list_all2 comparable ?specs (take (length ?specs) (drop 0 ?tspecs))"
    using cmp by (simp add: list_all2_conv_all_nth comparable_def flat3_map3)
  have z: "zip ?specs ?tspecs = map (\<lambda>n. (map3 amp (S n), map3 amp (T n))) ?sizes"
    by (simp add: zip_map_map zip_same_conv_map)
  have "forward_loop e self loss_type reduction ?tspecs 0 ?specs (Fin 0) =
      Inr (Fin (0 + (\<Sum>(s, t)\<leftarrow>zip ?specs (drop 0 ?tspecs). resolution_term e self loss_type s t)))"
    by (rule forward_loop_supported[OF sup _ c]) simp
  then have "forward_loop e self loss_type reduction ?tspecs 0 ?specs (Fin 0) =
      Inr (Fin (\<Sum>n\<leftarrow>?sizes. resolution_term e self loss_type (map3 amp (S n)) (map3 amp (T n))))"
    by (simp add: z comp_def)
  then show ?thesis
    using loud by (simp add: forward_def m1 m2)
qed

lemma forward_off:
  assumes "mag_w self \<le> 0" "log_mag_w self \<le> 0" "loud_w self \<le> 0"
    and "\<And>n. n \<in> set (fft_sizes self) \<Longrightarrow> \<exists>s. stft_at e input_audio (overlap self) n = Inr s"
    and "\<And>n. n \<in> set (fft_sizes self) \<Longrightarrow> \<exists>s. stft_at e target_audio (overlap self) n = Inr s"
  shows "forward e self input_audio target_audio loss_type reduction = Inr (Fin 0)"
proof -
  obtain specs where s: "MultiscaleFFT e input_audio (fft_sizes self) (overlap self) = Inr specs"
      "length specs = length (fft_sizes self)"
    using MultiscaleFFT_ex[OF assms(4)] by blast
  obtain tspecs where t: "MultiscaleFFT e target_audio (fft_sizes self) (overlap self) = Inr tspecs"
      "length tspecs = length (fft_sizes self)"
    using MultiscaleFFT_ex[OF assms(5)] by blast
  have "forward_loop e self loss_type reduction tspecs 0 specs (Fin 0) = Inr (Fin 0)"
    using assms(1,2) s(2) t(2) by (simp add: forward_loop_off)
  then show ?thesis using assms(3) s(1) t(1) by (simp add: forward_def)
qed

lemma forward_loop_unsupported:
  assumes "\<not> supported lt" "0 < mag_w self \<or> 0 < log_mag_w self" "specs \<noteq> []"
    "i + length specs \<le> length tspecs"
  shows "forward_loop e self lt red tspecs i specs loss = Inl TypeError"
  using assms by (cases specs) (auto simp: loss_func_unsupported add_term_def)

lemma mean_distance_same: "mean_distance lt xs xs = 0"
proof -
  have "(\<Sum>(a, b)\<leftarrow>zip xs xs. pointwise_distance lt a b) = 0"
    by (induction xs) (simp_all add: pointwise_distance_def)
  then show ?thesis by (simp add: mean_distance_def)
qed


subsection \<open>The textbook STFT succeeds on long enough signals\<close>

lemma length_frames_of: "length (frames_of xs n hop) = (length xs - n) div hop + 1"
  by (simp add: frames_of_def)

lemma length_flat3_stft_values:
  "length (flat3 (stft_values w n hop batch)) =
     (\<Sum>xs\<leftarrow>batch. (n div 2 + 1) * ((length xs - n) div hop + 1))"
  by (induction batch) (simp_all add: stft_values_def flat3_def length_concat comp_def length_frames_of sum_list_triv)

lemma textbook_stft_plain:
  assumes "0 < hop" "0 < n" "length w = n" "list_all (\<lambda>xs. n \<le> length xs) (rows audio)"
  shows "textbook_stft audio n (Some w) hop False = Inr (stft_values w n (nat hop) (rows audio))"
  using assms by (simp add: textbook_stft_def)

lemma length_hann_window [simp]: "length (hann_window n) = n"
  by (simp add: hann_window_def)

lemma stft_at_demo:
  assumes "0 < py_int ((1 - ov) * real n)" "0 < n" "list_all (\<lambda>xs. n \<le> length xs) (rows audio)"
  shows "stft_at demo_env audio ov n =
           Inr (stft_values (hann_window n) n (nat (py_int ((1 - ov) * real n))) (rows audio))"
  using assms by (simp add: stft_at_def demo_env_def textbook_stft_plain)

lemma comparable_stft_values:
  assumes "map length b1 = map length b2" "b1 \<noteq> []"
  shows "comparable (stft_values w n hop b1) (stft_values w n hop b2)"
proof -
  have "(\<Sum>xs\<leftarrow>b1. (n div 2 + 1) * ((length xs - n) div hop + 1)) =
        (\<Sum>l\<leftarrow>map length b1. (n div 2 + 1) * ((l - n) div hop + 1))"
    by (simp add: comp_def)
  also have "\<dots> = (\<Sum>xs\<leftarrow>b2. (n div 2 + 1) * ((length xs - n) div hop + 1))"
    by (simp add: assms(1) comp_def)
  finally have eq: "length (flat3 (stft_values w n hop b1)) = length (flat3 (stft_values w n hop b2))"
    by (simp add: length_flat3_stft_values)
  obtain x xs where b: "b1 = x # xs" using assms(2) by (cases b1) auto
  have "0 < length (flat3 (stft_values w n hop b1))"
    by (simp add: length_flat3_stft_values b)
  then show ?thesis using eq by (auto simp: comparable_def)
qed

lemma map3_map3: "map3 f (map3 g t) = map3 (\<lambda>x. f (g x)) t"
  by (simp add: map3_def comp_def)

lemma stft_at_demo_ex:
  assumes "0 < py_int ((1 - ov) * real n)" "0 < n" "list_all (\<lambda>xs. n \<le> length xs) (rows audio)"
    "rows audio \<noteq> []"
  shows "\<exists>s. stft_at demo_env audio ov n = Inr s \<and> flat3 s \<noteq> []"
proof -
  have "comparable (stft_values (hann_window n) n (nat (py_int ((1 - ov) * real n))) (rows audio))
          (stft_values (hann_window n) n (nat (py_int ((1 - ov) * real n))) (rows audio))"
    using assms(4) by (intro comparable_stft_values) simp_all
  then show ?thesis
    using stft_at_demo[OF assms(1-3)] by (simp add: comparable_def)
qed

lemma forward_same:
  assumes "supported loss_type" "loud_w self \<le> 0"
    and "\<And>n. n \<in> set (fft_sizes self) \<Longrightarrow> \<exists>s. stft_at e x (overlap self) n = Inr s \<and> flat3 s \<noteq> []"
  shows "forward e self x x loss_type reduction = Inr (Fin 0)"
proof -
  from assms(3) have "\<forall>n\<in>set (fft_sizes self). \<exists>s. stft_at e x (overlap self) n = Inr s \<and> flat3 s \<noteq> []"
    by blast
  then obtain S where S: "\<forall>n\<in>set (fft_sizes self). stft_at e x (overlap self) n = Inr (S n) \<and> flat3 (S n) \<noteq> []"
    by metis
  have 1: "\<And>n. n \<in> set (fft_sizes self) \<Longrightarrow> stft_at e x (overlap self) n = Inr (S n)"
    using S by blast
  have 2: "\<And>n. n \<in> set (fft_sizes self) \<Longrightarrow> comparable (S n) (S n)"
    using S by (simp add: comparable_def)
  have "resolution_term e self loss_type s s = 0" for s
    by (simp add: resolution_term_def mean_distance_same)
  then show ?thesis
    using forward_sum[OF 1 1 2 assms(1,2), of reduction] by simp
qed

text \<open>
  Claim C8. With \<open>mag_w = 1\<close>, \<open>log_mag_w = 0\<close> and \<open>loud_w = 0\<close>, the loss of a
  signal against itself is 0 for each supported \<open>loss_type\<close>, whenever the STFT of the
  signal succeeds for every configured size and gives a spectrogram with at least one entry.
\<close>

theorem identical_signals_zero_loss:
  assumes "mag_w self = 1" "log_mag_w self = 0" "loud_w self = 0"
    and "supported loss_type"
    and "\<And>n. n \<in> set (fft_sizes self) \<Longrightarrow> \<exists>s. stft_at e x (overlap self) n = Inr s \<and> flat3 s \<noteq> []"
  shows "forward e self x x loss_type reduction = Inr (Fin 0)"
  using assms(3) by (intro forward_same assms(4,5)) simp_all

lemma demo_default_sizes:
  assumes "n \<in> set [64, 128, 256, 512, 1024, 2048]" "list_all (\<lambda>xs. 2048 \<le> length xs) (rows audio)"
    "rows audio \<noteq> []"
  shows "\<exists>s. stft_at demo_env audio (3 / 4) n = Inr s \<and> flat3 s \<noteq> []"
proof (rule stft_at_demo_ex)
  show "0 < py_int ((1 - 3 / 4) * real n)" using assms(1) by (auto simp: py_int_def)
  show "0 < n" using assms(1) by auto
  have "n \<le> 2048" using assms(1) by auto
  then show "list_all (\<lambda>xs. n \<le> length xs) (rows audio)"
    using assms(2) by (auto simp: list_all_iff)
  show "rows audio \<noteq> []" by (rule assms(3))
qed

theorem identical_signals_zero_loss_witness:
  "forward demo_env
     \<lparr>fft_sizes = [64, 128, 256, 512, 1024, 2048], overlap = 3 / 4, sl_sample_rate = 16000,
      mag_w = 1, log_mag_w = 0, loud_w = 0\<rparr>
     (Mat [replicate 2048 (1 / 2)]) (Mat [replicate 2048 (1 / 2)]) ''MSE'' ''mean''
   = Inr (Fin 0)"
proof (rule identical_signals_zero_loss)
  show "supported ''MSE''" by (simp add: supported_def)
  show "\<exists>s. stft_at demo_env (Mat [replicate 2048 (1 / 2)])
        (overlap \<lparr>fft_sizes = [64, 128, 256, 512, 1024, 2048], overlap = 3 / 4,
           sl_sample_rate = 16000, mag_w = 1, log_mag_w = 0, loud_w = 0\<rparr>) n = Inr s \<and> flat3 s \<noteq> []"
    if "n \<in> set (fft_sizes \<lparr>fft_sizes = [64, 128, 256, 512, 1024, 2048], overlap = 3 / 4,
           sl_sample_rate = 16000, mag_w = 1, log_mag_w = 0, loud_w = 0\<rparr>)" for n
    using that demo_default_sizes[of n "Mat [replicate 2048 (1 / 2)]"] by simp
qed simp_all

text \<open>
  Claim C10. When none of the three weights is positive, \<open>forward\<close> returns exactly 0,
  whatever the two signals hold and whatever the \<open>loss_type\<close>, provided the STFTs that
  \<open>forward\<close> computes first succeed.
\<close>

theorem no_positive_weight_zero_loss:
  assumes "mag_w self \<le> 0" "log_mag_w self \<le> 0" "loud_w self \<le> 0"
    and "\<And>n. n \<in> set (fft_sizes self) \<Longrightarrow> \<exists>s. stft_at e input_audio (overlap self) n = Inr s"
    and "\<And>n. n \<in> set (fft_sizes self) \<Longrightarrow> \<exists>s. stft_at e target_audio (overlap self) n = Inr s"
  shows "forward e self input_audio target_audio loss_type reduction = Inr (Fin 0)"
  using assms by (rule forward_off)

theorem no_positive_weight_zero_loss_witness:
  "forward demo_env
     \<lparr>fft_sizes = [64, 128, 256, 512, 1024, 2048], overlap = 3 / 4, sl_sample_rate = 16000,
      mag_w = 0, log_mag_w = - 1, loud_w = 0\<rparr>
     (Mat [replicate 2048 0]) (Mat [replicate 2048 (1 / 2)]) ''L1'' ''mean''
   = Inr (Fin 0)"
proof -
  let ?self = "\<lparr>fft_sizes = [64, 128, 256, 512, 1024, 2048], overlap = 3 / 4, sl_sample_rate = 16000,
      mag_w = 0, log_mag_w = - 1, loud_w = 0\<rparr>"
  let ?x = "Mat [replicate 2048 0]" and ?y = "Mat [replicate 2048 (1 / 2)]"
  have x: "\<And>n. n \<in> set (fft_sizes ?self) \<Longrightarrow> \<exists>s. stft_at demo_env ?x (overlap ?self) n = Inr s"
    using demo_default_sizes[of _ ?x] by auto
  have y: "\<And>n. n \<in> set (fft_sizes ?self) \<Longrightarrow> \<exists>s. stft_at demo_env ?y (overlap ?self) n = Inr s"
    using demo_default_sizes[of _ ?y] by auto
  show ?thesis
    by (rule no_positive_weight_zero_loss[OF _ _ _ x y]) simp_all
qed

text \<open>
  Claim C5, as amended. \<open>SpectralLoss\<close> never checks \<open>loss_type\<close>. For a
  \<open>loss_type\<close> other than the three supported ones, and signals whose STFTs succeed:
  when \<open>fft_sizes\<close> is not empty and \<open>mag_w\<close> or \<open>log_mag_w\<close> is positive,
  \<open>forward\<close> raises \<open>TypeError\<close> (the product of a weight and \<open>None\<close>); when no
  weighted term is evaluated (no size or no positive spectral weight, and \<open>loud_w \<le> 0\<close>)
  it returns the loss 0.
\<close>

theorem unsupported_loss_type_outcome:
  assumes "\<not> supported loss_type"
    and "\<And>n. n \<in> set (fft_sizes self) \<Longrightarrow> \<exists>s. stft_at e input_audio (overlap self) n = Inr s"
    and "\<And>n. n \<in> set (fft_sizes self) \<Longrightarrow> \<exists>s. stft_at e target_audio (overlap self) n = Inr s"
  shows "(fft_sizes self \<noteq> [] \<and> (0 < mag_w self \<or> 0 < log_mag_w self)
            \<longrightarrow> forward e self input_audio target_audio loss_type reduction = Inl TypeError)
       \<and> ((fft_sizes self = [] \<or> (mag_w self \<le> 0 \<and> log_mag_w self \<le> 0)) \<and> loud_w self \<le> 0
            \<longrightarrow> forward e self input_audio target_audio loss_type reduction = Inr (Fin 0))"
proof -
  obtain specs where s: "MultiscaleFFT e input_audio (fft_sizes self) (overlap self) = Inr specs"
      "length specs = length (fft_sizes self)"
    using MultiscaleFFT_ex[OF assms(2)] by blast
  obtain tspecs where t: "MultiscaleFFT e target_audio (fft_sizes self) (overlap self) = Inr tspecs"
      "length tspecs = length (fft_sizes self)"
    using MultiscaleFFT_ex[OF assms(3)] by blast
  have a: "forward e self input_audio target_audio loss_type reduction = Inl TypeError"
    if "fft_sizes self \<noteq> []" "0 < mag_w self \<or> 0 < log_mag_w self"
  proof -
    have "specs \<noteq> []" using that(1) s(2) by auto
    then have "forward_loop e self loss_type reduction tspecs 0 specs (Fin 0) = Inl TypeError"
      using forward_loop_unsupported[OF assms(1) that(2)] s(2) t(2) by simp
    then show ?thesis by (simp add: forward_def s(1) t(1))
  qed
  have b: "forward e self input_audio target_audio loss_type reduction = Inr (Fin 0)"
    if "fft_sizes self = [] \<or> (mag_w self \<le> 0 \<and> log_mag_w self \<le> 0)" "loud_w self \<le> 0"
  proof -
    have "forward_loop e self loss_type reduction tspecs 0 specs (Fin 0) = Inr (Fin 0)"
      using that(1) s(2) t(2) by (auto simp: forward_loop_off)
    then show ?thesis using that(2) by (simp add: forward_def s(1) t(1))
  qed
  show ?thesis using a b by blast
qed

text \<open>
  The claim as stated fails: with both spectral weights 0, \<open>forward\<close> returns 0 for
  the unsupported \<open>loss_type\<close> \<open>L2\<close>, on two different signals.
\<close>

theorem unsupported_loss_type_counterexample:
  "\<not> supported ''L2'' \<and>
   forward demo_env
     \<lparr>fft_sizes = [64, 128, 256, 512, 1024, 2048], overlap = 3 / 4, sl_sample_rate = 16000,
      mag_w = 0, log_mag_w = 0, loud_w = 0\<rparr>
     (Mat [replicate 2048 0]) (Mat [replicate 2048 (1 / 2)]) ''L2'' ''mean''
   = Inr (Fin 0)"
proof -
  let ?self = "\<lparr>fft_sizes = [64, 128, 256, 512, 1024, 2048], overlap = 3 / 4, sl_sample_rate = 16000,
      mag_w = 0, log_mag_w = 0, loud_w = 0\<rparr>"
  let ?x = "Mat [replicate 2048 0]" and ?y = "Mat [replicate 2048 (1 / 2)]"
  have x: "\<And>n. n \<in> set (fft_sizes ?self) \<Longrightarrow> \<exists>s. stft_at demo_env ?x (overlap ?self) n = Inr s"
    using demo_default_sizes[of _ ?x] by auto
  have y: "\<And>n. n \<in> set (fft_sizes ?self) \<Longrightarrow> \<exists>s. stft_at demo_env ?y (overlap ?self) n = Inr s"
    using demo_default_sizes[of _ ?y] by auto
  have "forward demo_env ?self ?x ?y ''L2'' ''mean'' = Inr (Fin 0)"
    by (rule forward_off[OF _ _ _ x y]) simp_all
  then show ?thesis by (simp add: supported_def)
qed

theorem unsupported_loss_type_outcome_witness:
  "forward demo_env
     \<lparr>fft_sizes = [64, 128, 256, 512, 1024, 2048], overlap = 3 / 4, sl_sample_rate = 16000,
      mag_w = 1, log_mag_w = 1, loud_w = 0\<rparr>
     (Mat [replicate 2048 0]) (Mat [replicate 2048 (1 / 2)]) ''L2'' ''mean''
   = Inl TypeError"
proof -
  let ?self = "\<lparr>fft_sizes = [64, 128, 256, 512, 1024, 2048], overlap = 3 / 4, sl_sample_rate = 16000,
      mag_w = 1, log_mag_w = 1, loud_w = 0\<rparr>"
  let ?x = "Mat [replicate 2048 0]" and ?y = "Mat [replicate 2048 (1 / 2)]"
  have u: "\<not> supported ''L2''" by (simp add: supported_def)
  have x: "\<And>n. n \<in> set (fft_sizes ?self) \<Longrightarrow> \<exists>s. stft_at demo_env ?x (overlap ?self) n = Inr s"
    using demo_default_sizes[of _ ?x] by auto
  have y: "\<And>n. n \<in> set (fft_sizes ?self) \<Longrightarrow> \<exists>s. stft_at demo_env ?y (overlap ?self) n = Inr s"
    using demo_default_sizes[of _ ?y] by auto
  show ?thesis
    using unsupported_loss_type_outcome[of "''L2''" ?self demo_env ?x ?y "''mean''", OF u x y]
    by simp
qed

section \<open>Additive: proofs\<close>

lemma same_shape_lengths:
  assumes "same_shape a b"
  shows "length a = length b"
    and "i < length a \<Longrightarrow> length (a ! i) = length (b ! i)"
    and "i < length a \<Longrightarrow> j < length (a ! i) \<Longrightarrow> length (a ! i ! j) = length (b ! i ! j)"
proof -
  from assms have m: "map (map length) a = map (map length) b" by (simp add: same_shape_def)
  then show l: "length a = length b" by (metis length_map)
  show l2: "length (a ! i) = length (b ! i)" if "i < length a"
  proof -
    have "map (map length) a ! i = map (map length) b ! i" using m by simp
    then have "map length (a ! i) = map length (b ! i)" using that l by simp
    then show ?thesis by (metis length_map)
  qed
  show "length (a ! i ! j) = length (b ! i ! j)" if "i < length a" "j < length (a ! i)"
  proof -
    have "map (map length) a ! i = map (map length) b ! i" using m by simp
    then have "map length (a ! i) = map length (b ! i)" using that l by simp
    then have "map length (a ! i) ! j = map length (b ! i) ! j" by simp
    then show ?thesis using that l2 by simp
  qed
qed

lemma remove_above_nyquist_nth:
  assumes "remove_above_nyquist hf d sr = Inr bl"
  shows "same_shape hf d" and "same_shape bl d"
    and "b < length bl \<Longrightarrow> t < length (bl ! b) \<Longrightarrow> k < length (bl ! b ! t) \<Longrightarrow>
           bl ! b ! t ! k = (if hf ! b ! t ! k < real sr / 2 then d ! b ! t ! k else 0)"
proof -
  show s: "same_shape hf d" using assms by (auto simp: remove_above_nyquist_def split: if_splits)
  then have bl: "bl = map2 (map2 (map2 (\<lambda>f a. if f < real sr / 2 then a else 0))) hf d"
    using assms by (simp add: remove_above_nyquist_def)
  note L = same_shape_lengths[OF s]
  have l1: "length bl = length d" using L(1) by (simp add: bl)
  have l2: "length (bl ! i) = length (d ! i)" if "i < length d" for i
    using that L(1) L(2)[of i] by (simp add: bl)
  have l3: "length (bl ! i ! j) = length (d ! i ! j)" if "i < length d" "j < length (d ! i)" for i j
    using that L(1) L(2)[of i] L(3)[of i j] by (simp add: bl)
  show "same_shape bl d"
    unfolding same_shape_def
    by (intro nth_equalityI) (simp_all add: l1 l2 l3)
  show "bl ! b ! t ! k = (if hf ! b ! t ! k < real sr / 2 then d ! b ! t ! k else 0)"
    if "b < length bl" "t < length (bl ! b)" "k < length (bl ! b ! t)"
  proof -
    have b: "b < length d" using that(1) l1 by simp
    have t: "t < length (d ! b)" using that(2) l2[OF b] by simp
    have k: "k < length (d ! b ! t)" using that(3) l3[OF b t] by simp
    show ?thesis
      using b t k L(1) L(2)[of b] L(3)[of b t] by (simp add: bl)
  qed
qed

lemma get_harmonic_frequencies_nth:
  assumes "get_harmonic_frequencies f0 n = Inr hf"
  shows "length hf = length f0"
    and "b < length f0 \<Longrightarrow> length (hf ! b) = length (f0 ! b)"
    and "b < length f0 \<Longrightarrow> t < length (f0 ! b) \<Longrightarrow> length (f0 ! b ! t) = 1"
    and "b < length f0 \<Longrightarrow> t < length (f0 ! b) \<Longrightarrow> k < n \<Longrightarrow>
           hf ! b ! t ! k = hd (f0 ! b ! t) * real (Suc k)"
    and "b < length f0 \<Longrightarrow> t < length (f0 ! b) \<Longrightarrow> length (hf ! b ! t) = n"
proof -
  from assms have c: "list_all (list_all (\<lambda>c. length c = 1)) f0"
    and hf: "hf = map (map (\<lambda>c. map (\<lambda>k. hd c * real k) [1..<Suc n])) f0"
    by (auto simp: get_harmonic_frequencies_def split: if_splits)
  show "length hf = length f0" by (simp add: hf)
  show "length (hf ! b) = length (f0 ! b)" if "b < length f0" using that by (simp add: hf)
  show "length (f0 ! b ! t) = 1" if "b < length f0" "t < length (f0 ! b)"
    using c that by (simp add: list_all_length)
  show "hf ! b ! t ! k = hd (f0 ! b ! t) * real (Suc k)"
    if "b < length f0" "t < length (f0 ! b)" "k < n"
  proof -
    have "[1..<Suc n] ! k = 1 + k" by (rule nth_upt) (use that(3) in simp)
    then show ?thesis using that by (simp add: hf del: upt_Suc)
  qed
  show "length (hf ! b ! t) = n" if "b < length f0" "t < length (f0 ! b)"
    using that by (simp add: hf)
qed


lemma same_shape_sym: "same_shape a b \<Longrightarrow> same_shape b a"
  by (simp add: same_shape_def)

lemma Additive_bandlimited_channel:
  assumes "Additive_bandlimited self d f0_hz = Inr bl"
  shows "\<exists>f0. add_channel_dim f0_hz = Inr f0"
  using assms
  by (cases "add_channel_dim f0_hz") (simp_all add: Additive_bandlimited_def Let_def)

lemma Additive_bandlimited_on:
  assumes "Additive_bandlimited self d f0_hz = Inr bl"
    and "normalize_below_nyquist self" and "add_channel_dim f0_hz = Inr f0"
  shows "\<exists>hf. get_harmonic_frequencies f0
                 (last_dim3 (case add_scale_fn self of None \<Rightarrow> d | Some scale_fn \<Rightarrow> scale_fn d)) = Inr hf
             \<and> remove_above_nyquist hf
                 (case add_scale_fn self of None \<Rightarrow> d | Some scale_fn \<Rightarrow> scale_fn d)
                 (add_sample_rate self) = Inr bl"
  using assms
  by (cases "get_harmonic_frequencies f0
                 (last_dim3 (case add_scale_fn self of None \<Rightarrow> d | Some scale_fn \<Rightarrow> scale_fn d))")
     (simp_all add: Additive_bandlimited_def Let_def)

lemma bandlimited_entry:
  assumes bl: "Additive_bandlimited self d f0_hz = Inr bl"
    and nb: "normalize_below_nyquist self"
    and f0: "add_channel_dim f0_hz = Inr f0"
    and b: "b < length bl" and t: "t < length (bl ! b)" and k: "k < length (bl ! b ! t)"
  shows "length (f0 ! b ! t) = 1"
    and "real (add_sample_rate self) / 2 \<le> hd (f0 ! b ! t) * real (Suc k) \<Longrightarrow> bl ! b ! t ! k = 0"
proof -
  let ?sd = "case add_scale_fn self of None \<Rightarrow> d | Some scale_fn \<Rightarrow> scale_fn d"
  from Additive_bandlimited_on[OF bl nb f0]
  obtain hf where hf: "get_harmonic_frequencies f0 (last_dim3 ?sd) = Inr hf"
    and r: "remove_above_nyquist hf ?sd (add_sample_rate self) = Inr bl"
    by blast
  note R = remove_above_nyquist_nth[OF r]
  note B = same_shape_lengths[OF R(2)]
  note H = same_shape_lengths[OF same_shape_sym[OF R(1)]]
  note G = get_harmonic_frequencies_nth[OF hf]
  have b': "b < length f0" using b B(1) H(1) G(1) by simp
  have t': "t < length (f0 ! b)" using b t B(1) B(2)[of b] H(2)[of b] G(2)[of b] b' by simp
  have "length (hf ! b ! t) = length (bl ! b ! t)"
    using b t B(1) B(2)[of b] B(3)[of b t] H(3)[of b t] by simp
  then have k': "k < last_dim3 ?sd" using k G(5)[OF b' t'] by simp
  show "length (f0 ! b ! t) = 1" by (rule G(3)[OF b' t'])
  show "bl ! b ! t ! k = 0" if "real (add_sample_rate self) / 2 \<le> hd (f0 ! b ! t) * real (Suc k)"
    using that R(3)[OF b t k] G(4)[OF b' t' k'] by simp
qed

lemma Additive_bandlimited_one_frame:
  assumes "add_scale_fn self = None" "normalize_below_nyquist self"
  shows "Additive_bandlimited self [[c]] (Rank3 [[[f]]]) =
     Inr [[map2 (\<lambda>fr a. if fr < real (add_sample_rate self) / 2 then a else 0)
             (map (\<lambda>k. f * real k) [1..<Suc (length c)]) c]]"
  using assms
  by (simp add: Additive_bandlimited_def last_dim3_def get_harmonic_frequencies_def
      remove_above_nyquist_def same_shape_def del: upt_Suc)

lemma exp_sigmoid_pos: "0 < exp_sigmoid x"
proof -
  have "0 < 1 / (1 + exp (- x))" by (simp add: add_pos_pos)
  then have "0 < (1 / (1 + exp (- x))) powr (ln 10)" by simp
  then show ?thesis by (simp add: exp_sigmoid_def add_pos_pos)
qed

text \<open>
  Claim C3. When \<open>Additive.forward\<close> bandlimits (\<open>normalize_below_nyquist\<close>), every
  channel whose harmonic frequency, the frame's f0 times the 1-based harmonic index
  \<open>Suc k\<close>, is at or above \<open>sample_rate / 2\<close> is exactly zero after the bandlimiting
  call, before the normalization. In particular, at f0 = 440 and a sample rate of 16000
  every channel with harmonic index above 18 is zero.
\<close>

theorem bandlimited_zero_at_or_above_nyquist:
  assumes "normalize_below_nyquist self"
    and "add_channel_dim f0_hz = Inr f0"
    and "Additive_bandlimited self harmonic_distribution f0_hz = Inr bl"
    and "b < length bl" and "t < length (bl ! b)" and "k < length (bl ! b ! t)"
    and "f0 ! b ! t = [f]"
  shows "(real (add_sample_rate self) / 2 \<le> f * real (Suc k) \<longrightarrow> bl ! b ! t ! k = 0)
       \<and> (add_sample_rate self = 16000 \<and> f = 440 \<and> 18 < Suc k \<longrightarrow> bl ! b ! t ! k = 0)"
proof -
  have z: "bl ! b ! t ! k = 0" if "real (add_sample_rate self) / 2 \<le> f * real (Suc k)"
    using bandlimited_entry(2)[OF assms(3,1,2,4,5,6)] that assms(7) by simp
  have "real (add_sample_rate self) / 2 \<le> f * real (Suc k)"
    if "add_sample_rate self = 16000" "f = 440" "18 < Suc k"
  proof -
    have "19 \<le> real (Suc k)" using that(3) by simp
    then show ?thesis using that(1,2) by simp
  qed
  then show ?thesis using z by blast
qed

theorem bandlimited_zero_at_or_above_nyquist_witness:
  "\<exists>bl. Additive_bandlimited
          \<lparr>add_n_samples = 64000, add_sample_rate = 16000, add_scale_fn = None,
           normalize_below_nyquist = True, n_harmonics = 64\<rparr>
          [[replicate 64 1]] (Rank3 [[[440]]]) = Inr bl
        \<and> bl ! 0 ! 0 ! 17 = 1 \<and> bl ! 0 ! 0 ! 18 = 0"
proof -
  let ?self = "\<lparr>add_n_samples = 64000, add_sample_rate = 16000, add_scale_fn = None,
           normalize_below_nyquist = True, n_harmonics = 64\<rparr>"
  let ?bl = "[[map2 (\<lambda>fr a. if fr < real (add_sample_rate ?self) / 2 then a else 0)
             (map (\<lambda>k. 440 * real k) [1..<Suc (length (replicate 64 (1::real)))]) (replicate 64 1)]]"
  have e: "Additive_bandlimited ?self [[replicate 64 1]] (Rank3 [[[440]]]) = Inr ?bl"
    by (rule Additive_bandlimited_one_frame) simp_all
  have k: "?bl ! 0 ! 0 ! 17 = 1" by (simp del: upt_Suc)
  have c: "add_channel_dim (Rank3 [[[440]]]) = Inr [[[440]]]" by simp
  have "?bl ! 0 ! 0 ! 18 = 0"
    using bandlimited_zero_at_or_above_nyquist[OF _ c e, where b = 0 and t = 0 and k = 18 and f = 440]
    by (simp del: upt_Suc)
  with e k show ?thesis by blast
qed

lemma normalize_nth:
  assumes "b < length bl" "t < length (bl ! b)"
  shows "normalize_frames bl ! b ! t = map (\<lambda>x. fdiv x (sum_list (bl ! b ! t))) (bl ! b ! t)"
  using assms by (simp add: normalize_frames_def)

lemma sum_list_map_divide:
  fixes c :: real
  shows "sum_list (map (\<lambda>x. x / c) xs) = sum_list xs / c"
  by (induction xs) (simp_all add: add_divide_distrib)

lemma sum_list_all_zero:
  fixes c :: "real list"
  shows "\<forall>x\<in>set c. x = 0 \<Longrightarrow> sum_list c = 0"
  by (induction c) simp_all

lemma map_fdiv_zero:
  "\<forall>x\<in>set c. x = 0 \<Longrightarrow> map (\<lambda>x. fdiv x 0) c = replicate (length c) NaN"
  by (induction c) (simp_all add: fdiv_def)

lemma sum_list_nonneg_pos:
  fixes c :: "real list"
  assumes "\<forall>x\<in>set c. 0 \<le> x" "\<exists>x\<in>set c. x \<noteq> 0"
  shows "0 < sum_list c"
proof -
  from assms obtain x where x: "x \<in> set c" "0 < x" by force
  have "x \<le> sum_list c" using assms(1) x(1) by (simp add: member_le_sum_list)
  then show ?thesis using x(2) by simp
qed

lemma Additive_bandlimited_off:
  assumes "Additive_bandlimited self d f0_hz = Inr bl" and "\<not> normalize_below_nyquist self"
  shows "bl = (case add_scale_fn self of None \<Rightarrow> d | Some scale_fn \<Rightarrow> scale_fn d)"
  using assms
  by (cases "add_channel_dim f0_hz") (simp_all add: Additive_bandlimited_def Let_def)

lemma map3_nth:
  "b < length d \<Longrightarrow> t < length (d ! b) \<Longrightarrow> k < length (d ! b ! t) \<Longrightarrow>
     map3 f d ! b ! t ! k = f (d ! b ! t ! k)"
  by (simp add: map3_def)

lemma same_shape_map3: "same_shape (map3 f d) d"
  by (simp add: same_shape_def map3_def comp_def)

text \<open>
  With the default scale function every bandlimited value is non-negative: a scaled value
  is positive, and bandlimiting keeps it or makes it zero.
\<close>

lemma exp_sigmoid_bandlimited_nonneg:
  assumes sc: "add_scale_fn self = Some (map3 exp_sigmoid)"
    and bl: "Additive_bandlimited self d f0_hz = Inr bl"
    and b: "b < length bl" and t: "t < length (bl ! b)"
  shows "\<forall>x\<in>set (bl ! b ! t). 0 \<le> x"
proof
  fix x assume "x \<in> set (bl ! b ! t)"
  then obtain k where k: "k < length (bl ! b ! t)" and x: "x = bl ! b ! t ! k"
    by (auto simp: in_set_conv_nth)
  let ?sd = "map3 exp_sigmoid d"
  have sd: "(case add_scale_fn self of None \<Rightarrow> d | Some scale_fn \<Rightarrow> scale_fn d) = ?sd"
    by (simp add: sc)
  have pos: "0 \<le> ?sd ! b ! t ! k" if "same_shape bl ?sd"
  proof -
    note B = same_shape_lengths[OF that]
    note D = same_shape_lengths[OF same_shape_map3[of exp_sigmoid d]]
    have b': "b < length d" using b B(1) D(1) by simp
    have t': "t < length (d ! b)" using t b B(2)[of b] D(2)[of b] b' D(1) by simp
    have k': "k < length (d ! b ! t)"
      using k b t B(3)[of b t] D(3)[of b t] b' t' D(1) D(2)[of b] by simp
    show ?thesis
      using exp_sigmoid_pos[of "d ! b ! t ! k"] by (simp add: map3_nth[OF b' t' k'])
  qed
  show "0 \<le> x"
  proof (cases "normalize_below_nyquist self")
    case False
    have "bl = ?sd" using Additive_bandlimited_off[OF bl False] sd by simp
    then show ?thesis using pos x by (simp add: same_shape_def)
  next
    case True
    obtain f0 where f0: "add_channel_dim f0_hz = Inr f0"
      using Additive_bandlimited_channel[OF bl] by blast
    from Additive_bandlimited_on[OF bl True f0] sd
    obtain hf where r: "remove_above_nyquist hf ?sd (add_sample_rate self) = Inr bl"
      by auto
    note R = remove_above_nyquist_nth[OF r]
    show ?thesis
      using R(3)[OF b t k] pos[OF R(2)] x by simp
  qed
qed

text \<open>
  Claim C2, as amended. For every batch element and frame whose bandlimited distribution
  is non-negative with at least one non-zero channel, the normalization of
  \<open>Additive.forward\<close> gives finite, non-negative values that sum to 1 along the channel
  axis. The scaled values are non-negative whenever the scale function returns
  non-negative values, as the default \<open>exp_sigmoid\<close> does.
\<close>

theorem normalized_frame_sums_to_one:
  assumes "Additive_bandlimited self harmonic_distribution f0_hz = Inr bl"
    and "b < length bl" and "t < length (bl ! b)"
    and "\<forall>x\<in>set (bl ! b ! t). 0 \<le> x" and "\<exists>x\<in>set (bl ! b ! t). x \<noteq> 0"
  shows "\<exists>nd v. Additive_normalized self harmonic_distribution f0_hz = Inr nd
           \<and> nd ! b ! t = map Fin v \<and> (\<forall>x\<in>set v. 0 \<le> x) \<and> sum_list v = 1"
proof -
  let ?c = "bl ! b ! t"
  let ?v = "map (\<lambda>x. x / sum_list ?c) ?c"
  have p: "0 < sum_list ?c" by (rule sum_list_nonneg_pos[OF assms(4,5)])
  have 1: "Additive_normalized self harmonic_distribution f0_hz = Inr (normalize_frames bl)"
    by (simp add: Additive_normalized_def assms(1))
  have 2: "normalize_frames bl ! b ! t = map Fin ?v"
    using p by (simp add: normalize_nth[OF assms(2,3)] fdiv_def comp_def)
  have 3: "\<forall>x\<in>set ?v. 0 \<le> x" using assms(4) p by auto
  have "sum_list ?v = sum_list ?c / sum_list ?c"
    by (rule sum_list_map_divide)
  then have 4: "sum_list ?v = 1" using p by simp
  show ?thesis using 1 2 3 4 by blast
qed

theorem normalized_frame_sums_to_one_witness:
  "\<exists>nd v. Additive_normalized
          \<lparr>add_n_samples = 64000, add_sample_rate = 16000, add_scale_fn = None,
           normalize_below_nyquist = True, n_harmonics = 3\<rparr>
          [[[1, 3, 4]]] (Rank3 [[[3000]]]) = Inr nd
        \<and> nd ! 0 ! 0 = map Fin v \<and> (\<forall>x\<in>set v. 0 \<le> x) \<and> sum_list v = 1"
proof -
  let ?self = "\<lparr>add_n_samples = 64000, add_sample_rate = 16000, add_scale_fn = None,
           normalize_below_nyquist = True, n_harmonics = 3\<rparr>"
  have e: "Additive_bandlimited ?self [[[1, 3, 4]]] (Rank3 [[[3000]]]) = Inr [[[1, 3, 0]]]"
    by (simp add: Additive_bandlimited_one_frame)
  show ?thesis
    by (rule normalized_frame_sums_to_one[OF e, of 0 0]) simp_all
qed

text \<open>
  The claim as stated fails when no scale function is configured (\<open>scale_fn=None\<close>)
  and the distribution has entries of both signs. Both frames below have non-zero channels
  after bandlimiting; the first normalizes to a negative value, the second sums to zero
  and normalizes to infinities.
\<close>

theorem normalized_frame_counterexample:
  "Additive_bandlimited
     \<lparr>add_n_samples = 64000, add_sample_rate = 16000, add_scale_fn = None,
      normalize_below_nyquist = True, n_harmonics = 2\<rparr>
     [[[1, - 3], [1, - 1]]] (Rank3 [[[100], [100]]]) = Inr [[[1, - 3], [1, - 1]]]
   \<and> Additive_normalized
     \<lparr>add_n_samples = 64000, add_sample_rate = 16000, add_scale_fn = None,
      normalize_below_nyquist = True, n_harmonics = 2\<rparr>
     [[[1, - 3], [1, - 1]]] (Rank3 [[[100], [100]]])
     = Inr [[[Fin (- 1 / 2), Fin (3 / 2)], [PInf, NInf]]]"
proof -
  let ?self = "\<lparr>add_n_samples = 64000, add_sample_rate = 16000, add_scale_fn = None,
      normalize_below_nyquist = True, n_harmonics = 2\<rparr>"
  have e: "Additive_bandlimited ?self [[[1, - 3], [1, - 1]]] (Rank3 [[[100], [100]]])
      = Inr [[[1, - 3], [1, - 1]]]"
    by (simp add: Additive_bandlimited_def last_dim3_def get_harmonic_frequencies_def
      remove_above_nyquist_def same_shape_def)
  have "Additive_normalized ?self [[[1, - 3], [1, - 1]]] (Rank3 [[[100], [100]]])
     = Inr [[[Fin (- 1 / 2), Fin (3 / 2)], [PInf, NInf]]]"
    by (simp add: Additive_normalized_def e normalize_frames_def fdiv_def)
  with e show ?thesis by blast
qed

section \<open>Additive.forward and the harmonic synthesis: proofs\<close>

lemma has_shapeD:
  assumes "has_shape t B T C"
  shows "length t = B"
    and "b < B \<Longrightarrow> length (t ! b) = T"
    and "b < B \<Longrightarrow> i < T \<Longrightarrow> length (t ! b ! i) = C"
  using assms by (simp_all add: has_shape_def list_all_length)

lemma has_shapeI:
  assumes "length t = B" "\<And>b. b < B \<Longrightarrow> length (t ! b) = T"
    and "\<And>b i. b < B \<Longrightarrow> i < T \<Longrightarrow> length (t ! b ! i) = C"
  shows "has_shape t B T C"
  using assms by (simp add: has_shape_def list_all_length)

lemma has_shape_empty: "has_shape t 0 T C \<Longrightarrow> t = []"
  by (simp add: has_shape_def)

lemma has_shape_Nil [simp]: "has_shape [] 0 T C"
  by (simp add: has_shape_def)

lemma has_shape_dims:
  assumes "has_shape t B T C" "0 < B"
  shows "mid_dim3 t = T" and "0 < T \<Longrightarrow> last_dim3 t = C"
proof -
  obtain fs r where t: "t = fs # r" using assms by (cases t) (auto simp: has_shape_def)
  from assms(1) have fs: "length fs = T" "list_all (\<lambda>c. length c = C) fs"
    by (simp_all add: has_shape_def t)
  show "mid_dim3 t = T" by (simp add: mid_dim3_def t fs)
  show "last_dim3 t = C" if T: "0 < T"
  proof -
    obtain c cs where c: "fs = c # cs" using T fs(1) by (cases fs) auto
    then show ?thesis using fs(2) by (simp add: last_dim3_def t)
  qed
qed

lemma has_shape_self:
  assumes "has_shape t B T C" "0 < T"
  shows "has_shape t (length t) (mid_dim3 t) (last_dim3 t)"
    and "length t = 0 \<or> 0 < mid_dim3 t"
proof -
  have "has_shape t (length t) (mid_dim3 t) (last_dim3 t) \<and> (length t = 0 \<or> 0 < mid_dim3 t)"
  proof (cases "B = 0")
    case True
    then have "t = []" using assms(1) has_shape_empty by blast
    then show ?thesis by (simp add: mid_dim3_def)
  next
    case False
    then have "mid_dim3 t = T" "last_dim3 t = C" "length t = B"
      using has_shape_dims[OF assms(1)] assms(2) has_shapeD(1)[OF assms(1)] by simp_all
    then show ?thesis using assms by simp
  qed
  then show "has_shape t (length t) (mid_dim3 t) (last_dim3 t)"
    and "length t = 0 \<or> 0 < mid_dim3 t" by simp_all
qed

lemma has_shape_like:
  assumes "has_shape d B T K" "has_shape f B T C" "0 < T"
  shows "has_shape f (length d) (mid_dim3 d) C"
proof (cases "B = 0")
  case True
  then have "d = []" "f = []" using assms(1,2) has_shape_empty by blast+
  then show ?thesis by simp
next
  case False
  then have "mid_dim3 d = T" "length d = B"
    using has_shape_dims(1)[OF assms(1)] has_shapeD(1)[OF assms(1)] by simp_all
  then show ?thesis using assms(2) by simp
qed

lemma has_shape_map_length:
  assumes "has_shape t B T C"
  shows "map (map length) t = replicate B (replicate T C)"
proof (rule nth_equalityI)
  show "length (map (map length) t) = length (replicate B (replicate T C))"
    using has_shapeD(1)[OF assms] by simp
next
  fix b assume "b < length (map (map length) t)"
  then have b: "b < B" using has_shapeD(1)[OF assms] by simp
  have "map length (t ! b) = replicate T C"
  proof (rule nth_equalityI)
    show "length (map length (t ! b)) = length (replicate T C)"
      using has_shapeD(2)[OF assms b] by simp
  next
    fix i assume "i < length (map length (t ! b))"
    then have i: "i < T" using has_shapeD(2)[OF assms b] by simp
    then show "map length (t ! b) ! i = replicate T C ! i"
      using has_shapeD(2,3)[OF assms b] by simp
  qed
  then show "map (map length) t ! b = replicate B (replicate T C) ! b"
    using b has_shapeD(1)[OF assms] by simp
qed

lemma has_shape_same:
  assumes "has_shape a B T C" "has_shape b B T C"
  shows "same_shape a b"
  by (simp add: same_shape_def has_shape_map_length[OF assms(1)] has_shape_map_length[OF assms(2)])

lemma same_shape_has_shape:
  assumes "same_shape a b" "has_shape b B T C"
  shows "has_shape a B T C"
proof (rule has_shapeI)
  note L = same_shape_lengths[OF assms(1)]
  note D = has_shapeD[OF assms(2)]
  show l: "length a = B" using L(1) D(1) by simp
  show l2: "length (a ! i) = T" if "i < B" for i using that L(2)[of i] D(2)[of i] l by simp
  show "length (a ! i ! j) = C" if "i < B" "j < T" for i j
    using that L(3)[of i j] D(3)[of i j] l l2[of i] by simp
qed

lemma has_shape_normalize:
  assumes "has_shape bl B T K"
  shows "has_shape (normalize_frames bl) B T K"
  using assms by (simp add: has_shape_def normalize_frames_def list_all_iff)

lemma per_frame_shape_channel:
  assumes "per_frame_shape c B T"
  shows "\<exists>f. add_channel_dim c = Inr f \<and> has_shape f B T 1"
  using assms by (cases c) (simp_all add: has_shape_def list_all_iff)

lemma get_harmonic_frequencies_shape:
  assumes "has_shape f B T 1"
  shows "\<exists>hf. get_harmonic_frequencies f n = Inr hf \<and> has_shape hf B T n"
proof -
  have "list_all (list_all (\<lambda>c. length c = 1)) f"
    using assms by (simp add: has_shape_def list_all_iff)
  then have "get_harmonic_frequencies f n = Inr (map (map (\<lambda>c. map (\<lambda>k. hd c * real k) [1..<Suc n])) f)"
    by (simp add: get_harmonic_frequencies_def)
  moreover have "has_shape (map (map (\<lambda>c. map (\<lambda>k. hd c * real k) [1..<Suc n])) f) B T n"
    using assms by (simp add: has_shape_def list_all_iff)
  ultimately show ?thesis by blast
qed

lemma scaled_case: "(case fn of None \<Rightarrow> x | Some f \<Rightarrow> f x) = scaled fn x"
  by (simp add: scaled_def)

lemma Additive_bandlimited_shape:
  assumes "0 < T" "has_shape (scaled (add_scale_fn self) d) B T K" "per_frame_shape f0_hz B T"
  shows "\<exists>bl. Additive_bandlimited self d f0_hz = Inr bl \<and> has_shape bl B T K"
proof -
  let ?sd = "scaled (add_scale_fn self) d"
  obtain f0 where f0: "add_channel_dim f0_hz = Inr f0" "has_shape f0 B T 1"
    using per_frame_shape_channel[OF assms(3)] by blast
  show ?thesis
  proof (cases "normalize_below_nyquist self")
    case False
    then show ?thesis using assms(2) f0 by (simp add: Additive_bandlimited_def scaled_case)
  next
    case True
    obtain hf where hf: "get_harmonic_frequencies f0 (last_dim3 ?sd) = Inr hf"
        "has_shape hf B T (last_dim3 ?sd)"
      using get_harmonic_frequencies_shape[OF f0(2)] by blast
    have "same_shape hf ?sd"
    proof (cases "B = 0")
      case True
      then have "hf = []" "?sd = []" using hf(2) assms(2) has_shape_empty by blast+
      then show ?thesis by (simp add: same_shape_def)
    next
      case False
      then have "last_dim3 ?sd = K" using has_shape_dims(2)[OF assms(2)] assms(1) by simp
      then show ?thesis using hf(2) assms(2) by (simp add: has_shape_same)
    qed
    then have r: "remove_above_nyquist hf ?sd (add_sample_rate self) =
        Inr (map2 (map2 (map2 (\<lambda>f a. if f < real (add_sample_rate self) / 2 then a else 0))) hf ?sd)"
      by (simp add: remove_above_nyquist_def)
    have "has_shape (map2 (map2 (map2 (\<lambda>f a. if f < real (add_sample_rate self) / 2 then a else 0))) hf ?sd) B T K"
      using same_shape_has_shape[OF remove_above_nyquist_nth(2)[OF r] assms(2)] .
    then show ?thesis
      using True f0 hf(1) r by (simp add: Additive_bandlimited_def scaled_case Let_def)
  qed
qed

lemma harmonic_synthesis_value:
  assumes "0 < sr" "0 < T" "has_shape d B T K" "has_shape f B T 1" "has_shape a B T 1"
  shows "harmonic_synthesis f a d n sr =
     Inr (map (\<lambda>b. harmonic_signal (map hd (f ! b)) (map hd (a ! b)) (d ! b) n sr) [0..<B])"
proof -
  note S = has_shape_self[OF assms(3,2)]
  have "has_shape f (length d) (mid_dim3 d) 1" "has_shape a (length d) (mid_dim3 d) 1"
    using has_shape_like[OF assms(3) _ assms(2)] assms(4,5) by simp_all
  then show ?thesis
    using assms(1) S has_shapeD(1)[OF assms(3)] by (simp add: harmonic_synthesis_def Let_def)
qed

lemma length_harmonic_signal [simp]: "length (harmonic_signal f a d n sr) = n"
  by (simp add: harmonic_signal_def Let_def)

lemma Additive_forward_value:
  assumes "0 < T" "0 < add_sample_rate self"
    and "has_shape (scaled (add_scale_fn self) amplitudes) B T 1"
    and "has_shape (scaled (add_scale_fn self) harmonic_distribution) B T K"
    and "per_frame_shape f0_hz B T"
  shows "\<exists>f0 bl. add_channel_dim f0_hz = Inr f0 \<and> has_shape f0 B T 1
           \<and> Additive_bandlimited self harmonic_distribution f0_hz = Inr bl \<and> has_shape bl B T K
           \<and> Additive_forward self amplitudes harmonic_distribution f0_hz n_samples =
               Inr (map (\<lambda>b. harmonic_signal (map hd (f0 ! b))
                                 (map hd (scaled (add_scale_fn self) amplitudes ! b))
                                 (normalize_frames bl ! b)
                                 (requested n_samples (add_n_samples self)) (add_sample_rate self))
                      [0..<B])"
proof -
  obtain f0 where f0: "add_channel_dim f0_hz = Inr f0" "has_shape f0 B T 1"
    using per_frame_shape_channel[OF assms(5)] by blast
  obtain bl where bl: "Additive_bandlimited self harmonic_distribution f0_hz = Inr bl"
      "has_shape bl B T K"
    using Additive_bandlimited_shape[OF assms(1,4,5)] by blast
  have "Additive_forward self amplitudes harmonic_distribution f0_hz n_samples =
      harmonic_synthesis f0 (scaled (add_scale_fn self) amplitudes) (normalize_frames bl)
        (requested n_samples (add_n_samples self)) (add_sample_rate self)"
    by (simp add: Additive_forward_def f0(1) Additive_normalized_def bl(1) scaled_case requested_def)
  then show ?thesis
    using harmonic_synthesis_value[OF assms(2,1) has_shape_normalize[OF bl(2)] f0(2) assms(3)]
      f0 bl by simp
qed


lemma fadd_NaN [simp]: "fadd x NaN = NaN" "fadd NaN x = NaN"
  by (cases x; simp)+

lemma fmul_NaN [simp]: "fmul x NaN = NaN" "fmul NaN x = NaN"
  by (cases x; simp)+

lemma fsum_NaN: "NaN \<in> set xs \<Longrightarrow> fsum xs = NaN"
  unfolding fsum_def by (induction xs) auto

text \<open>When there are at least as many samples as frames, every frame is the lower frame of some sample.\<close>

lemma sample_at_frame:
  assumes "t < T" "T \<le> n"
  shows "\<exists>i<n. nat \<lfloor>frame_position T n i\<rfloor> = t"
proof -
  have T: "0 < real T" and n: "0 < real n" using assms by simp_all
  define q where "q = real n / real T"
  have q1: "1 \<le> q" using assms T by (simp add: q_def)
  have qT: "q * real T = real n" using T by (simp add: q_def)
  define r where "r = (real t + 1 / 2) * q - 1 / 2"
  have r0: "0 \<le> r"
  proof -
    have "1 / 2 * 1 \<le> (real t + 1 / 2) * q" using q1 by (intro mult_mono) simp_all
    then show ?thesis by (simp add: r_def)
  qed
  define i where "i = nat \<lceil>r\<rceil>"
  have "0 \<le> \<lceil>r\<rceil>" using r0 by (simp add: zero_le_ceiling)
  then have ri: "real i = of_int \<lceil>r\<rceil>" by (simp add: i_def)
  have i1: "r \<le> real i" unfolding ri by (rule le_of_int_ceiling)
  have i2: "real i < r + 1" unfolding ri using ceiling_correct[of r] by linarith
  have rn: "r \<le> real n - 1"
  proof -
    have "real t + 1 \<le> real T" using assms(1) by simp
    then have "(real t + 1 / 2) * q \<le> (real T - 1 / 2) * q"
      using q1 by (intro mult_right_mono) simp_all
    also have "\<dots> = real n - q / 2" using qT by (simp add: algebra_simps)
    also have "\<dots> \<le> real n - 1 / 2" using q1 by simp
    finally show ?thesis by (simp add: r_def)
  qed
  have iln: "i < n" using i2 rn by linarith
  define raw where "raw = (real i + 1 / 2) * real T / real n - 1 / 2"
  have raw_eq: "raw = (real i + 1 / 2) / q - 1 / 2"
    using T n by (simp add: raw_def q_def)
  have qpos: "0 < q" using q1 by simp
  have lo: "real t \<le> raw"
  proof -
    have "(real t + 1 / 2) * q \<le> real i + 1 / 2" using i1 by (simp add: r_def)
    then have "real t + 1 / 2 \<le> (real i + 1 / 2) / q" using qpos by (simp add: pos_le_divide_eq)
    then show ?thesis by (simp add: raw_eq)
  qed
  have hi: "raw < real t + 1"
  proof -
    have "real i + 1 / 2 < (real t + 1 / 2) * q + 1" using i2 by (simp add: r_def)
    also have "\<dots> \<le> (real t + 1 / 2) * q + q" using q1 by simp
    also have "\<dots> = (real t + 3 / 2) * q" by (simp add: algebra_simps)
    finally have "(real i + 1 / 2) / q < real t + 3 / 2" using qpos by (simp add: pos_divide_less_eq)
    then show ?thesis by (simp add: raw_eq)
  qed
  have tT: "real t \<le> real T - 1" using assms(1) by linarith
  have p: "frame_position T n i = max 0 (min (real T - 1) raw)"
    by (simp add: frame_position_def raw_def)
  have "real t \<le> frame_position T n i" using lo tT by (simp add: p)
  moreover have "frame_position T n i < real t + 1" using hi tT lo by (simp add: p min_def max_def)
  ultimately have "\<lfloor>frame_position T n i\<rfloor> = int t" by linarith
  then show ?thesis using iln by auto
qed

lemma interpolate_NaN:
  assumes "nat \<lfloor>frame_position (length xs) n i\<rfloor> = t" "xs ! t = NaN"
  shows "interpolate mix_fval xs n i = NaN"
  using assms by (simp add: interpolate_def Let_def mix_fval_def)

lemma harmonic_signal_NaN:
  assumes "t < length ds" "length ds \<le> n" "0 < length (hd ds)" "ds ! t ! 0 = NaN"
  shows "NaN \<in> set (harmonic_signal f0 amps ds n sr)"
proof -
  obtain i where i: "i < n" "nat \<lfloor>frame_position (length ds) n i\<rfloor> = t"
    using sample_at_frame[OF assms(1,2)] by blast
  have u: "upsample mix_fval ds n ! i ! 0 = NaN"
    using i(1) assms(1,3,4) i(2)
    by (simp add: upsample_def interpolate_NaN[where t = t] del: upt_Suc)
  let ?summand = "\<lambda>k. fmul (Fin (sin (wrap_phase (cumulative
                         (map (\<lambda>f. 2 * pi * (f * real (Suc k)) / real sr)
                            (map (interpolate mix_real f0 n) [0..<n])) i))))
                   (fmul (upsample mix_fval ds n ! i ! k)
                      (Fin (map (interpolate mix_real amps n) [0..<n] ! i)))"
  have "?summand 0 = NaN" by (simp only: u fmul_NaN)
  moreover have "?summand 0 \<in> set (map ?summand [0..<length (hd ds)])"
  proof -
    have "0 \<in> set [0..<length (hd ds)]" using assms(3) by simp
    then have "?summand 0 \<in> ?summand ` set [0..<length (hd ds)]" by (rule imageI)
    then show ?thesis by (simp only: set_map)
  qed
  ultimately have "NaN \<in> set (map ?summand [0..<length (hd ds)])" by simp
  then have "fsum (map ?summand [0..<length (hd ds)]) = NaN" by (rule fsum_NaN)
  moreover have "harmonic_signal f0 amps ds n sr ! i = fsum (map ?summand [0..<length (hd ds)])"
    using i(1) by (simp add: harmonic_signal_def Let_def del: upt_Suc)
  ultimately have "harmonic_signal f0 amps ds n sr ! i = NaN" by simp
  then show ?thesis using i(1) by (metis length_harmonic_signal nth_mem)
qed

text \<open>
  Claim C7. When every channel of some frame is zero after bandlimiting (as when the
  frame's f0 is at or above Nyquist), the normalization of \<open>Additive.forward\<close> divides
  zero by zero: every channel of that frame becomes NaN, nothing guards the divisor, and
  the signal \<open>forward\<close> returns for that batch element contains NaN. The controls have
  the shapes of the docstring with at least one harmonic, the sample rate is positive, and
  the call asks for at least as many samples as there are frames (the spec's invariant of
  a control envelope), so that every frame is heard in some sample.
\<close>

theorem zero_frame_output_has_nan:
  assumes "0 < add_sample_rate self"
    and "has_shape (scaled (add_scale_fn self) amplitudes) B T 1"
    and "has_shape (scaled (add_scale_fn self) harmonic_distribution) B T K"
    and "per_frame_shape f0_hz B T"
    and "Additive_bandlimited self harmonic_distribution f0_hz = Inr bl"
    and "b < B" and "t < T" and "0 < K"
    and "\<forall>x\<in>set (bl ! b ! t). x = 0"
    and "T \<le> requested n_samples (add_n_samples self)"
  shows "\<exists>nd out. Additive_normalized self harmonic_distribution f0_hz = Inr nd
           \<and> nd ! b ! t = replicate K NaN
           \<and> Additive_forward self amplitudes harmonic_distribution f0_hz n_samples = Inr out
           \<and> length out = B
           \<and> NaN \<in> set (out ! b)"
proof -
  have T: "0 < T" using assms(7) by simp
  from Additive_forward_value[OF T assms(1-4), of n_samples] assms(5)
  obtain f0 where f0: "add_channel_dim f0_hz = Inr f0" and bls: "has_shape bl B T K"
    and out: "Additive_forward self amplitudes harmonic_distribution f0_hz n_samples =
               Inr (map (\<lambda>b. harmonic_signal (map hd (f0 ! b))
                                 (map hd (scaled (add_scale_fn self) amplitudes ! b))
                                 (normalize_frames bl ! b)
                                 (requested n_samples (add_n_samples self)) (add_sample_rate self))
                      [0..<B])"
    by auto
  note D = has_shapeD[OF bls]
  have lb: "b < length bl" "t < length (bl ! b)" using assms(6,7) D(1) D(2)[of b] by simp_all
  let ?c = "bl ! b ! t"
  have lc: "length ?c = K" using D(3)[OF assms(6,7)] .
  have s: "sum_list ?c = 0" using assms(9) by (rule sum_list_all_zero)
  have 1: "Additive_normalized self harmonic_distribution f0_hz = Inr (normalize_frames bl)"
    by (simp add: Additive_normalized_def assms(5))
  have "map (\<lambda>x. fdiv x 0) ?c = replicate (length ?c) NaN"
    using assms(9) by (rule map_fdiv_zero)
  then have 2: "normalize_frames bl ! b ! t = replicate K NaN"
    by (simp add: normalize_nth[OF lb] s lc)
  let ?nd = "normalize_frames bl ! b"
  note N = has_shapeD[OF has_shape_normalize[OF bls]]
  have lnd: "length ?nd = T" using N(2)[OF assms(6)] .
  have "?nd \<noteq> []" using lnd T by auto
  then have "hd ?nd = ?nd ! 0" by (simp add: hd_conv_nth)
  then have h: "0 < length (hd ?nd)" using N(3)[OF assms(6) T] assms(8) by simp
  have z: "?nd ! t ! 0 = NaN" using assms(8) by (simp add: 2)
  have "NaN \<in> set (harmonic_signal (map hd (f0 ! b))
                      (map hd (scaled (add_scale_fn self) amplitudes ! b)) ?nd
                      (requested n_samples (add_n_samples self)) (add_sample_rate self))"
    by (rule harmonic_signal_NaN[where t = t]) (use lnd assms(7,10) h z in simp_all)
  then have 3: "NaN \<in> set (map (\<lambda>b. harmonic_signal (map hd (f0 ! b))
                                 (map hd (scaled (add_scale_fn self) amplitudes ! b))
                                 (normalize_frames bl ! b)
                                 (requested n_samples (add_n_samples self)) (add_sample_rate self))
                      [0..<B] ! b)"
    using assms(6) by simp
  show ?thesis using 1 2 out 3 by auto
qed

theorem zero_frame_output_has_nan_witness:
  "\<exists>nd out. Additive_normalized
          \<lparr>add_n_samples = 8, add_sample_rate = 16000, add_scale_fn = None,
           normalize_below_nyquist = True, n_harmonics = 2\<rparr>
          [[[1, 2], [1, 2]]] (Rank3 [[[100], [9000]]]) = Inr nd
        \<and> nd ! 0 ! 1 = replicate 2 NaN
        \<and> Additive_forward
             \<lparr>add_n_samples = 8, add_sample_rate = 16000, add_scale_fn = None,
              normalize_below_nyquist = True, n_harmonics = 2\<rparr>
             [[[1], [1]]] [[[1, 2], [1, 2]]] (Rank3 [[[100], [9000]]]) None = Inr out
        \<and> length out = 1
        \<and> NaN \<in> set (out ! 0)"
proof -
  let ?self = "\<lparr>add_n_samples = 8, add_sample_rate = 16000, add_scale_fn = None,
           normalize_below_nyquist = True, n_harmonics = 2\<rparr>"
  have e: "Additive_bandlimited ?self [[[1, 2], [1, 2]]] (Rank3 [[[100], [9000]]])
      = Inr [[[1, 2], [0, 0]]]"
    by (simp add: Additive_bandlimited_def last_dim3_def get_harmonic_frequencies_def
      remove_above_nyquist_def same_shape_def)
  show ?thesis
    by (rule zero_frame_output_has_nan[where B = 1 and T = 2 and K = 2 and b = 0 and t = 1,
          OF _ _ _ _ e])
      (simp_all add: has_shape_def scaled_def requested_def)
qed

text \<open>
  Claim C9. \<open>Additive.forward\<close> accepts \<open>f0_hz\<close> of shape (batch, n_frames) as it
  accepts the same values in shape (batch, n_frames, 1): for controls of the shapes of the
  docstring both calls return a signal, and they return the same one, a row of
  \<open>n_samples\<close> values per batch element.
\<close>

theorem f0_with_or_without_channel_dim:
  assumes "0 < T" "0 < add_sample_rate self"
    and "has_shape (scaled (add_scale_fn self) amplitudes) B T 1"
    and "has_shape (scaled (add_scale_fn self) harmonic_distribution) B T K"
    and "length f0_frames = B" "list_all (\<lambda>r. length r = T) f0_frames"
  shows "\<exists>out. Additive_forward self amplitudes harmonic_distribution (Rank2 f0_frames) n_samples = Inr out
           \<and> Additive_forward self amplitudes harmonic_distribution
                (Rank3 (map (map (\<lambda>x. [x])) f0_frames)) n_samples = Inr out
           \<and> is_audio out B (requested n_samples (add_n_samples self))"
proof -
  let ?f = "map (map (\<lambda>x. [x])) f0_frames"
  have a: "add_channel_dim (Rank2 f0_frames) = Inr ?f" "add_channel_dim (Rank3 ?f) = Inr ?f" by simp_all
  have b: "Additive_bandlimited self harmonic_distribution (Rank2 f0_frames) =
        Additive_bandlimited self harmonic_distribution (Rank3 ?f)"
    unfolding Additive_bandlimited_def a ..
  have n: "Additive_normalized self harmonic_distribution (Rank2 f0_frames) =
        Additive_normalized self harmonic_distribution (Rank3 ?f)"
    unfolding Additive_normalized_def b ..
  have e: "Additive_forward self amplitudes harmonic_distribution (Rank2 f0_frames) n_samples =
       Additive_forward self amplitudes harmonic_distribution (Rank3 ?f) n_samples"
    unfolding Additive_forward_def a n ..
  have p: "per_frame_shape (Rank2 f0_frames) B T" using assms(5,6) by simp
  from Additive_forward_value[OF assms(1-4) p, of n_samples]
  obtain out where o: "Additive_forward self amplitudes harmonic_distribution (Rank2 f0_frames) n_samples = Inr out"
    and "is_audio out B (requested n_samples (add_n_samples self))"
    by (auto simp: is_audio_def list_all_iff)
  then show ?thesis using e by auto
qed


theorem f0_with_or_without_channel_dim_witness:
  "\<exists>out. Additive_forward
          \<lparr>add_n_samples = 8, add_sample_rate = 16000, add_scale_fn = None,
           normalize_below_nyquist = True, n_harmonics = 2\<rparr>
          [[[1], [1]]] [[[1, 2], [3, 4]]] (Rank2 [[220, 440]]) None = Inr out
        \<and> Additive_forward
          \<lparr>add_n_samples = 8, add_sample_rate = 16000, add_scale_fn = None,
           normalize_below_nyquist = True, n_harmonics = 2\<rparr>
          [[[1], [1]]] [[[1, 2], [3, 4]]] (Rank3 [[[220], [440]]]) None = Inr out
        \<and> is_audio out 1 8"
  using f0_with_or_without_channel_dim[where T = 2 and B = 1 and K = 2 and f0_frames = "[[220, 440]]"
      and amplitudes = "[[[1], [1]]]" and harmonic_distribution = "[[[1, 2], [3, 4]]]"
      and n_samples = None
      and self = "\<lparr>add_n_samples = 8, add_sample_rate = 16000, add_scale_fn = None,
           normalize_below_nyquist = True, n_harmonics = 2\<rparr>"]
  by (simp add: has_shape_def scaled_def requested_def)

section \<open>The length of the generated signal: proofs\<close>

lemma length_upsample [simp]: "length (upsample mix frames n) = n"
  by (simp add: upsample_def)

lemma length_upsample_row:
  "i < n \<Longrightarrow> length (upsample mix frames n ! i) = length (hd frames)"
  by (simp add: upsample_def del: upt_Suc)

lemma resample_frames_value:
  assumes "0 < T" "has_shape envelope B T C"
  shows "resample_frames envelope n = Inr (map (\<lambda>frames. upsample mix_real frames n) envelope)"
    and "has_shape (map (\<lambda>frames. upsample mix_real frames n) envelope) B n C"
proof -
  note S = has_shape_self[OF assms(2,1)]
  show "resample_frames envelope n = Inr (map (\<lambda>frames. upsample mix_real frames n) envelope)"
    using S by (simp add: resample_frames_def)
  note D = has_shapeD[OF assms(2)]
  show "has_shape (map (\<lambda>frames. upsample mix_real frames n) envelope) B n C"
  proof (rule has_shapeI)
    show "length (map (\<lambda>frames. upsample mix_real frames n) envelope) = B" using D(1) by simp
    show "length (map (\<lambda>frames. upsample mix_real frames n) envelope ! b) = n" if "b < B" for b
      using that D(1) by simp
    show "length (map (\<lambda>frames. upsample mix_real frames n) envelope ! b ! i) = C"
      if b: "b < B" and i: "i < n" for b i
    proof -
      have "envelope ! b \<noteq> []" using D(2)[OF b] assms(1) by auto
      then have "hd (envelope ! b) = envelope ! b ! 0" by (simp add: hd_conv_nth)
      then have "length (hd (envelope ! b)) = C" using D(3)[OF b assms(1)] by simp
      then show ?thesis using b i D(1) by (simp add: length_upsample_row)
    qed
  qed
qed

lemma oscillator_bank_audio:
  assumes "0 < sr" "has_shape fe B n C" "has_shape ae B n C"
  shows "\<exists>out. oscillator_bank fe ae sr = Inr out \<and> is_audio out B n"
proof -
  note D = has_shapeD[OF assms(3)]
  have "oscillator_bank fe ae sr =
      Inr (map (\<lambda>b. oscillator_signal (fe ! b) (ae ! b) sr) [0..<length ae])"
    using assms(1) has_shape_same[OF assms(2,3)] by (simp add: oscillator_bank_def)
  moreover have "is_audio (map (\<lambda>b. oscillator_signal (fe ! b) (ae ! b) sr) [0..<length ae]) B n"
    using D(1) D(2) by (simp add: is_audio_def list_all_iff oscillator_signal_def)
  ultimately show ?thesis by blast
qed

lemma Sinusoids_forward_audio:
  assumes "0 < T" "0 < sin_sample_rate self"
    and "has_shape (scaled (amp_scale_fn self) amplitudes) B T K"
    and "has_shape (scaled (freq_scale_fn self) frequencies) B T K"
  shows "\<exists>out. Sinusoids_forward self amplitudes frequencies n_samples = Inr out
           \<and> is_audio out B (requested n_samples (sin_n_samples self))"
proof -
  let ?n = "requested n_samples (sin_n_samples self)"
  note A = resample_frames_value[OF assms(1,3), of ?n]
  note F = resample_frames_value[OF assms(1,4), of ?n]
  have "Sinusoids_forward self amplitudes frequencies n_samples =
      oscillator_bank (map (\<lambda>frames. upsample mix_real frames ?n) (scaled (freq_scale_fn self) frequencies))
        (map (\<lambda>frames. upsample mix_real frames ?n) (scaled (amp_scale_fn self) amplitudes))
        (sin_sample_rate self)"
    using A(1) F(1) by (simp add: Sinusoids_forward_def scaled_case requested_def Let_def)
  then show ?thesis
    using oscillator_bank_audio[OF assms(2) F(2) A(2)] by simp
qed

lemma fir_filter_audio:
  assumes "0 < T" "2 \<le> F" "has_shape fr B T F" "is_audio audio B n"
  shows "\<exists>out. fir_filter audio fr fs = Inr out \<and> is_audio out B n"
proof -
  note S = has_shape_self[OF assms(3,1)]
  have l: "length fr = B" by (rule has_shapeD(1)[OF assms(3)])
  have c: "length fr = 0 \<or> 0 < mid_dim3 fr \<and> 2 \<le> last_dim3 fr"
  proof (cases "B = 0")
    case True
    then show ?thesis using l by simp
  next
    case False
    then show ?thesis using has_shape_dims[OF assms(3)] assms(1,2) by simp
  qed
  have "fir_filter audio fr fs = Inr (map (\<lambda>b. filtered_signal (audio ! b) (fr ! b) fs) [0..<B])"
    using S(1) c l assms(4) by (simp add: fir_filter_def Let_def is_audio_def)
  moreover have "is_audio (map (\<lambda>b. filtered_signal (audio ! b) (fr ! b) fs) [0..<B]) B n"
    using assms(4) by (simp add: is_audio_def list_all_length filtered_signal_def Let_def)
  ultimately show ?thesis by blast
qed

lemma FilteredNoise_forward_audio:
  assumes "0 < T" "2 \<le> F" "length freq_response = B"
    and "has_shape (case fn_scale_fn self of
                      None \<Rightarrow> freq_response
                    | Some scale_fn \<Rightarrow> scale_fn (map3 (\<lambda>x. x + initial_bias self) freq_response))
           B T F"
  shows "\<exists>out. FilteredNoise_forward rand self freq_response n_samples = Inr out
           \<and> is_audio out B (requested n_samples (fn_n_samples self))"
proof -
  let ?n = "requested n_samples (fn_n_samples self)"
  let ?audio = "map (\<lambda>b. map (\<lambda>i. (rand b i * 2 - 1) * amplitude self) [0..<?n]) [0..<B]"
  have a: "is_audio ?audio B ?n" by (simp add: is_audio_def list_all_iff)
  have "FilteredNoise_forward rand self freq_response n_samples =
      fir_filter ?audio
        (case fn_scale_fn self of
           None \<Rightarrow> freq_response
         | Some scale_fn \<Rightarrow> scale_fn (map3 (\<lambda>x. x + initial_bias self) freq_response))
        (filter_size self)"
    by (simp add: FilteredNoise_forward_def Let_def requested_def assms(3))
  then show ?thesis
    using fir_filter_audio[OF assms(1,2,4) a, of "filter_size self"] by simp
qed

lemma per_frame_rows:
  assumes "per_frame_shape c B T"
  shows "\<exists>f. per_frame c = Inr f \<and> length f = B \<and> list_all (\<lambda>r. length r = T) f"
  using assms by (cases c) (auto simp: has_shape_def list_all_iff)

lemma length_wavetable_signal [simp]: "length (wavetable_signal f a tab n sr) = n"
  by (simp add: wavetable_signal_def Let_def)

lemma map_length_rows:
  assumes "length f = B" "list_all (\<lambda>r. length r = T) f"
  shows "map length f = replicate B T"
  using assms by (auto simp: list_all_iff intro!: replicate_eqI)

lemma wavetable_synthesis_audio:
  assumes "0 < sr" "0 < T" "per_frame_shape f0 B T" "per_frame_shape amps B T"
    and "(\<exists>w. wavetable = Rank1 w \<and> w \<noteq> []) \<or> (\<exists>w L. wavetable = Rank3 w \<and> has_shape w B T L \<and> 0 < L)"
  shows "\<exists>out. wavetable_synthesis f0 amps wavetable n sr = Inr out \<and> is_audio out B n"
proof -
  obtain f where f: "per_frame f0 = Inr f" "length f = B" "list_all (\<lambda>r. length r = T) f"
    using per_frame_rows[OF assms(3)] by blast
  obtain a where a: "per_frame amps = Inr a" "length a = B" "list_all (\<lambda>r. length r = T) a"
    using per_frame_rows[OF assms(4)] by blast
  have m: "map length a = map length f"
    using map_length_rows[OF f(2,3)] map_length_rows[OF a(2,3)] by simp
  have ne: "list_all (\<lambda>r. r \<noteq> []) f" using f(3) assms(2) by (auto simp: list_all_iff)
  from assms(5) show ?thesis
  proof (elim disjE exE conjE)
    fix w assume w: "wavetable = Rank1 w" "w \<noteq> []"
    have "wavetable_synthesis f0 amps wavetable n sr =
        Inr (map (\<lambda>b. wavetable_signal (f ! b) (a ! b) (\<lambda>i. w) n sr) [0..<length f])"
      using assms(1) w m ne by (simp add: wavetable_synthesis_def f(1) a(1))
    moreover have "is_audio (map (\<lambda>b. wavetable_signal (f ! b) (a ! b) (\<lambda>i. w) n sr) [0..<length f]) B n"
      by (simp add: is_audio_def list_all_iff f(2))
    ultimately show ?thesis by blast
  next
    fix w L assume w: "wavetable = Rank3 w" "has_shape w B T L" "0 < L"
    note S = has_shape_self[OF w(2) assms(2)]
    have lw: "length w = B" by (rule has_shapeD(1)[OF w(2)])
    have mw: "map length w = map length f"
    proof -
      have "list_all (\<lambda>r. length r = T) w" using w(2) by (simp add: has_shape_def list_all_iff)
      then show ?thesis using map_length_rows[OF f(2,3)] map_length_rows[OF lw] by simp
    qed
    have c: "w = [] \<or> 0 < last_dim3 w"
    proof (cases "B = 0")
      case True
      then show ?thesis using lw by simp
    next
      case False
      then show ?thesis using has_shape_dims(2)[OF w(2)] assms(2) w(3) by simp
    qed
    have "wavetable_synthesis f0 amps wavetable n sr =
        Inr (map (\<lambda>b. wavetable_signal (f ! b) (a ! b) (\<lambda>i. upsample mix_real (w ! b) n ! i) n sr)
               [0..<length f])"
      using assms(1) w(1) m ne S(1) lw f(2) mw c
      by (simp add: wavetable_synthesis_def f(1) a(1))
    moreover have "is_audio (map (\<lambda>b. wavetable_signal (f ! b) (a ! b)
                     (\<lambda>i. upsample mix_real (w ! b) n ! i) n sr) [0..<length f]) B n"
      by (simp add: is_audio_def list_all_iff f(2))
    ultimately show ?thesis by blast
  qed
qed

lemma Wavetable_forward_audio:
  assumes "0 < wt_sample_rate self" "0 < T" "per_frame_shape f0_hz B T"
    and "per_frame_shape (scaled (wt_scale_fn self) amplitudes) B T"
    and "has_shape w B T L" "0 < L"
  shows "\<exists>out. Wavetable_forward self amplitudes (Rank3 w) f0_hz n_samples = Inr out
           \<and> is_audio out B (requested n_samples (wt_n_samples self))"
proof -
  have "Wavetable_forward self amplitudes (Rank3 w) f0_hz n_samples =
      wavetable_synthesis f0_hz (scaled (wt_scale_fn self) amplitudes) (Rank3 w)
        (requested n_samples (wt_n_samples self)) (wt_sample_rate self)"
    by (simp add: Wavetable_forward_def scaled_case requested_def)
  then show ?thesis
    using wavetable_synthesis_audio[OF assms(1,2,3,4), of "Rank3 w"] assms(5,6) by auto
qed

lemma SawOscillator_forward_audio:
  assumes "0 < saw_sample_rate self" "0 < T" "per_frame_shape f0_hz B T"
    and "per_frame_shape (scaled (saw_scale_fn self) amplitudes) B T"
    and "waveform self \<noteq> []"
  shows "\<exists>out. SawOscillator_forward self amplitudes f0_hz n_samples = Inr out
           \<and> is_audio out B (requested n_samples (saw_n_samples self))"
proof -
  have "SawOscillator_forward self amplitudes f0_hz n_samples =
      wavetable_synthesis f0_hz (scaled (saw_scale_fn self) amplitudes) (Rank1 (waveform self))
        (requested n_samples (saw_n_samples self)) (saw_sample_rate self)"
    by (simp add: SawOscillator_forward_def scaled_case requested_def)
  then show ?thesis
    using wavetable_synthesis_audio[OF assms(1,2,3,4), of "Rank1 (waveform self)"] assms(5) by auto
qed

lemma Additive_forward_audio:
  assumes "0 < T" "0 < add_sample_rate self"
    and "has_shape (scaled (add_scale_fn self) amplitudes) B T 1"
    and "has_shape (scaled (add_scale_fn self) harmonic_distribution) B T K"
    and "per_frame_shape f0_hz B T"
  shows "\<exists>out. Additive_forward self amplitudes harmonic_distribution f0_hz n_samples = Inr out
           \<and> is_audio out B (requested n_samples (add_n_samples self))"
  using Additive_forward_value[OF assms, of n_samples]
  by (auto simp: is_audio_def list_all_iff)


text \<open>
  Claim C4. For controls of the documented shapes, \<open>B\<close> batch elements of \<open>T\<close>
  frames with \<open>T\<close> positive, and positive sample rates, every generator returns a batch
  of \<open>B\<close> signals with \<open>n_samples\<close> entries each along the last axis, where
  \<open>n_samples\<close> is the explicit argument when one is given and the configured value
  otherwise.
\<close>

theorem generators_return_n_samples:
  assumes "0 < T"
    and "0 < add_sample_rate gen_add"
    and "has_shape (scaled (add_scale_fn gen_add) amplitudes) B T 1"
    and "has_shape (scaled (add_scale_fn gen_add) harmonic_distribution) B T K"
    and "per_frame_shape f0_hz B T"
    and "0 < sin_sample_rate gen_sin"
    and "has_shape (scaled (amp_scale_fn gen_sin) sin_amplitudes) B T S"
    and "has_shape (scaled (freq_scale_fn gen_sin) frequencies) B T S"
    and "2 \<le> F" and "length freq_response = B"
    and "has_shape (case fn_scale_fn gen_noise of
                      None \<Rightarrow> freq_response
                    | Some scale_fn \<Rightarrow> scale_fn (map3 (\<lambda>x. x + initial_bias gen_noise) freq_response))
           B T F"
    and "0 < wt_sample_rate gen_wt"
    and "per_frame_shape (scaled (wt_scale_fn gen_wt) wt_amplitudes) B T"
    and "has_shape wavetable B T L" and "0 < L"
    and "0 < saw_sample_rate gen_saw"
    and "per_frame_shape (scaled (saw_scale_fn gen_saw) saw_amplitudes) B T"
    and "waveform gen_saw \<noteq> []"
  shows "(\<exists>out. Additive_forward gen_add amplitudes harmonic_distribution f0_hz n_samples = Inr out
            \<and> is_audio out B (requested n_samples (add_n_samples gen_add)))
       \<and> (\<exists>out. Sinusoids_forward gen_sin sin_amplitudes frequencies n_samples = Inr out
            \<and> is_audio out B (requested n_samples (sin_n_samples gen_sin)))
       \<and> (\<exists>out. FilteredNoise_forward rand gen_noise freq_response n_samples = Inr out
            \<and> is_audio out B (requested n_samples (fn_n_samples gen_noise)))
       \<and> (\<exists>out. Wavetable_forward gen_wt wt_amplitudes (Rank3 wavetable) f0_hz n_samples = Inr out
            \<and> is_audio out B (requested n_samples (wt_n_samples gen_wt)))
       \<and> (\<exists>out. SawOscillator_forward gen_saw saw_amplitudes f0_hz n_samples = Inr out
            \<and> is_audio out B (requested n_samples (saw_n_samples gen_saw)))"
  using Additive_forward_audio[OF assms(1-5), of n_samples]
    Sinusoids_forward_audio[OF assms(1,6-8), of n_samples]
    FilteredNoise_forward_audio[OF assms(1,9-11), of rand n_samples]
    Wavetable_forward_audio[OF assms(12,1,5,13-15), of n_samples]
    SawOscillator_forward_audio[OF assms(16,1,5,17,18), of n_samples]
  by simp

theorem generators_return_n_samples_witness:
  "(\<exists>out. Additive_forward
       \<lparr>add_n_samples = 8, add_sample_rate = 16000, add_scale_fn = None,
        normalize_below_nyquist = True, n_harmonics = 2\<rparr>
       [[[1], [1]]] [[[1, 2], [3, 4]]] (Rank2 [[220, 440]]) (Some 5) = Inr out
      \<and> is_audio out 1 5)
   \<and> (\<exists>out. Sinusoids_forward
       \<lparr>sin_n_samples = 8, sin_sample_rate = 16000, amp_scale_fn = None, freq_scale_fn = None,
        n_sinusoids = 2\<rparr>
       [[[1, 1], [1, 1]]] [[[220, 330], [220, 330]]] (Some 5) = Inr out
      \<and> is_audio out 1 5)
   \<and> (\<exists>out. FilteredNoise_forward (\<lambda>b i. 1 / 2)
       \<lparr>filter_size = 3, fn_n_samples = 8, fn_scale_fn = None, initial_bias = - 5,
        amplitude = 1\<rparr>
       [[[1, 1], [1, 1]]] (Some 5) = Inr out
      \<and> is_audio out 1 5)
   \<and> (\<exists>out. Wavetable_forward
       \<lparr>len_waveform = 4, wt_n_samples = 8, wt_sample_rate = 16000, wt_scale_fn = None\<rparr>
       (Rank2 [[1, 1]]) (Rank3 [[[0, 1, 0, - 1], [0, 1, 0, - 1]]]) (Rank2 [[220, 440]]) (Some 5)
       = Inr out
      \<and> is_audio out 1 5)
   \<and> (\<exists>out. SawOscillator_forward
       \<lparr>saw_n_samples = 8, saw_sample_rate = 16000, saw_scale_fn = None, waveform = saw_waveform\<rparr>
       (Rank3 [[[1], [1]]]) (Rank2 [[220, 440]]) None = Inr out
      \<and> is_audio out 1 8)"
proof -
  let ?add = "\<lparr>add_n_samples = 8, add_sample_rate = 16000, add_scale_fn = None,
        normalize_below_nyquist = True, n_harmonics = 2\<rparr>"
  let ?sin = "\<lparr>sin_n_samples = 8, sin_sample_rate = 16000, amp_scale_fn = None, freq_scale_fn = None,
        n_sinusoids = 2\<rparr>"
  let ?noise = "\<lparr>filter_size = 3, fn_n_samples = 8, fn_scale_fn = None, initial_bias = - 5,
        amplitude = 1\<rparr>"
  let ?wt = "\<lparr>len_waveform = 4, wt_n_samples = 8, wt_sample_rate = 16000, wt_scale_fn = None\<rparr>"
  let ?saw = "\<lparr>saw_n_samples = 8, saw_sample_rate = 16000, saw_scale_fn = None, waveform = saw_waveform\<rparr>"
  have w: "saw_waveform \<noteq> []" by (simp add: saw_waveform_def)
  have g: "(\<exists>out. Additive_forward ?add [[[1], [1]]] [[[1, 2], [3, 4]]] (Rank2 [[220, 440]]) n = Inr out
            \<and> is_audio out 1 (requested n (add_n_samples ?add)))
       \<and> (\<exists>out. Sinusoids_forward ?sin [[[1, 1], [1, 1]]] [[[220, 330], [220, 330]]] n = Inr out
            \<and> is_audio out 1 (requested n (sin_n_samples ?sin)))
       \<and> (\<exists>out. FilteredNoise_forward (\<lambda>b i. 1 / 2) ?noise [[[1, 1], [1, 1]]] n = Inr out
            \<and> is_audio out 1 (requested n (fn_n_samples ?noise)))
       \<and> (\<exists>out. Wavetable_forward ?wt (Rank2 [[1, 1]]) (Rank3 [[[0, 1, 0, - 1], [0, 1, 0, - 1]]])
              (Rank2 [[220, 440]]) n = Inr out
            \<and> is_audio out 1 (requested n (wt_n_samples ?wt)))
       \<and> (\<exists>out. SawOscillator_forward ?saw (Rank3 [[[1], [1]]]) (Rank2 [[220, 440]]) n = Inr out
            \<and> is_audio out 1 (requested n (saw_n_samples ?saw)))" for n
    by (rule generators_return_n_samples[where T = 2 and K = 2 and S = 2 and F = 2 and L = 4
          and wt_amplitudes = "Rank2 [[1, 1]]" and saw_amplitudes = "Rank3 [[[1], [1]]]"])
      (simp_all add: has_shape_def scaled_def w)
  show ?thesis
    using g[of "Some 5"] g[of None] by (simp add: requested_def)
qed

section \<open>compute_loudness: proofs\<close>

lemma to_double_binade:
  assumes "2 powr of_int e \<le> \<bar>x\<bar>" "\<bar>x\<bar> < 2 powr (of_int e + 1)"
  shows "to_double x = 2 powr (of_int e - 52) * of_int (round_half_even (x / 2 powr (of_int e - 52)))"
proof -
  have p: "0 < \<bar>x\<bar>" using assms(1) by (smt (verit) powr_gt_zero)
  have "\<lfloor>log 2 \<bar>x\<bar>\<rfloor> = e"
    using assms p by (simp add: floor_log_eq_powr_iff)
  then show ?thesis using p by (simp add: to_double_def Let_def)
qed

text \<open>The double nearest to a number of magnitude between \<open>2 ^ e\<close> and \<open>2 ^ (e + 1)\<close>.\<close>

lemma to_double_ge1:
  fixes e :: nat
  assumes "2 ^ e \<le> \<bar>x\<bar>" "\<bar>x\<bar> < 2 ^ (e + 1)" "e \<le> 52"
  shows "to_double x = of_int (round_half_even (x * 2 ^ (52 - e))) / 2 ^ (52 - e)"
proof -
  have a: "2 powr of_int (int e) = (2::real) ^ e" by (simp add: powr_realpow)
  have b: "2 powr (of_int (int e) + 1) = (2::real) ^ (e + 1)" by (simp add: powr_add powr_realpow)
  have eq: "of_int (int e) - 52 = - real (52 - e)" using assms(3) by simp
  have "2 powr (of_int (int e) - 52) = 2 powr (- real (52 - e))" by (simp only: eq)
  also have "\<dots> = 1 / (2::real) ^ (52 - e)"
    unfolding powr_minus by (simp add: powr_realpow divide_inverse del: of_nat_diff)
  finally have c: "2 powr (of_int (int e) - 52) = 1 / (2::real) ^ (52 - e)" .
  show ?thesis
    using to_double_binade[of "int e" x] assms(1,2) unfolding a b c by simp
qed

text \<open>The same below 1: a magnitude between \<open>1 / 2 ^ e\<close> and \<open>2 / 2 ^ e\<close>.\<close>

lemma to_double_lt1:
  fixes e :: nat
  assumes "1 / 2 ^ e \<le> \<bar>x\<bar>" "\<bar>x\<bar> < 2 / 2 ^ e"
  shows "to_double x = of_int (round_half_even (x * 2 ^ (52 + e))) / 2 ^ (52 + e)"
proof -
  have a: "2 powr of_int (- int e) = 1 / (2::real) ^ e"
    by (simp add: powr_minus powr_realpow divide_inverse)
  have "of_int (- int e) + 1 = 1 - real e" by simp
  then have b: "2 powr (of_int (- int e) + 1) = 2 / (2::real) ^ e"
    by (simp add: powr_diff powr_realpow)
  have eq: "of_int (- int e) - 52 = - real (52 + e)" by simp
  have "2 powr (of_int (- int e) - 52) = 2 powr (- real (52 + e))" by (simp only: eq)
  also have "\<dots> = 1 / (2::real) ^ (52 + e)"
    unfolding powr_minus by (simp add: powr_realpow divide_inverse del: of_nat_add)
  finally have c: "2 powr (of_int (- int e) - 52) = 1 / (2::real) ^ (52 + e)" .
  show ?thesis
    using to_double_binade[of "- int e" x] assms(1,2) unfolding a b c by simp
qed

text \<open>
  Two frame counts. At 16200 samples, 16000 Hz and 50 frames per second the double product
  is 50.625. At 9280 samples the quotient 0.58 is not a double: the nearest double is
  below it, the product rounds to the double just below 29, and \<open>int\<close> gives 28
  where the exact product is 29.
\<close>

lemma expected_frames_16200: "expected_frames 16200 16000 50 = 50"
proof -
  have 1: "to_double (16200 / 16000) = 4559894622712627 / 2 ^ 52"
    using to_double_ge1[of 0 "16200 / 16000"] by (simp add: round_half_even_def)
  have 2: "to_double (4559894622712627 / 2 ^ 52 * 50) = 7124835347988480 / 2 ^ 47"
    using to_double_ge1[of 5 "4559894622712627 / 2 ^ 52 * 50"] by (simp add: round_half_even_def)
  have "nat (py_int (to_double (to_double (16200 / 16000) * 50))) = 50"
    unfolding 1 2 by (simp add: py_int_def)
  then show ?thesis by (simp add: expected_frames_def)
qed

lemma expected_frames_9280:
  "expected_frames 9280 16000 50 = 28 \<and> nat (py_int (real 9280 / real 16000 * real 50)) = 29"
proof -
  have 1: "to_double (9280 / 16000) = 5224175567749775 / 2 ^ 53"
    using to_double_lt1[of 1 "9280 / 16000"] by (simp add: round_half_even_def)
  have 2: "to_double (5224175567749775 / 2 ^ 53 * 50) = 8162774324609023 / 2 ^ 48"
    using to_double_ge1[of 4 "5224175567749775 / 2 ^ 53 * 50"] by (simp add: round_half_even_def)
  have "nat (py_int (to_double (to_double (9280 / 16000) * 50))) = 28"
    unfolding 1 2 by (simp add: py_int_def)
  then show ?thesis by (simp add: expected_frames_def py_int_def)
qed

lemma nat_py_int [simp]: "nat (py_int r) = nat \<lfloor>r\<rfloor>"
proof (cases "0 \<le> r")
  case True
  then show ?thesis by (simp add: py_int_def)
next
  case False
  then have "\<lceil>r\<rceil> \<le> 0" "\<lfloor>r\<rfloor> \<le> 0" by (simp_all add: ceiling_le_iff floor_le_iff)
  then show ?thesis using False by (simp add: py_int_def)
qed

lemma rows_case: "(case audio of Vec xs \<Rightarrow> [xs] | Mat b \<Rightarrow> b) = rows audio"
  by (cases audio) simp_all

lemma nth_pad_or_trim_row:
  "t < expected_len \<Longrightarrow>
     pad_or_trim_row xs expected_len pad_value ! t = (if t < length xs then xs ! t else pad_value)"
  by (simp add: pad_or_trim_row_def nth_append)

lemma length_pad_or_trim_row [simp]: "length (pad_or_trim_row xs expected_len pad_value) = expected_len"
  by (simp add: pad_or_trim_row_def)

lemma sum_list_by_index: "(\<Sum>x\<leftarrow>xs. f x) = (\<Sum>i\<leftarrow>[0..<length xs]. f (xs ! i))"
proof -
  have "map f xs = map (\<lambda>i. f (xs ! i)) [0..<length xs]"
    by (intro nth_equalityI) simp_all
  then show ?thesis by simp
qed

lemma weighted_nth:
  assumes "length m = length aw" "k < length m" "t < length (m ! k)"
  shows "map (map (\<lambda>v. max v (- range_db)))
           (map (map (\<lambda>v. v - ref_db))
              (map2 (\<lambda>row a. map (\<lambda>v. v + a) row)
                 (map (map (\<lambda>x. 20 * log 10 (x + 1 / 100000)))
                    (map (map (\<lambda>x. sqrt (amp x + 1 / 100000))) m)) aw)) ! k ! t
         = bin_loudness (m ! k ! t) (aw ! k) ref_db range_db"
  using assms by (simp add: bin_loudness_def)

lemma length_mean_over_bins: "m \<noteq> [] \<Longrightarrow> length (mean_over_bins m) = length (hd m)"
  by (cases m) (simp_all add: mean_over_bins_def)

lemma mean_over_bins_nth:
  assumes "m \<noteq> []" "t < length (hd m)"
  shows "mean_over_bins m ! t = (\<Sum>k\<leftarrow>[0..<length m]. m ! k ! t) / real (length m)"
proof -
  obtain r rs where m: "m = r # rs" using assms(1) by (cases m) auto
  have "(\<Sum>row\<leftarrow>m. row ! t) = (\<Sum>k\<leftarrow>[0..<length m]. m ! k ! t)"
    by (rule sum_list_by_index)
  then show ?thesis
    using assms(2) unfolding mean_over_bins_def m by simp
qed

lemma well_shaped_map3 [simp]: "well_shaped (map3 f s) n = well_shaped s n"
proof -
  have "list_all (\<lambda>r. length r = length (hd (map (map f) m))) (map (map f) m)
      = list_all (\<lambda>r. length r = length (hd m)) m" for m
    by (cases m) (simp_all add: list_all_iff)
  then show ?thesis
    by (simp add: well_shaped_def map3_def list_all_iff)
qed

lemma well_shapedD:
  assumes "well_shaped s n" "b < length s"
  shows "length (s ! b) = n" and "0 < n" and "s ! b \<noteq> []"
    and "k < n \<Longrightarrow> length (s ! b ! k) = length (hd (s ! b))"
proof -
  from assms have a: "0 < n" "length (s ! b) = n"
    "list_all (\<lambda>r. length r = length (hd (s ! b))) (s ! b)"
    by (simp_all add: well_shaped_def list_all_length)
  show "length (s ! b) = n" "0 < n" by (rule a)+
  show "s ! b \<noteq> []" using a(1,2) by auto
  show "length (s ! b ! k) = length (hd (s ! b))" if "k < n"
    using a(2,3) that by (simp add: list_all_length)
qed

lemma clamped_bins_facts:
  assumes "length m = length aw" "m \<noteq> []" "\<forall>k<length m. length (m ! k) = length (hd m)"
  shows "clamped_bins aw ref_db range_db m \<noteq> []"
    and "length (clamped_bins aw ref_db range_db m) = length m"
    and "length (hd (clamped_bins aw ref_db range_db m)) = length (hd m)"
    and "k < length m \<Longrightarrow> t < length (hd m) \<Longrightarrow>
          clamped_bins aw ref_db range_db m ! k ! t = bin_loudness (m ! k ! t) (aw ! k) ref_db range_db"
proof -
  show l: "length (clamped_bins aw ref_db range_db m) = length m"
    using assms(1) by (simp add: clamped_bins_def)
  then show n: "clamped_bins aw ref_db range_db m \<noteq> []" using assms(2) by auto
  have "hd (clamped_bins aw ref_db range_db m) = clamped_bins aw ref_db range_db m ! 0"
    using n by (simp add: hd_conv_nth)
  moreover have "length (clamped_bins aw ref_db range_db m ! 0) = length (m ! 0)"
  proof -
    obtain r rs where m: "m = r # rs" using assms(2) by (cases m) auto
    then obtain a as where aw: "aw = a # as" using assms(1) by (cases aw) auto
    show ?thesis by (simp add: clamped_bins_def m aw)
  qed
  moreover have "m ! 0 = hd m" using assms(2) by (simp add: hd_conv_nth)
  ultimately show "length (hd (clamped_bins aw ref_db range_db m)) = length (hd m)" by simp
  show "clamped_bins aw ref_db range_db m ! k ! t = bin_loudness (m ! k ! t) (aw ! k) ref_db range_db"
    if "k < length m" "t < length (hd m)"
    unfolding clamped_bins_def
    using that assms(3) by (intro weighted_nth assms(1)) simp_all
qed

lemma mean_clamped_bins:
  assumes "length m = length aw" "m \<noteq> []" "\<forall>k<length m. length (m ! k) = length (hd m)"
  shows "length (mean_over_bins (clamped_bins aw ref_db range_db m)) = length (hd m)"
    and "t < length (hd m) \<Longrightarrow>
          mean_over_bins (clamped_bins aw ref_db range_db m) ! t =
            (\<Sum>k\<leftarrow>[0..<length m]. bin_loudness (m ! k ! t) (aw ! k) ref_db range_db) / real (length m)"
proof -
  note F = clamped_bins_facts[OF assms, where ref_db = ref_db and range_db = range_db]
  show "length (mean_over_bins (clamped_bins aw ref_db range_db m)) = length (hd m)"
    using length_mean_over_bins[OF F(1)] F(3) by simp
  show "mean_over_bins (clamped_bins aw ref_db range_db m) ! t =
            (\<Sum>k\<leftarrow>[0..<length m]. bin_loudness (m ! k ! t) (aw ! k) ref_db range_db) / real (length m)"
    if t: "t < length (hd m)"
  proof -
    have eq: "(\<Sum>k\<leftarrow>[0..<length m]. clamped_bins aw ref_db range_db m ! k ! t) =
          (\<Sum>k\<leftarrow>[0..<length m]. bin_loudness (m ! k ! t) (aw ! k) ref_db range_db)"
      using F(4)[OF _ t] by (intro arg_cong[where f = sum_list] map_cong) simp_all
    have t': "t < length (hd (clamped_bins aw ref_db range_db m))" using t F(3) by simp
    show ?thesis
      unfolding mean_over_bins_nth[OF F(1) t'] F(2) eq ..
  qed
qed

lemma compute_loudness_rows:
  assumes "0 < frame_rate" "0 < sample_rate"
    and "stft e (Mat (rows audio)) n_fft None (int (sample_rate div frame_rate)) True = Inr s"
    and "well_shaped s (length (A_weighting e (fft_frequencies e sample_rate n_fft)))"
    and "length s = length (rows audio)"
  shows "\<exists>l. compute_loudness e audio sample_rate frame_rate n_fft range_db ref_db = Inr l
     \<and> rows l = map (\<lambda>m. pad_or_trim_row
                (mean_over_bins
                   (clamped_bins (A_weighting e (fft_frequencies e sample_rate n_fft)) ref_db range_db m))
                (expected_frames (last_dim (rows audio)) sample_rate frame_rate)
                (- range_db)) s"
proof -
  let ?aw = "A_weighting e (fft_frequencies e sample_rate n_fft)"
  let ?E = "expected_frames (last_dim (rows audio)) sample_rate frame_rate"
  let ?L = "map mean_over_bins (map (clamped_bins ?aw ref_db range_db) s)"
  have L: "map3 (\<lambda>v. max v (- range_db))
          (map3 (\<lambda>v. v - ref_db)
            (map (\<lambda>m. map2 (\<lambda>row a. map (\<lambda>v. v + a) row) m ?aw)
              (map3 (\<lambda>x. 20 * log 10 (x + 1 / 100000))
                (map3 (\<lambda>x. sqrt (amp x + 1 / 100000)) s)))) = map (clamped_bins ?aw ref_db range_db) s"
    by (simp add: map3_def clamped_bins_def comp_def)
  have ws: "well_shaped (map3 (\<lambda>x. 20 * log 10 (x + 1 / 100000))
                (map3 (\<lambda>x. sqrt (amp x + 1 / 100000)) s)) (length ?aw)"
    using assms(4) by simp
  have cl: "compute_loudness e audio sample_rate frame_rate n_fft range_db ref_db =
      (case (if (case audio of Vec _ \<Rightarrow> True | Mat _ \<Rightarrow> False)
             then (case ?L of [] \<Rightarrow> Inl IndexError | l # _ \<Rightarrow> Inr (Vec l))
             else Inr (Mat ?L)) of
         Inl err \<Rightarrow> Inl err
       | Inr loudness \<Rightarrow> Inr (pad_or_trim_to_expected_length loudness ?E (- range_db)))"
    using assms(1,2)
    by (simp add: compute_loudness_def Let_def rows_case assms(3) L ws expected_frames_def
        del: well_shaped_map3 cong: sum.case_cong if_cong)
  show ?thesis
  proof (cases audio)
    case (Vec xs)
    then have "length s = 1" using assms(5) by simp
    then obtain m where s: "s = [m]" by (cases s) auto
    show ?thesis using cl unfolding Vec s by simp
  next
    case (Mat b)
    show ?thesis using cl unfolding Mat by (simp add: comp_def)
  qed
qed


text \<open>
  Claim C6, as amended. When the STFT succeeds with the documented shape,
  \<open>compute_loudness\<close> returns one curve per signal. Frame \<open>t\<close> of a curve is the mean
  over the frequency bins of the loudness of the STFT entries of that frame: magnitude in
  dB, plus the A-weighting of the bin, minus \<open>ref_db\<close>, clamped at \<open>- range_db\<close>. The
  curve is cut, or padded with \<open>- range_db\<close>, to a number of frames that is the product
  of the duration (samples over sample rate) and the frame rate, computed in doubles and
  truncated toward zero as Python's \<open>int\<close> does, and not rounded.
\<close>

theorem compute_loudness_pipeline:
  assumes "0 < frame_rate" "0 < sample_rate"
    and "stft e (Mat (rows audio)) n_fft None (int (sample_rate div frame_rate)) True = Inr s"
    and "well_shaped s (length (A_weighting e (fft_frequencies e sample_rate n_fft)))"
    and "length s = length (rows audio)"
  shows "\<exists>l. compute_loudness e audio sample_rate frame_rate n_fft range_db ref_db = Inr l
     \<and> length (rows l) = length s
     \<and> (\<forall>b<length s.
          length (rows l ! b) =
            expected_frames (last_dim (rows audio)) sample_rate frame_rate
        \<and> (\<forall>t<length (rows l ! b). rows l ! b ! t =
             (if t < length (hd (s ! b))
              then (\<Sum>k\<leftarrow>[0..<length (s ! b)].
                      bin_loudness (s ! b ! k ! t)
                        (A_weighting e (fft_frequencies e sample_rate n_fft) ! k) ref_db range_db)
                   / real (length (s ! b))
              else - range_db)))"
proof -
  let ?aw = "A_weighting e (fft_frequencies e sample_rate n_fft)"
  let ?E = "expected_frames (last_dim (rows audio)) sample_rate frame_rate"
  from compute_loudness_rows[OF assms, of range_db ref_db]
  obtain l where l: "compute_loudness e audio sample_rate frame_rate n_fft range_db ref_db = Inr l"
    and r: "rows l = map (\<lambda>m. pad_or_trim_row (mean_over_bins (clamped_bins ?aw ref_db range_db m))
                ?E (- range_db)) s"
    by blast
  have "length (rows l ! b) = ?E \<and> (\<forall>t<length (rows l ! b). rows l ! b ! t =
             (if t < length (hd (s ! b))
              then (\<Sum>k\<leftarrow>[0..<length (s ! b)].
                      bin_loudness (s ! b ! k ! t) (?aw ! k) ref_db range_db)
                   / real (length (s ! b))
              else - range_db))" if b: "b < length s" for b
  proof -
    note W = well_shapedD[OF assms(4) b]
    have 1: "length (s ! b) = length ?aw" by (rule W(1))
    have 3: "\<forall>k<length (s ! b). length (s ! b ! k) = length (hd (s ! b))"
      using W(4) W(1) by simp
    note M = mean_clamped_bins[OF 1 W(3) 3, where ref_db = ref_db and range_db = range_db]
    have rb: "rows l ! b = pad_or_trim_row (mean_over_bins (clamped_bins ?aw ref_db range_db (s ! b)))
                ?E (- range_db)"
      using b by (simp add: r)
    show ?thesis
      using M by (simp add: rb nth_pad_or_trim_row)
  qed
  then show ?thesis using l r by auto
qed

subsection \<open>The centred textbook STFT has the documented shape\<close>

lemma length_reflect_pad:
  "p < length xs \<Longrightarrow> length (reflect_pad xs p) = length xs + 2 * p"
  by (simp add: reflect_pad_def)

lemma textbook_stft_centered:
  assumes "0 < hop" "0 < n" "list_all (\<lambda>xs. n div 2 < length xs) (rows audio)"
  shows "textbook_stft audio n None hop True =
     Inr (stft_values (replicate n 1) n (nat hop) (map (\<lambda>xs. reflect_pad xs (n div 2)) (rows audio)))"
proof -
  have "n \<le> length (reflect_pad xs (n div 2))" if "xs \<in> set (rows audio)" for xs
  proof -
    have "n div 2 < length xs" using assms(3) that by (simp add: list_all_iff)
    then show ?thesis by (simp add: length_reflect_pad)
  qed
  then have "list_all (\<lambda>xs. n \<le> length xs) (map (\<lambda>xs. reflect_pad xs (n div 2)) (rows audio))"
    by (simp add: list_all_iff)
  then show ?thesis using assms by (simp add: textbook_stft_def)
qed

lemma well_shaped_stft_values: "well_shaped (stft_values w n hop batch) (n div 2 + 1)"
  by (simp add: well_shaped_def stft_values_def list_all_iff hd_map del: upt_Suc)

lemma length_stft_values [simp]: "length (stft_values w n hop batch) = length batch"
  by (simp add: stft_values_def)

lemma demo_curve_length [simp]:
  "length (A_weighting demo_env (fft_frequencies demo_env sr n)) = n div 2 + 1"
  by (simp add: demo_env_def)

lemma demo_loudness_stft:
  assumes "0 < sr div fr" "0 < n" "list_all (\<lambda>xs. n div 2 < length xs) (rows audio)"
  shows "stft demo_env (Mat (rows audio)) n None (int (sr div fr)) True =
     Inr (stft_values (replicate n 1) n (sr div fr) (map (\<lambda>xs. reflect_pad xs (n div 2)) (rows audio)))"
  using textbook_stft_centered[of "int (sr div fr)" n "Mat (rows audio)"] assms
  by (simp add: demo_env_def)


text \<open>
  The claim as stated fails on the frame count: 16200 samples at 16000 Hz and 50 frames
  per second are 50.625 frames, which \<open>compute_loudness\<close> truncates to 50 and rounding
  would make 51.
\<close>

theorem compute_loudness_frames_counterexample:
  "map_sum id frame_counts
     (compute_loudness demo_env (Vec (replicate 16200 0)) 16000 50 2048 120 (207 / 10)) = Inr [50]
   \<and> round (real 16200 / real 16000 * real 50) = (51 :: int)"
proof -
  let ?audio = "Vec (replicate 16200 0)"
  let ?s = "stft_values (replicate 2048 1) 2048 (16000 div 50)
              (map (\<lambda>xs. reflect_pad xs (2048 div 2)) (rows ?audio))"
  have st: "stft demo_env (Mat (rows ?audio)) 2048 None (int (16000 div 50)) True = Inr ?s"
    by (rule demo_loudness_stft) simp_all
  have ws: "well_shaped ?s (length (A_weighting demo_env (fft_frequencies demo_env 16000 2048)))"
    using well_shaped_stft_values[of "replicate 2048 1" 2048 "16000 div 50"] by simp
  from compute_loudness_rows[OF _ _ st ws, of 120 "207 / 10"]
  obtain l where l: "compute_loudness demo_env ?audio 16000 50 2048 120 (207 / 10) = Inr l"
    and r: "rows l = map (\<lambda>m. pad_or_trim_row
                (mean_over_bins
                   (clamped_bins (A_weighting demo_env (fft_frequencies demo_env 16000 2048)) (207 / 10) 120 m))
                (expected_frames (last_dim (rows ?audio)) 16000 50)
                (- 120)) ?s"
    by auto
  have r: "map length (rows l) = [expected_frames (last_dim (rows ?audio)) 16000 50]"
    unfolding r by (simp add: stft_values_def comp_def)
  have "expected_frames (last_dim (rows ?audio)) 16000 50 = 50"
    by (simp add: last_dim_def expected_frames_16200)
  moreover have "round (real 16200 / real 16000 * real 50) = (51 :: int)"
    by (simp add: round_def)
  ultimately show ?thesis using l r by (simp add: frame_counts_def)
qed

theorem compute_loudness_pipeline_witness:
  "\<exists>l. compute_loudness demo_env (Mat [replicate 9280 0, replicate 9280 1]) 16000 50 2048 120
          (207 / 10) = Inr l
       \<and> length (rows l) = 2 \<and> length (rows l ! 0) = 28 \<and> length (rows l ! 1) = 28"
proof -
  let ?audio = "Mat [replicate 9280 0, replicate 9280 1]"
  let ?s = "stft_values (replicate 2048 1) 2048 (16000 div 50)
              (map (\<lambda>xs. reflect_pad xs (2048 div 2)) (rows ?audio))"
  have st: "stft demo_env (Mat (rows ?audio)) 2048 None (int (16000 div 50)) True = Inr ?s"
    by (rule demo_loudness_stft) simp_all
  have ws: "well_shaped ?s (length (A_weighting demo_env (fft_frequencies demo_env 16000 2048)))"
    using well_shaped_stft_values[of "replicate 2048 1" 2048 "16000 div 50"] by simp
  have e: "expected_frames (last_dim (rows ?audio)) 16000 50 = 28"
    by (simp add: last_dim_def expected_frames_9280)
  from compute_loudness_pipeline[OF _ _ st ws, of 120 "207 / 10"]
  obtain l where l: "compute_loudness demo_env ?audio 16000 50 2048 120 (207 / 10) = Inr l"
    and n: "length (rows l) = length ?s"
    and r: "\<forall>b<length ?s. length (rows l ! b) =
              expected_frames (last_dim (rows ?audio)) 16000 50"
    by auto
  have "length (rows l ! 0) = 28" "length (rows l ! 1) = 28"
    using r unfolding e by simp_all
  then show ?thesis using l n by simp
qed

section \<open>The loss with the loudness term: proofs\<close>

lemma forward_with_loudness:
  assumes S: "\<And>n. n \<in> set (fft_sizes self) \<Longrightarrow> stft_at e input_audio (overlap self) n = Inr (S n)"
    and T: "\<And>n. n \<in> set (fft_sizes self) \<Longrightarrow> stft_at e target_audio (overlap self) n = Inr (T n)"
    and cmp: "\<And>n. n \<in> set (fft_sizes self) \<Longrightarrow> comparable (S n) (T n)"
    and sup: "supported loss_type"
    and il: "0 < loud_w self \<Longrightarrow>
          compute_loudness e input_audio (sl_sample_rate self) 50 2048 120 (207 / 10) = Inr input_l"
    and tl: "0 < loud_w self \<Longrightarrow>
          compute_loudness e target_audio (sl_sample_rate self) 50 2048 120 (207 / 10) = Inr target_l"
    and ne: "0 < loud_w self \<Longrightarrow> flat input_l \<noteq> [] \<and> length (flat input_l) = length (flat target_l)"
  shows "forward e self input_audio target_audio loss_type reduction =
     Inr (Fin ((\<Sum>n\<leftarrow>fft_sizes self.
                  resolution_term e self loss_type (map3 amp (S n)) (map3 amp (T n)))
               + (if 0 < loud_w self
                  then loud_w self * mean_distance loss_type (flat input_l) (flat target_l)
                  else 0)))"
proof -
  let ?sizes = "fft_sizes self"
  let ?specs = "map (\<lambda>n. map3 amp (S n)) ?sizes"
  let ?tspecs = "map (\<lambda>n. map3 amp (T n)) ?sizes"
  have m1: "MultiscaleFFT e input_audio ?sizes (overlap self) = Inr ?specs"
    using S by (rule MultiscaleFFT_Inr)
  have m2: "MultiscaleFFT e target_audio ?sizes (overlap self) = Inr ?tspecs"
    using T by (rule MultiscaleFFT_Inr)
  have c: "list_all2 comparable ?specs (take (length ?specs) (drop 0 ?tspecs))"
    using cmp by (simp add: list_all2_conv_all_nth comparable_def flat3_map3)
  have z: "zip ?specs ?tspecs = map (\<lambda>n. (map3 amp (S n), map3 amp (T n))) ?sizes"
    by (simp add: zip_map_map zip_same_conv_map)
  have "forward_loop e self loss_type reduction ?tspecs 0 ?specs (Fin 0) =
      Inr (Fin (0 + (\<Sum>(s, t)\<leftarrow>zip ?specs (drop 0 ?tspecs). resolution_term e self loss_type s t)))"
    by (rule forward_loop_supported[OF sup _ c]) simp
  then have l: "forward_loop e self loss_type reduction ?tspecs 0 ?specs (Fin 0) =
      Inr (Fin (\<Sum>n\<leftarrow>?sizes. resolution_term e self loss_type (map3 amp (S n)) (map3 amp (T n))))"
    by (simp add: z comp_def)
  show ?thesis
  proof (cases "0 < loud_w self")
    case True
    have "loss_func (flat input_l) (flat target_l) loss_type reduction =
        Inr (Some (Fin (mean_distance loss_type (flat input_l) (flat target_l))))"
      using ne[OF True] by (intro loss_func_supported sup) simp_all
    then show ?thesis
      using True by (simp add: forward_def m1 m2 l il[OF True] tl[OF True] add_term_def)
  next
    case False
    then show ?thesis by (simp add: forward_def m1 m2 l)
  qed
qed

lemma spectral_sum_eq:
  assumes "\<And>n. n \<in> set (fft_sizes self) \<Longrightarrow> stft_at e input_audio (overlap self) n = Inr (S n)"
    and "\<And>n. n \<in> set (fft_sizes self) \<Longrightarrow> stft_at e target_audio (overlap self) n = Inr (T n)"
  shows "spectral_sum e self loss_type input_audio target_audio =
     (\<Sum>n\<leftarrow>fft_sizes self. resolution_term e self loss_type (map3 amp (S n)) (map3 amp (T n)))"
  unfolding spectral_sum_def
  by (intro arg_cong[where f = sum_list] map_cong refl) (simp add: assms)

lemma flat_rows: "flat l = concat (rows l)"
  by (cases l) simp_all

lemma reflect_pad_replicate:
  assumes "p < L"
  shows "reflect_pad (replicate L c) p = replicate (L + 2 * p) c"
proof -
  have "min p (L - Suc 0) = p" using assms by simp
  then have "reflect_pad (replicate L c) p = replicate p c @ replicate L c @ replicate p c"
    by (simp add: reflect_pad_def tl_replicate)
  also have "\<dots> = replicate (p + (L + p)) c" by (simp only: replicate_add)
  finally show ?thesis by (simp add: add.commute mult_2)
qed

lemma frames_of_replicate:
  assumes "n \<le> L" "0 < hop"
  shows "frames_of (replicate L c) n hop = replicate ((L - n) div hop + 1) (replicate n c)"
proof (rule nth_equalityI)
  show "length (frames_of (replicate L c) n hop) = length (replicate ((L - n) div hop + 1) (replicate n c))"
    by (simp add: frames_of_def)
next
  fix m assume "m < length (frames_of (replicate L c) n hop)"
  then have m: "m \<le> (L - n) div hop" by (simp add: frames_of_def)
  then have "m * hop \<le> (L - n) div hop * hop" by simp
  also have "\<dots> \<le> L - n" by simp
  finally have "m * hop + n \<le> L" using assms(1) by simp
  then have "min n (L - m * hop) = n" by simp
  then have a: "frames_of (replicate L c) n hop ! m = replicate n c"
    using m by (simp add: frames_of_def del: upt_Suc)
  have b: "replicate ((L - n) div hop + 1) (replicate n c) ! m = replicate n c"
    using m by (intro nth_replicate) simp
  show "frames_of (replicate L c) n hop ! m = replicate ((L - n) div hop + 1) (replicate n c) ! m"
    unfolding a b ..
qed

lemma dft_bin_zero: "dft_bin w (replicate n 0) k = (0, 0)"
proof -
  have z: "map (\<lambda>j. w ! j * replicate n 0 ! j * f j) [0..<n] = map (\<lambda>j. 0) [0..<n]" for f :: "nat \<Rightarrow> real"
    by (intro map_cong refl) simp
  show ?thesis by (simp add: dft_bin_def z)
qed

lemma dft_bin_dc: "fst (dft_bin (replicate n 1) (replicate n c) 0) = real n * c"
proof -
  have z: "map (\<lambda>j. replicate n 1 ! j * replicate n c ! j) [0..<n] = map (\<lambda>j. c) [0..<n]"
    by (intro map_cong refl) simp
  show ?thesis by (simp add: dft_bin_def z sum_list_triv)
qed

lemma amp_nonneg: "0 \<le> amp x"
  by (simp add: amp_def)

lemma bin_loudness_mono:
  assumes "amp x \<le> amp y"
  shows "bin_loudness x a r g \<le> bin_loudness y a r g"
proof -
  have p: "0 < sqrt (amp x + 1 / 100000) + 1 / 100000"
    using amp_nonneg[of x] by (simp add: add_pos_pos)
  have "sqrt (amp x + 1 / 100000) + 1 / 100000 \<le> sqrt (amp y + 1 / 100000) + 1 / 100000"
    using assms by simp
  moreover have "0 < sqrt (amp y + 1 / 100000) + 1 / 100000"
    using amp_nonneg[of y] by (simp add: add_pos_pos)
  ultimately have "log 10 (sqrt (amp x + 1 / 100000) + 1 / 100000) \<le> log 10 (sqrt (amp y + 1 / 100000) + 1 / 100000)"
    using p by simp
  then show ?thesis by (simp add: bin_loudness_def max_def)
qed

lemma bin_loudness_silence:
  "bin_loudness (0, 0) 0 (207 / 10) 120 < - (207 / 10)"
proof -
  have "sqrt (1 / 100000) \<le> sqrt (1 / 4)" by simp
  also have "\<dots> = 1 / 2" by (simp add: real_sqrt_divide)
  finally have "sqrt (1 / 100000) + 1 / 100000 < 1" by simp
  moreover have "0 < sqrt (1 / 100000) + 1 / 100000" by (simp add: add_pos_pos)
  ultimately have "log 10 (sqrt (1 / 100000) + 1 / 100000) < 0" by simp
  then show ?thesis by (simp add: bin_loudness_def amp_def)
qed

lemma bin_loudness_loud:
  assumes "1 \<le> amp x"
  shows "- (207 / 10) \<le> bin_loudness x 0 (207 / 10) 120"
proof -
  have "1 \<le> sqrt (amp x + 1 / 100000)" using assms by simp
  then have "1 \<le> sqrt (amp x + 1 / 100000) + 1 / 100000" by linarith
  then have "0 \<le> log 10 (sqrt (amp x + 1 / 100000) + 1 / 100000)" by simp
  then show ?thesis by (simp add: bin_loudness_def max_def)
qed


lemma demo_stft_constant:
  assumes "0 < sr div fr" "0 < n" "n div 2 < L"
  shows "stft demo_env (Mat [replicate L c]) n None (int (sr div fr)) True =
     Inr [map (\<lambda>k. replicate ((L + 2 * (n div 2) - n) div (sr div fr) + 1)
                   (dft_bin (replicate n 1) (replicate n c) k)) [0..<n div 2 + 1]]"
proof -
  have n: "n \<le> L + 2 * (n div 2)" using assms(3) by linarith
  have "stft demo_env (Mat (rows (Mat [replicate L c]))) n None (int (sr div fr)) True =
     Inr (stft_values (replicate n 1) n (sr div fr)
            (map (\<lambda>xs. reflect_pad xs (n div 2)) (rows (Mat [replicate L c]))))"
    by (rule demo_loudness_stft) (use assms in simp_all)
  then show ?thesis
    by (simp add: reflect_pad_replicate[OF assms(3)] stft_values_def
        frames_of_replicate[OF n assms(1)] del: upt_Suc)
qed

lemma pad_or_trim_row_replicate:
  "e \<le> f \<Longrightarrow> pad_or_trim_row (replicate f v) e pad = replicate e v"
  by (simp add: pad_or_trim_row_def min_def)

lemma demo_weight_nth:
  "k < n div 2 + 1 \<Longrightarrow> A_weighting demo_env (fft_frequencies demo_env sr n) ! k = 0"
  by (simp add: demo_env_def del: upt_Suc)

lemma demo_loudness_constant:
  assumes "0 < sr div fr" "0 < n" "n div 2 < L"
    and "expected_frames L sr fr \<le> (L + 2 * (n div 2) - n) div (sr div fr) + 1"
  shows "\<exists>l. compute_loudness demo_env (Mat [replicate L c]) sr fr n range_db ref_db = Inr l
           \<and> flat l = replicate (expected_frames L sr fr) (constant_level n c ref_db range_db)"
proof -
  let ?F = "(L + 2 * (n div 2) - n) div (sr div fr) + 1"
  let ?K = "n div 2 + 1"
  let ?d = "\<lambda>k. dft_bin (replicate n 1) (replicate n c) k"
  let ?M = "map (\<lambda>k. replicate ?F (?d k)) [0..<?K]"
  let ?aw = "A_weighting demo_env (fft_frequencies demo_env sr n)"
  let ?audio = "Mat [replicate L c]"
  have fr: "0 < fr" using assms(1) by (cases "fr = 0") simp_all
  have sr: "0 < sr" using assms(1) by (cases "sr = 0") simp_all
  have st: "stft demo_env (Mat (rows ?audio)) n None (int (sr div fr)) True = Inr [?M]"
    using demo_stft_constant[OF assms(1-3), of c] by simp
  have ws: "well_shaped [?M] (length ?aw)"
    by (simp add: well_shaped_def list_all_iff hd_map del: upt_Suc)
  from compute_loudness_rows[OF fr sr st ws, of range_db ref_db]
  obtain l where l: "compute_loudness demo_env ?audio sr fr n range_db ref_db = Inr l"
    and r: "rows l = [pad_or_trim_row (mean_over_bins (clamped_bins ?aw ref_db range_db ?M))
                (expected_frames L sr fr) (- range_db)]"
    by (auto simp: last_dim_def)
  have 1: "length ?M = length ?aw" by simp
  have 2: "?M \<noteq> []" by simp
  have 3: "\<forall>k<length ?M. length (?M ! k) = length (hd ?M)"
    by (simp add: hd_map del: upt_Suc)
  have h: "length (hd ?M) = ?F" by (simp add: hd_map del: upt_Suc)
  note M = mean_clamped_bins[OF 1 2 3, where ref_db = ref_db and range_db = range_db]
  have mo: "mean_over_bins (clamped_bins ?aw ref_db range_db ?M) =
          replicate ?F (constant_level n c ref_db range_db)"
  proof (rule nth_equalityI)
    show "length (mean_over_bins (clamped_bins ?aw ref_db range_db ?M)) =
        length (replicate ?F (constant_level n c ref_db range_db))"
      using M(1) h by simp
  next
    fix t assume "t < length (mean_over_bins (clamped_bins ?aw ref_db range_db ?M))"
    then have t: "t < ?F" using M(1) h by simp
    then have t': "t < length (hd ?M)" using h by simp
    have lm: "length ?M = ?K" by simp
    have e: "map (\<lambda>k. bin_loudness (?M ! k ! t) (?aw ! k) ref_db range_db) [0..<?K] =
          map (\<lambda>k. bin_loudness (?d k) 0 ref_db range_db) [0..<?K]"
      using t by (intro map_cong) (simp_all add: demo_weight_nth del: upt_Suc replicate.simps)
    have a: "mean_over_bins (clamped_bins ?aw ref_db range_db ?M) ! t =
        constant_level n c ref_db range_db"
      unfolding M(2)[OF t'] lm e constant_level_def ..
    have b: "replicate ?F (constant_level n c ref_db range_db) ! t =
        constant_level n c ref_db range_db"
      using t by (rule nth_replicate)
    show "mean_over_bins (clamped_bins ?aw ref_db range_db ?M) ! t =
        replicate ?F (constant_level n c ref_db range_db) ! t"
      unfolding a b ..
  qed
  have "rows l = [replicate (expected_frames L sr fr) (constant_level n c ref_db range_db)]"
    unfolding r mo pad_or_trim_row_replicate[OF assms(4)] ..
  then show ?thesis using l by (simp add: flat_rows)
qed

lemma sum_list_strict_first:
  fixes f g :: "nat \<Rightarrow> real"
  assumes "f 0 < g 0" "\<And>k. f k \<le> g k"
  shows "(\<Sum>k\<leftarrow>[0..<Suc m]. f k) < (\<Sum>k\<leftarrow>[0..<Suc m]. g k)"
proof -
  have "(\<Sum>k\<leftarrow>[Suc 0..<Suc m]. f k) \<le> (\<Sum>k\<leftarrow>[Suc 0..<Suc m]. g k)"
    by (rule sum_list_mono) (rule assms(2))
  then show ?thesis using assms(1) by (simp add: upt_conv_Cons del: upt_Suc)
qed

lemma constant_level_less:
  assumes "1 \<le> (real n * c)\<^sup>2"
  shows "constant_level n 0 (207 / 10) 120 < constant_level n c (207 / 10) 120"
proof -
  let ?f = "\<lambda>k. bin_loudness (dft_bin (replicate n 1) (replicate n 0) k) 0 (207 / 10) 120"
  let ?g = "\<lambda>k. bin_loudness (dft_bin (replicate n 1) (replicate n c) k) 0 (207 / 10) 120"
  have "(fst (dft_bin (replicate n 1) (replicate n c) 0))\<^sup>2 \<le> amp (dft_bin (replicate n 1) (replicate n c) 0)"
    by (simp add: amp_def)
  then have "1 \<le> amp (dft_bin (replicate n 1) (replicate n c) 0)"
    using assms by (simp add: dft_bin_dc)
  then have "- (207 / 10) \<le> ?g 0" by (rule bin_loudness_loud)
  then have a: "?f 0 < ?g 0" using bin_loudness_silence by (simp add: dft_bin_zero)
  have b: "?f k \<le> ?g k" for k
    by (rule bin_loudness_mono) (simp add: dft_bin_zero amp_nonneg, simp add: amp_def)
  have "(\<Sum>k\<leftarrow>[0..<Suc (n div 2)]. ?f k) < (\<Sum>k\<leftarrow>[0..<Suc (n div 2)]. ?g k)"
    using a b by (rule sum_list_strict_first)
  then show ?thesis
    unfolding constant_level_def by (simp add: divide_strict_right_mono del: upt_Suc)
qed

lemma mean_distance_replicate:
  "0 < m \<Longrightarrow> mean_distance ''L1'' (replicate m a) (replicate m b) = \<bar>a - b\<bar>"
  by (simp add: mean_distance_def zip_replicate pointwise_distance_def sum_list_replicate)


lemma demo_default_stft:
  assumes "n \<in> set [64, 128, 256, 512, 1024, 2048]" "list_all (\<lambda>xs. 2048 \<le> length xs) (rows audio)"
  shows "stft_at demo_env audio (3 / 4) n =
     Inr (stft_values (hann_window n) n (nat (py_int ((1 - 3 / 4) * real n))) (rows audio))"
proof (rule stft_at_demo)
  show "0 < py_int ((1 - 3 / 4) * real n)" using assms(1) by (auto simp: py_int_def)
  show "0 < n" using assms(1) by auto
  have "n \<le> 2048" using assms(1) by auto
  then show "list_all (\<lambda>xs. n \<le> length xs) (rows audio)"
    using assms(2) by (auto simp: list_all_iff)
qed

lemma loudness_term_constant:
  assumes "0 < sl_sample_rate self div 50" "1024 < L"
    and "expected_frames L (sl_sample_rate self) 50 \<le> L div (sl_sample_rate self div 50) + 1"
    and "0 < expected_frames L (sl_sample_rate self) 50"
  shows "loudness_term demo_env self ''L1'' (Mat [replicate L a]) (Mat [replicate L b]) =
     loud_w self * \<bar>constant_level 2048 a (207 / 10) 120 - constant_level 2048 b (207 / 10) 120\<bar>"
proof -
  have f: "expected_frames L (sl_sample_rate self) 50
      \<le> (L + 2 * (2048 div 2) - 2048) div (sl_sample_rate self div 50) + 1"
    using assms(3) by simp
  have n: "2048 div 2 < L" using assms(2) by simp
  obtain la where la: "compute_loudness demo_env (Mat [replicate L a]) (sl_sample_rate self) 50 2048 120
        (207 / 10) = Inr la"
      "flat la = replicate (expected_frames L (sl_sample_rate self) 50) (constant_level 2048 a (207 / 10) 120)"
    using demo_loudness_constant[OF assms(1) _ n f, of a 120 "207 / 10"] by auto
  obtain lb where lb: "compute_loudness demo_env (Mat [replicate L b]) (sl_sample_rate self) 50 2048 120
        (207 / 10) = Inr lb"
      "flat lb = replicate (expected_frames L (sl_sample_rate self) 50) (constant_level 2048 b (207 / 10) 120)"
    using demo_loudness_constant[OF assms(1) _ n f, of b 120 "207 / 10"] by auto
  show ?thesis
    unfolding loudness_term_def la(1) lb(1)
    by (simp add: la(2) lb(2) mean_distance_replicate[OF assms(4)])
qed

lemma forward_demo_constant:
  assumes "fft_sizes self = [64, 128, 256, 512, 1024, 2048]" "overlap self = 3 / 4"
    and "0 < sl_sample_rate self div 50" "2048 \<le> L"
    and "expected_frames L (sl_sample_rate self) 50 \<le> L div (sl_sample_rate self div 50) + 1"
    and "0 < expected_frames L (sl_sample_rate self) 50"
    and "0 < loud_w self"
  shows "forward demo_env self (Mat [replicate L a]) (Mat [replicate L b]) ''L1'' reduction =
     Inr (Fin (spectral_sum demo_env self ''L1'' (Mat [replicate L a]) (Mat [replicate L b])
               + loudness_term demo_env self ''L1'' (Mat [replicate L a]) (Mat [replicate L b])))"
proof -
  let ?x = "Mat [replicate L a]" and ?y = "Mat [replicate L b]"
  let ?S = "\<lambda>n. stft_values (hann_window n) n (nat (py_int ((1 - 3 / 4) * real n))) (rows ?x)"
  let ?T = "\<lambda>n. stft_values (hann_window n) n (nat (py_int ((1 - 3 / 4) * real n))) (rows ?y)"
  have 1: "\<And>n. n \<in> set (fft_sizes self) \<Longrightarrow> stft_at demo_env ?x (overlap self) n = Inr (?S n)"
    unfolding assms(1,2) by (rule demo_default_stft) (use assms(4) in simp_all)
  have 2: "\<And>n. n \<in> set (fft_sizes self) \<Longrightarrow> stft_at demo_env ?y (overlap self) n = Inr (?T n)"
    unfolding assms(1,2) by (rule demo_default_stft) (use assms(4) in simp_all)
  have 3: "\<And>n. n \<in> set (fft_sizes self) \<Longrightarrow> comparable (?S n) (?T n)"
    by (rule comparable_stft_values) simp_all
  have 4: "supported ''L1''" by (simp add: supported_def)
  have f: "expected_frames L (sl_sample_rate self) 50
      \<le> (L + 2 * (2048 div 2) - 2048) div (sl_sample_rate self div 50) + 1"
    using assms(5) by simp
  have n: "2048 div 2 < L" using assms(4) by simp
  obtain la where la: "compute_loudness demo_env ?x (sl_sample_rate self) 50 2048 120 (207 / 10) = Inr la"
      "flat la = replicate (expected_frames L (sl_sample_rate self) 50) (constant_level 2048 a (207 / 10) 120)"
    using demo_loudness_constant[OF assms(3) _ n f, of a 120 "207 / 10"] by auto
  obtain lb where lb: "compute_loudness demo_env ?y (sl_sample_rate self) 50 2048 120 (207 / 10) = Inr lb"
      "flat lb = replicate (expected_frames L (sl_sample_rate self) 50) (constant_level 2048 b (207 / 10) 120)"
    using demo_loudness_constant[OF assms(3) _ n f, of b 120 "207 / 10"] by auto
  have 5: "flat la \<noteq> [] \<and> length (flat la) = length (flat lb)"
    using assms(6) by (simp add: la(2) lb(2))
  have lt: "loudness_term demo_env self ''L1'' ?x ?y =
      loud_w self * mean_distance ''L1'' (flat la) (flat lb)"
    unfolding loudness_term_def la(1) lb(1) by simp
  show ?thesis
    using forward_with_loudness[of self demo_env ?x ?S ?y ?T "''L1''" la lb reduction,
        OF 1 2 3 4 la(1) lb(1) 5] assms(7)
    by (simp add: spectral_sum_eq[of self demo_env ?x ?S ?y ?T, OF 1 2] lt)
qed

text \<open>
  Claim C1, as amended. When the STFT of both signals succeeds for every configured size,
  with spectrograms that can be compared entry by entry (as equal-shaped batches give), and
  the \<open>loss_type\<close> is one of the three supported ones, \<open>forward\<close> returns the
  sum over the configured \<open>fft_sizes\<close> of \<open>mag_w\<close> times the mean pointwise
  distance between the two power spectrograms plus \<open>log_mag_w\<close> times the same
  distance between their logarithms \<open>ln (spec + eps)\<close>, plus, when \<open>loud_w\<close> is
  positive, \<open>loud_w\<close> times the same distance between the loudness curves that
  \<open>compute_loudness\<close> gives the two signals at the configured sample rate (the
  call succeeding with two curves of the same size, not empty). A weight that is not
  positive adds nothing, and the sum is not divided by the number of resolutions.
\<close>

theorem forward_sums_resolutions:
  assumes "\<And>n. n \<in> set (fft_sizes self) \<Longrightarrow> stft_at e input_audio (overlap self) n = Inr (S n)"
    and "\<And>n. n \<in> set (fft_sizes self) \<Longrightarrow> stft_at e target_audio (overlap self) n = Inr (T n)"
    and "\<And>n. n \<in> set (fft_sizes self) \<Longrightarrow> comparable (S n) (T n)"
    and "supported loss_type"
    and "0 < loud_w self \<Longrightarrow>
          compute_loudness e input_audio (sl_sample_rate self) 50 2048 120 (207 / 10) = Inr input_l"
    and "0 < loud_w self \<Longrightarrow>
          compute_loudness e target_audio (sl_sample_rate self) 50 2048 120 (207 / 10) = Inr target_l"
    and "0 < loud_w self \<Longrightarrow> flat input_l \<noteq> [] \<and> length (flat input_l) = length (flat target_l)"
  shows "forward e self input_audio target_audio loss_type reduction =
     Inr (Fin ((\<Sum>n\<leftarrow>fft_sizes self.
        (if 0 < mag_w self
         then mag_w self * mean_distance loss_type (flat3 (map3 amp (S n))) (flat3 (map3 amp (T n)))
         else 0)
        + (if 0 < log_mag_w self
           then log_mag_w self * mean_distance loss_type
                  (flat3 (map3 (\<lambda>x. ln (amp x + eps e)) (S n)))
                  (flat3 (map3 (\<lambda>x. ln (amp x + eps e)) (T n)))
           else 0))
      + (if 0 < loud_w self
         then loud_w self * mean_distance loss_type (flat input_l) (flat target_l)
         else 0)))"
  using forward_with_loudness[OF assms, of reduction]
  by (simp add: resolution_term_def map3_map3 cong: if_cong)

text \<open>
  The claim as stated fails when \<open>loud_w\<close> is positive: \<open>forward\<close> returns the
  sum of the claim plus the loudness term. With the three weights 1 and the default sizes,
  a second of silence against a constant signal gives a loudness term that is positive, so
  the loss is not the sum over the resolutions.
\<close>

theorem forward_loudness_counterexample:
  "forward demo_env
     \<lparr>fft_sizes = [64, 128, 256, 512, 1024, 2048], overlap = 3 / 4, sl_sample_rate = 16000,
      mag_w = 1, log_mag_w = 1, loud_w = 1\<rparr>
     (Mat [replicate 16200 0]) (Mat [replicate 16200 1]) ''L1'' ''mean''
   = Inr (Fin (spectral_sum demo_env
                  \<lparr>fft_sizes = [64, 128, 256, 512, 1024, 2048], overlap = 3 / 4,
                   sl_sample_rate = 16000, mag_w = 1, log_mag_w = 1, loud_w = 1\<rparr>
                  ''L1'' (Mat [replicate 16200 0]) (Mat [replicate 16200 1])
               + loudness_term demo_env
                  \<lparr>fft_sizes = [64, 128, 256, 512, 1024, 2048], overlap = 3 / 4,
                   sl_sample_rate = 16000, mag_w = 1, log_mag_w = 1, loud_w = 1\<rparr>
                  ''L1'' (Mat [replicate 16200 0]) (Mat [replicate 16200 1])))
   \<and> 0 < loudness_term demo_env
            \<lparr>fft_sizes = [64, 128, 256, 512, 1024, 2048], overlap = 3 / 4,
             sl_sample_rate = 16000, mag_w = 1, log_mag_w = 1, loud_w = 1\<rparr>
            ''L1'' (Mat [replicate 16200 0]) (Mat [replicate 16200 1])
   \<and> forward demo_env
     \<lparr>fft_sizes = [64, 128, 256, 512, 1024, 2048], overlap = 3 / 4, sl_sample_rate = 16000,
      mag_w = 1, log_mag_w = 1, loud_w = 1\<rparr>
     (Mat [replicate 16200 0]) (Mat [replicate 16200 1]) ''L1'' ''mean''
   \<noteq> Inr (Fin (spectral_sum demo_env
                  \<lparr>fft_sizes = [64, 128, 256, 512, 1024, 2048], overlap = 3 / 4,
                   sl_sample_rate = 16000, mag_w = 1, log_mag_w = 1, loud_w = 1\<rparr>
                  ''L1'' (Mat [replicate 16200 0]) (Mat [replicate 16200 1])))"
proof -
  let ?self = "\<lparr>fft_sizes = [64, 128, 256, 512, 1024, 2048], overlap = 3 / 4, sl_sample_rate = 16000,
      mag_w = 1, log_mag_w = 1, loud_w = 1\<rparr>"
  let ?x = "Mat [replicate 16200 0]" and ?y = "Mat [replicate 16200 1]"
  have f: "forward demo_env ?self ?x ?y ''L1'' ''mean'' =
      Inr (Fin (spectral_sum demo_env ?self ''L1'' ?x ?y + loudness_term demo_env ?self ''L1'' ?x ?y))"
    by (rule forward_demo_constant) (simp_all add: expected_frames_16200)
  have "constant_level 2048 0 (207 / 10) 120 < constant_level 2048 1 (207 / 10) 120"
    by (rule constant_level_less) simp
  moreover have "loudness_term demo_env ?self ''L1'' ?x ?y =
      loud_w ?self * \<bar>constant_level 2048 0 (207 / 10) 120 - constant_level 2048 1 (207 / 10) 120\<bar>"
    by (rule loudness_term_constant) (simp_all add: expected_frames_16200)
  ultimately have p: "0 < loudness_term demo_env ?self ''L1'' ?x ?y" by simp
  show ?thesis using f p by simp
qed

theorem forward_sums_resolutions_witness:
  "\<exists>v. forward demo_env
          \<lparr>fft_sizes = [64, 128, 256, 512, 1024, 2048], overlap = 3 / 4, sl_sample_rate = 16000,
           mag_w = 1, log_mag_w = 1, loud_w = 1\<rparr>
          (Mat [replicate 16200 0]) (Mat [replicate 16200 1]) ''L1'' ''mean''
        = Inr (Fin v)"
proof -
  let ?self = "\<lparr>fft_sizes = [64, 128, 256, 512, 1024, 2048], overlap = 3 / 4, sl_sample_rate = 16000,
           mag_w = 1, log_mag_w = 1, loud_w = 1\<rparr>"
  let ?x = "Mat [replicate 16200 0]" and ?y = "Mat [replicate 16200 1]"
  let ?S = "\<lambda>n. stft_values (hann_window n) n (nat (py_int ((1 - 3 / 4) * real n))) (rows ?x)"
  let ?T = "\<lambda>n. stft_values (hann_window n) n (nat (py_int ((1 - 3 / 4) * real n))) (rows ?y)"
  have 1: "\<And>n. n \<in> set (fft_sizes ?self) \<Longrightarrow> stft_at demo_env ?x (overlap ?self) n = Inr (?S n)"
    using demo_default_stft[of _ ?x] by simp
  have 2: "\<And>n. n \<in> set (fft_sizes ?self) \<Longrightarrow> stft_at demo_env ?y (overlap ?self) n = Inr (?T n)"
    using demo_default_stft[of _ ?y] by simp
  have 3: "\<And>n. n \<in> set (fft_sizes ?self) \<Longrightarrow> comparable (?S n) (?T n)"
    by (rule comparable_stft_values) simp_all
  have 4: "supported ''L1''" by (simp add: supported_def)
  have e: "expected_frames 16200 16000 50 \<le> (16200 + 2 * (2048 div 2) - 2048) div (16000 div 50) + 1"
    by (simp add: expected_frames_16200)
  obtain la where la: "compute_loudness demo_env ?x 16000 50 2048 120 (207 / 10) = Inr la"
      "flat la = replicate (expected_frames 16200 16000 50) (constant_level 2048 0 (207 / 10) 120)"
    using demo_loudness_constant[OF _ _ _ e, of 0 120 "207 / 10"] by auto
  obtain lb where lb: "compute_loudness demo_env ?y 16000 50 2048 120 (207 / 10) = Inr lb"
      "flat lb = replicate (expected_frames 16200 16000 50) (constant_level 2048 1 (207 / 10) 120)"
    using demo_loudness_constant[OF _ _ _ e, of 1 120 "207 / 10"] by auto
  have 5: "flat la \<noteq> [] \<and> length (flat la) = length (flat lb)"
    by (simp add: la(2) lb(2) expected_frames_16200)
  show ?thesis
    using forward_sums_resolutions[of ?self demo_env ?x ?S ?y ?T "''L1''" la lb "''mean''",
        OF 1 2 3 4] la(1) lb(1) 5
    by simp
qed

end
